theory Spec2Isabelle
  imports Complex_Main
begin

section \<open>Python values, errors and containers\<close>

text \<open>
  The values a configuration dictionary holds: integers, floats, strings and one- or
  two-dimensional arrays. The exceptions the modelled code can raise. A Python function that may raise is a
  function into \<open>error + 'a\<close>, with \<open>Inl\<close> for the exception.
\<close>

datatype pval =
    PInt int
  | PReal real
  | PStr string
  | PVec "real list"
  | PMat "real list list"

datatype error =
    KeyError pval
  | IndexError
  | ValueError
  | TypeError
  | AssertionError
  | UnboundLocalError
  | AttributeError

definition ebind :: "error + 'a \<Rightarrow> ('a \<Rightarrow> error + 'b) \<Rightarrow> error + 'b" where
  "ebind m f = (case m of Inl e \<Rightarrow> Inl e | Inr x \<Rightarrow> f x)"

text \<open>\<open>xs[i]\<close> on a Python list or along one axis of an array: a negative index
  counts from the end, an index outside the list raises IndexError.\<close>

definition py_index :: "'a list \<Rightarrow> int \<Rightarrow> error + 'a" where
  "py_index xs i =
     (let n = int (length xs); j = (if i < 0 then i + n else i)
      in if 0 \<le> j \<and> j < n then Inr (xs ! nat j) else Inl IndexError)"

text \<open>\<open>range(n)\<close>: empty when \<open>n \<le> 0\<close>.\<close>

definition py_range :: "int \<Rightarrow> int list" where
  "py_range n = map int [0..<nat n]"

section \<open>Bodies and their time-step information\<close>

text \<open>\<open>StructTimeStepInfo\<close>: the fields the multibody and constraint code reads and
  writes. Arrays are (nested) lists of reals.\<close>

record tstep =
  pos :: "real list list"
  pos_dot :: "real list list"
  pos_ddot :: "real list list"
  psi :: "real list list list"
  psi_dot :: "real list list list"
  psi_ddot :: "real list list list"
  gravity_forces :: "real list list"
  forces_constraints_nodes :: "real list list"
  forces_constraints_FoR :: "real list list"
  q :: "real list"
  dqdt :: "real list"
  dqddt :: "real list"
  mb_dquatdt :: "real list list"
  mb_FoR_pos :: "real list list"
  mb_FoR_vel :: "real list list"
  mb_FoR_acc :: "real list list"
  mb_quat :: "real list list"
  for_pos :: "real list"
  for_vel :: "real list"
  for_acc :: "real list"
  quat :: "real list"

text \<open>\<open>Beam\<close>: \<open>num_dof\<close> stands for \<open>num_dof.value\<close>.\<close>

record beam =
  num_bodies :: int
  num_dof :: int
  FoR_movement :: string
  vdof :: "int list"
  node_master_elem :: "(int \<times> int) list"
  global_elems_num :: "int list"
  global_nodes_num :: "int list"
  ini_info :: tstep

section \<open>DOF addressing\<close>

text \<open>The loop shared by \<open>define_node_dof\<close> and \<open>define_FoR_dof\<close>:
  \<open>for ibody in range(..): dof += MB_beam[ibody].num_dof.value; if free: dof += 10\<close>.\<close>

fun dof_loop :: "beam list \<Rightarrow> int list \<Rightarrow> int \<Rightarrow> error + int" where
  "dof_loop MB_beam [] dof = Inr dof"
| "dof_loop MB_beam (ibody # rest) dof =
     ebind (py_index MB_beam ibody) (\<lambda>b.
       let dof1 = dof + num_dof b;
           dof2 = (if FoR_movement b = ''free'' then dof1 + 10 else dof1)
       in dof_loop MB_beam rest dof2)"

definition define_node_dof :: "beam list \<Rightarrow> int \<Rightarrow> int \<Rightarrow> error + int" where
  "define_node_dof MB_beam node_body num_node =
     ebind (dof_loop MB_beam (py_range node_body) 0) (\<lambda>node_dof.
     ebind (py_index MB_beam node_body) (\<lambda>b.
     ebind (py_index (vdof b) num_node) (\<lambda>v.
       Inr (node_dof + 6 * v))))"

definition define_FoR_dof :: "beam list \<Rightarrow> int \<Rightarrow> error + int" where
  "define_FoR_dof MB_beam FoR_body =
     ebind (dof_loop MB_beam (py_range FoR_body) 0) (\<lambda>FoR_dof.
     ebind (py_index MB_beam FoR_body) (\<lambda>b.
       Inr (FoR_dof + num_dof b)))"

text \<open>What one body adds to the running offset.\<close>

definition body_span :: "beam \<Rightarrow> int" where
  "body_span b = num_dof b + (if FoR_movement b = ''free'' then 10 else 0)"

section \<open>Configuration dictionaries and the constraint registry\<close>

text \<open>\<open>MBdict\<close> maps a key to a plain value (\<open>num_constraints\<close>) or to a nested
  dictionary (\<open>constraint_00\<close>, ...); a nested dictionary maps parameter names to
  values.\<close>

type_synonym entry = "string \<Rightarrow> pval option"

datatype mbval = MVal pval | MEntry "string \<Rightarrow> pval option"

type_synonym mbdict = "string \<Rightarrow> mbval option"

text \<open>\<open>d[k]\<close> on a dictionary raises KeyError when the key is absent.\<close>

definition dict_get :: "(string \<Rightarrow> 'v option) \<Rightarrow> string \<Rightarrow> error + 'v" where
  "dict_get d k = (case d k of None \<Rightarrow> Inl (KeyError (PStr k)) | Some v \<Rightarrow> Inr v)"

text \<open>\<open>v['name']\<close> on a value of \<open>MBdict\<close>: a nested dictionary is looked up; an
  int, a float or a string cannot be subscripted by a string (TypeError), an array
  refuses a string index (IndexError).\<close>

definition subscript :: "mbval \<Rightarrow> string \<Rightarrow> error + pval" where
  "subscript v k =
     (case v of
        MEntry e \<Rightarrow> dict_get e k
      | MVal (PVec _) \<Rightarrow> Inl IndexError
      | MVal (PMat _) \<Rightarrow> Inl IndexError
      | MVal _ \<Rightarrow> Inl TypeError)"

text \<open>The classes registered by the \<open>@lagrangeconstraint\<close> decorator, in file order.\<close>

datatype lc_kind =
    K_hinge_node_FoR
  | K_hinge_node_FoR_constant_vel
  | K_spherical_node_FoR
  | K_free
  | K_spherical_FoR
  | K_hinge_FoR
  | K_hinge_FoR_wrtG
  | K_fully_constrained_node_FoR
  | K_constant_rot_vel_FoR
  | K_constant_vel_FoR
  | K_lin_vel_node_wrtA
  | K_lin_vel_node_wrtG

definition dict_of_lc :: "string \<Rightarrow> lc_kind option" where
  "dict_of_lc = map_of
     [(''hinge_node_FoR'', K_hinge_node_FoR),
      (''hinge_node_FoR_constant_vel'', K_hinge_node_FoR_constant_vel),
      (''spherical_node_FoR'', K_spherical_node_FoR),
      (''free'', K_free),
      (''spherical_FoR'', K_spherical_FoR),
      (''hinge_FoR'', K_hinge_FoR),
      (''hinge_FoR_wrtG'', K_hinge_FoR_wrtG),
      (''fully_constrained_node_FoR'', K_fully_constrained_node_FoR),
      (''constant_rot_vel_FoR'', K_constant_rot_vel_FoR),
      (''constant_vel_FoR'', K_constant_vel_FoR),
      (''lin_vel_node_wrtA'', K_lin_vel_node_wrtA),
      (''lin_vel_node_wrtG'', K_lin_vel_node_wrtG)]"

text \<open>\<open>lc_from_string\<close>: \<open>dict_of_lc[string]\<close>. A key that is not a string is not in
  the registry; an array is not hashable.\<close>

definition lc_from_string :: "pval \<Rightarrow> error + lc_kind" where
  "lc_from_string v =
     (case v of
        PStr s \<Rightarrow> (case dict_of_lc s of None \<Rightarrow> Inl (KeyError v) | Some k \<Rightarrow> Inr k)
      | PVec _ \<Rightarrow> Inl TypeError
      | PMat _ \<Rightarrow> Inl TypeError
      | _ \<Rightarrow> Inl (KeyError v))"

text \<open>What \<open>__init__\<close> sets for each class.\<close>

fun required_parameters :: "lc_kind \<Rightarrow> string list" where
  "required_parameters K_hinge_node_FoR = [''node_in_body'', ''body'', ''body_FoR'', ''rot_axisB'']"
| "required_parameters K_hinge_node_FoR_constant_vel =
     [''node_in_body'', ''body'', ''body_FoR'', ''rot_axisB'', ''rot_vel'']"
| "required_parameters K_spherical_node_FoR = [''node_in_body'', ''body'', ''body_FoR'']"
| "required_parameters K_free = []"
| "required_parameters K_spherical_FoR = [''body_FoR'']"
| "required_parameters K_hinge_FoR = [''body_FoR'', ''rot_axis_AFoR'']"
| "required_parameters K_hinge_FoR_wrtG = [''body_FoR'', ''rot_axis_AFoR'']"
| "required_parameters K_fully_constrained_node_FoR = [''node_in_body'', ''body'', ''body_FoR'']"
| "required_parameters K_constant_rot_vel_FoR = [''FoR_body'', ''rot_vel'']"
| "required_parameters K_constant_vel_FoR = [''FoR_body'', ''vel'']"
| "required_parameters K_lin_vel_node_wrtA = [''velocity'', ''body_number'', ''node_number'']"
| "required_parameters K_lin_vel_node_wrtG = [''velocity'', ''body_number'', ''node_number'']"

fun n_eq_of :: "lc_kind \<Rightarrow> int" where
  "n_eq_of K_hinge_node_FoR = 5"
| "n_eq_of K_hinge_node_FoR_constant_vel = 6"
| "n_eq_of K_spherical_node_FoR = 3"
| "n_eq_of K_free = 0"
| "n_eq_of K_spherical_FoR = 3"
| "n_eq_of K_hinge_FoR = 5"
| "n_eq_of K_hinge_FoR_wrtG = 5"
| "n_eq_of K_fully_constrained_node_FoR = 6"
| "n_eq_of K_constant_rot_vel_FoR = 3"
| "n_eq_of K_constant_vel_FoR = 6"
| "n_eq_of K_lin_vel_node_wrtA = 3"
| "n_eq_of K_lin_vel_node_wrtG = 3"

text \<open>An initialised constraint object: its class, the attributes \<open>initialise\<close>
  stores (as read from the dictionary, unchecked), \<open>_ieq\<close>, and for the two hinges
  between a node and a frame the cached list \<open>indep\<close>.\<close>

datatype lc =
    Hinge_node_FoR pval pval pval pval int "int list"
      \<comment> \<open>\<open>node_number\<close>, \<open>node_body\<close>, \<open>FoR_body\<close>, \<open>rot_axisB\<close>, \<open>_ieq\<close>, \<open>indep\<close>\<close>
  | Hinge_node_FoR_constant_vel pval pval pval pval pval int "int list"
      \<comment> \<open>\<open>node_number\<close>, \<open>node_body\<close>, \<open>FoR_body\<close>, \<open>rot_axisB\<close>, \<open>rot_vel\<close>, \<open>_ieq\<close>, \<open>indep\<close>\<close>
  | Spherical_node_FoR pval pval pval int
      \<comment> \<open>\<open>node_number\<close>, \<open>node_body\<close>, \<open>FoR_body\<close>, \<open>_ieq\<close>\<close>
  | Free int
      \<comment> \<open>\<open>_ieq\<close>\<close>
  | Spherical_FoR pval int
      \<comment> \<open>\<open>body_FoR\<close>, \<open>_ieq\<close>\<close>
  | Hinge_FoR pval pval int
      \<comment> \<open>\<open>body_FoR\<close>, \<open>rot_axis\<close>, \<open>_ieq\<close>\<close>
  | Hinge_FoR_wrtG pval pval int
      \<comment> \<open>\<open>body_FoR\<close>, \<open>rot_axis\<close>, \<open>_ieq\<close>\<close>
  | Fully_constrained_node_FoR pval pval pval int
      \<comment> \<open>\<open>node_number\<close>, \<open>node_body\<close>, \<open>FoR_body\<close>, \<open>_ieq\<close>\<close>
  | Constant_rot_vel_FoR pval pval int
      \<comment> \<open>\<open>rot_vel\<close>, \<open>FoR_body\<close>, \<open>_ieq\<close>\<close>
  | Constant_vel_FoR pval pval int
      \<comment> \<open>\<open>vel\<close>, \<open>FoR_body\<close>, \<open>_ieq\<close>\<close>
  | Lin_vel_node_wrtA pval pval pval int
      \<comment> \<open>\<open>vel\<close>, \<open>body_number\<close>, \<open>node_number\<close>, \<open>_ieq\<close>\<close>
  | Lin_vel_node_wrtG pval pval pval int
      \<comment> \<open>\<open>vel\<close>, \<open>body_number\<close>, \<open>node_number\<close>, \<open>_ieq\<close>\<close>

fun kind_of :: "lc \<Rightarrow> lc_kind" where
  "kind_of (Hinge_node_FoR _ _ _ _ _ _) = K_hinge_node_FoR"
| "kind_of (Hinge_node_FoR_constant_vel _ _ _ _ _ _ _) = K_hinge_node_FoR_constant_vel"
| "kind_of (Spherical_node_FoR _ _ _ _) = K_spherical_node_FoR"
| "kind_of (Free _) = K_free"
| "kind_of (Spherical_FoR _ _) = K_spherical_FoR"
| "kind_of (Hinge_FoR _ _ _) = K_hinge_FoR"
| "kind_of (Hinge_FoR_wrtG _ _ _) = K_hinge_FoR_wrtG"
| "kind_of (Fully_constrained_node_FoR _ _ _ _) = K_fully_constrained_node_FoR"
| "kind_of (Constant_rot_vel_FoR _ _ _) = K_constant_rot_vel_FoR"
| "kind_of (Constant_vel_FoR _ _ _) = K_constant_vel_FoR"
| "kind_of (Lin_vel_node_wrtA _ _ _ _) = K_lin_vel_node_wrtA"
| "kind_of (Lin_vel_node_wrtG _ _ _ _) = K_lin_vel_node_wrtG"

fun ieq_of :: "lc \<Rightarrow> int" where
  "ieq_of (Hinge_node_FoR _ _ _ _ i _) = i"
| "ieq_of (Hinge_node_FoR_constant_vel _ _ _ _ _ i _) = i"
| "ieq_of (Spherical_node_FoR _ _ _ i) = i"
| "ieq_of (Free i) = i"
| "ieq_of (Spherical_FoR _ i) = i"
| "ieq_of (Hinge_FoR _ _ i) = i"
| "ieq_of (Hinge_FoR_wrtG _ _ i) = i"
| "ieq_of (Fully_constrained_node_FoR _ _ _ i) = i"
| "ieq_of (Constant_rot_vel_FoR _ _ i) = i"
| "ieq_of (Constant_vel_FoR _ _ i) = i"
| "ieq_of (Lin_vel_node_wrtA _ _ _ i) = i"
| "ieq_of (Lin_vel_node_wrtG _ _ _ i) = i"

definition get_n_eq :: "lc \<Rightarrow> int" where
  "get_n_eq c = n_eq_of (kind_of c)"

text \<open>\<open>cls()\<close> followed by \<open>initialise(MBdict_entry, ieq)\<close>: the attributes are read
  from the dictionary in the order of the source, so the first absent key raises
  KeyError; the result is the object and \<open>self._ieq + self._n_eq\<close>.\<close>

fun initialise :: "lc_kind \<Rightarrow> entry \<Rightarrow> int \<Rightarrow> error + (lc \<times> int)" where
  "initialise K_hinge_node_FoR e i =
     ebind (dict_get e ''node_in_body'') (\<lambda>nn.
     ebind (dict_get e ''body'') (\<lambda>nb.
     ebind (dict_get e ''body_FoR'') (\<lambda>fb.
     ebind (dict_get e ''rot_axisB'') (\<lambda>ax.
       Inr (Hinge_node_FoR nn nb fb ax i [], i + 5)))))"
| "initialise K_hinge_node_FoR_constant_vel e i =
     ebind (dict_get e ''node_in_body'') (\<lambda>nn.
     ebind (dict_get e ''body'') (\<lambda>nb.
     ebind (dict_get e ''body_FoR'') (\<lambda>fb.
     ebind (dict_get e ''rot_axisB'') (\<lambda>ax.
     ebind (dict_get e ''rot_vel'') (\<lambda>rv.
       Inr (Hinge_node_FoR_constant_vel nn nb fb ax rv i [], i + 6))))))"
| "initialise K_spherical_node_FoR e i =
     ebind (dict_get e ''node_in_body'') (\<lambda>nn.
     ebind (dict_get e ''body'') (\<lambda>nb.
     ebind (dict_get e ''body_FoR'') (\<lambda>fb.
       Inr (Spherical_node_FoR nn nb fb i, i + 3))))"
| "initialise K_free e i = Inr (Free i, i + 0)"
| "initialise K_spherical_FoR e i =
     ebind (dict_get e ''body_FoR'') (\<lambda>fb.
       Inr (Spherical_FoR fb i, i + 3))"
| "initialise K_hinge_FoR e i =
     ebind (dict_get e ''body_FoR'') (\<lambda>fb.
     ebind (dict_get e ''rot_axis_AFoR'') (\<lambda>ax.
       Inr (Hinge_FoR fb ax i, i + 5)))"
| "initialise K_hinge_FoR_wrtG e i =
     ebind (dict_get e ''body_FoR'') (\<lambda>fb.
     ebind (dict_get e ''rot_axis_AFoR'') (\<lambda>ax.
       Inr (Hinge_FoR_wrtG fb ax i, i + 5)))"
| "initialise K_fully_constrained_node_FoR e i =
     ebind (dict_get e ''node_in_body'') (\<lambda>nn.
     ebind (dict_get e ''body'') (\<lambda>nb.
     ebind (dict_get e ''body_FoR'') (\<lambda>fb.
       Inr (Fully_constrained_node_FoR nn nb fb i, i + 6))))"
| "initialise K_constant_rot_vel_FoR e i =
     ebind (dict_get e ''rot_vel'') (\<lambda>rv.
     ebind (dict_get e ''FoR_body'') (\<lambda>fb.
       Inr (Constant_rot_vel_FoR rv fb i, i + 3)))"
| "initialise K_constant_vel_FoR e i =
     ebind (dict_get e ''vel'') (\<lambda>v.
     ebind (dict_get e ''FoR_body'') (\<lambda>fb.
       Inr (Constant_vel_FoR v fb i, i + 6)))"
| "initialise K_lin_vel_node_wrtA e i =
     ebind (dict_get e ''velocity'') (\<lambda>v.
     ebind (dict_get e ''body_number'') (\<lambda>bn.
     ebind (dict_get e ''node_number'') (\<lambda>nn.
       Inr (Lin_vel_node_wrtA v bn nn i, i + 3))))"
| "initialise K_lin_vel_node_wrtG e i =
     ebind (dict_get e ''velocity'') (\<lambda>v.
     ebind (dict_get e ''body_number'') (\<lambda>bn.
     ebind (dict_get e ''node_number'') (\<lambda>nn.
       Inr (Lin_vel_node_wrtG v bn nn i, i + 3))))"

text \<open>\<open>"constraint_%02d" % iconstraint\<close>: the decimal digits of a number of the
  range, padded with zeros to two places.\<close>

definition digit :: "nat \<Rightarrow> char" where
  "digit n = ''0123456789'' ! n"

fun dec_str :: "nat \<Rightarrow> string" where
  "dec_str n = (if n < 10 then [digit n] else dec_str (n div 10) @ [digit (n mod 10)])"

definition constraint_key :: "int \<Rightarrow> string" where
  "constraint_key i =
     ''constraint_'' @ (if nat i < 10 then ''0'' @ dec_str (nat i) else dec_str (nat i))"

text \<open>The body of the loop of \<open>initialize_constraints\<close>, for the indices still to do:
  the entry is looked up for its \<open>behaviour\<close>, the class is instantiated and appended,
  and the entry is looked up again for \<open>initialise\<close>, which gives the next
  \<open>index_eq\<close>.\<close>

fun init_loop :: "mbdict \<Rightarrow> int list \<Rightarrow> int \<Rightarrow> lc list \<Rightarrow> error + lc list" where
  "init_loop MBdict [] index_eq lc_list = Inr lc_list"
| "init_loop MBdict (iconstraint # rest) index_eq lc_list =
     ebind (dict_get MBdict (constraint_key iconstraint)) (\<lambda>v.
     ebind (subscript v ''behaviour'') (\<lambda>behaviour.
     ebind (lc_from_string behaviour) (\<lambda>cls.
     ebind (dict_get MBdict (constraint_key iconstraint)) (\<lambda>v2.
     ebind (case v2 of MEntry e \<Rightarrow> initialise cls e index_eq
                      | MVal (PVec _) \<Rightarrow> Inl IndexError
                      | MVal (PMat _) \<Rightarrow> Inl IndexError
                      | MVal _ \<Rightarrow> Inl TypeError) (\<lambda>(c, index_eq').
       init_loop MBdict rest index_eq' (lc_list @ [c]))))))"

text \<open>\<open>range(num_constraints)\<close> needs an integer.\<close>

definition initialize_constraints :: "mbdict \<Rightarrow> error + lc list" where
  "initialize_constraints MBdict =
     ebind (dict_get MBdict ''num_constraints'') (\<lambda>num_constraints.
       case num_constraints of
         MVal (PInt n) \<Rightarrow> init_loop MBdict (py_range n) 0 []
       | _ \<Rightarrow> Inl TypeError)"

fun define_num_LM_eq_loop :: "lc list \<Rightarrow> int \<Rightarrow> int" where
  "define_num_LM_eq_loop [] num_LM_eq = num_LM_eq"
| "define_num_LM_eq_loop (c # rest) num_LM_eq =
     define_num_LM_eq_loop rest (num_LM_eq + get_n_eq c)"

definition define_num_LM_eq :: "lc list \<Rightarrow> int" where
  "define_num_LM_eq lc_list = define_num_LM_eq_loop lc_list 0"

text \<open>\<open>x -= 1\<close> on a value of the dictionary: numbers and arrays are decremented, a
  string or a nested dictionary raises TypeError.\<close>

fun decrement :: "mbval \<Rightarrow> error + mbval" where
  "decrement (MVal (PInt n)) = Inr (MVal (PInt (n - 1)))"
| "decrement (MVal (PReal r)) = Inr (MVal (PReal (r - 1)))"
| "decrement (MVal (PVec v)) = Inr (MVal (PVec (map (\<lambda>x. x - 1) v)))"
| "decrement (MVal (PMat m)) = Inr (MVal (PMat (map (map (\<lambda>x. x - 1)) m)))"
| "decrement (MVal (PStr s)) = Inl TypeError"
| "decrement (MEntry e) = Inl TypeError"

text \<open>\<open>remove_constraint\<close>: \<open>del MBdict[constraint]\<close> and
  \<open>MBdict['num_constraints'] -= 1\<close> inside \<open>try\<close>, with \<open>except KeyError: pass\<close>. A
  KeyError of either statement ends the function normally with the dictionary as it is
  at that point; a TypeError of the decrement is not caught.\<close>

definition remove_constraint :: "mbdict \<Rightarrow> string \<Rightarrow> error + mbdict" where
  "remove_constraint MBdict constraint =
     (case MBdict constraint of
        None \<Rightarrow> Inr MBdict
      | Some _ \<Rightarrow>
          (let d = MBdict(constraint := None) in
           case d ''num_constraints'' of
             None \<Rightarrow> Inr d
           | Some n \<Rightarrow> ebind (decrement n) (\<lambda>n'. Inr (d(''num_constraints'' \<mapsto> n')))))"

fun scan :: "int \<Rightarrow> lc list \<Rightarrow> bool" where
  "scan s [] = True"
| "scan s (c # cs) = (ieq_of c = s \<and> scan (s + get_n_eq c) cs)"

definition declared :: "mbdict \<Rightarrow> int \<Rightarrow> (lc_kind \<times> entry) option" where
  "declared MBdict i =
     (case MBdict (constraint_key i) of
        Some (MEntry e) \<Rightarrow>
          (case e ''behaviour'' of
             Some (PStr s) \<Rightarrow> map_option (\<lambda>k. (k, e)) (dict_of_lc s)
           | _ \<Rightarrow> None)
      | _ \<Rightarrow> None)"

definition well_formed_spec :: "mbdict \<Rightarrow> int \<Rightarrow> bool" where
  "well_formed_spec MBdict n \<longleftrightarrow>
     MBdict ''num_constraints'' = Some (MVal (PInt n)) \<and>
     (\<forall>i \<in> {0..<nat n}. \<exists>k e. declared MBdict (int i) = Some (k, e) \<and>
        (\<forall>p \<in> set (required_parameters k). e p \<noteq> None))"

definition eq_range :: "lc \<Rightarrow> int set" where
  "eq_range c = {ieq_of c ..< ieq_of c + get_n_eq c}"

definition example_tstep :: tstep where
  "example_tstep = \<lparr>pos = [], pos_dot = [], pos_ddot = [], psi = [], psi_dot = [],
     psi_ddot = [], gravity_forces = [], forces_constraints_nodes = [],
     forces_constraints_FoR = [], q = [], dqdt = [], dqddt = [], mb_dquatdt = [],
     mb_FoR_pos = [], mb_FoR_vel = [], mb_FoR_acc = [], mb_quat = [], for_pos = [],
     for_vel = [], for_acc = [], quat = []\<rparr>"

definition example_beam :: "int \<Rightarrow> string \<Rightarrow> int list \<Rightarrow> beam" where
  "example_beam n mv vd = \<lparr>num_bodies = 1, num_dof = n, FoR_movement = mv, vdof = vd,
     node_master_elem = [], global_elems_num = [], global_nodes_num = [],
     ini_info = example_tstep\<rparr>"

definition example_MBdict :: mbdict where
  "example_MBdict =
     [''num_constraints'' \<mapsto> MVal (PInt 2),
      ''constraint_00'' \<mapsto> MEntry [''behaviour'' \<mapsto> PStr ''spherical_FoR'',
                                      ''body_FoR'' \<mapsto> PInt 0],
      ''constraint_01'' \<mapsto> MEntry [''behaviour'' \<mapsto> PStr ''hinge_FoR'',
                                      ''body_FoR'' \<mapsto> PInt 1,
                                      ''rot_axis_AFoR'' \<mapsto> PVec [0, 0, 1]]]"

section \<open>Array assignment\<close>

text \<open>Running a failing function over a list, left to right.\<close>

fun emap :: "('a \<Rightarrow> error + 'b) \<Rightarrow> 'a list \<Rightarrow> error + 'b list" where
  "emap f [] = Inr []"
| "emap f (x # xs) = ebind (f x) (\<lambda>y. ebind (emap f xs) (\<lambda>ys. Inr (y # ys)))"

text \<open>Storing a value array into a target of a given shape, as numpy broadcasts it:
  along each axis the value has the target's length, or length 1 (then it is
  repeated); any other shape raises ValueError. \<open>assign1\<close>, \<open>assign2\<close> and \<open>assign3\<close>
  are the cases of one, two and three axes; the first argument is the old content of
  the target, which gives the shape.\<close>

definition assign1 :: "real list \<Rightarrow> real list \<Rightarrow> error + real list" where
  "assign1 old new =
     (if length new = length old then Inr new
      else if length new = 1 then Inr (replicate (length old) (hd new))
      else Inl ValueError)"

definition bc_list :: "('a \<Rightarrow> 'a \<Rightarrow> error + 'a) \<Rightarrow> 'a list \<Rightarrow> 'a list \<Rightarrow> error + 'a list" where
  "bc_list f olds news =
     (if length news = length olds then emap (\<lambda>(old, new). f old new) (zip olds news)
      else if length news = 1 then emap (\<lambda>old. f old (hd news)) olds
      else Inl ValueError)"

definition assign2 :: "real list list \<Rightarrow> real list list \<Rightarrow> error + real list list" where
  "assign2 = bc_list assign1"

definition assign3 ::
  "real list list list \<Rightarrow> real list list list \<Rightarrow> error + real list list list" where
  "assign3 = bc_list assign2"

definition norm_index :: "'a list \<Rightarrow> int \<Rightarrow> nat" where
  "norm_index xs i = nat (if i < 0 then i + int (length xs) else i)"

text \<open>\<open>A[idx, ...] = X\<close> with a list of indices along the first axis, and
  \<open>A[i, ...] = v\<close> with one index.\<close>

definition set_rows ::
  "('a \<Rightarrow> 'a \<Rightarrow> error + 'a) \<Rightarrow> 'a list \<Rightarrow> int list \<Rightarrow> 'a list \<Rightarrow> error + 'a list" where
  "set_rows f A idx X =
     ebind (emap (py_index A) idx) (\<lambda>olds.
     ebind (bc_list f olds X) (\<lambda>news.
       Inr (fold (\<lambda>(i, v) B. B[norm_index A i := v]) (zip idx news) A)))"

definition set_row :: "('a \<Rightarrow> 'a \<Rightarrow> error + 'a) \<Rightarrow> 'a list \<Rightarrow> int \<Rightarrow> 'a \<Rightarrow> error + 'a list" where
  "set_row f A i v =
     ebind (py_index A i) (\<lambda>old.
     ebind (f old v) (\<lambda>new.
       Inr (A[norm_index A i := new])))"

text \<open>The slice \<open>a:b\<close> of an axis of length \<open>n\<close>: where it starts and how long it is.
  Negative bounds count from the end, and bounds outside the axis are clipped.\<close>

definition py_slice :: "nat \<Rightarrow> int \<Rightarrow> int \<Rightarrow> nat \<times> nat" where
  "py_slice n a b =
     (let lo = (if a < 0 then max (a + int n) 0 else min a (int n));
          hi = (if b < 0 then max (b + int n) 0 else min b (int n))
      in (nat lo, nat (hi - lo)))"

definition get_slice :: "'a list \<Rightarrow> int \<Rightarrow> int \<Rightarrow> 'a list" where
  "get_slice xs a b = (case py_slice (length xs) a b of (lo, len) \<Rightarrow> take len (drop lo xs))"

definition set_slice :: "real list \<Rightarrow> int \<Rightarrow> int \<Rightarrow> real list \<Rightarrow> error + real list" where
  "set_slice xs a b v =
     (case py_slice (length xs) a b of (lo, len) \<Rightarrow>
        ebind (assign1 (take len (drop lo xs)) v) (\<lambda>new.
          Inr (take lo xs @ new @ drop (lo + len) xs)))"

text \<open>\<open>xs[-n:]\<close>.\<close>

definition last_entries :: "nat \<Rightarrow> 'a list \<Rightarrow> 'a list" where
  "last_entries n xs = get_slice xs (- int n) (int (length xs))"

text \<open>\<open>(a == b).all()\<close> on two one-dimensional arrays: the comparison broadcasts like
  an assignment.\<close>

definition all_equal :: "real list \<Rightarrow> real list \<Rightarrow> error + bool" where
  "all_equal a b =
     (if length a = length b then Inr (a = b)
      else if length a = 1 then Inr (list_all (\<lambda>y. hd a = y) b)
      else if length b = 1 then Inr (list_all (\<lambda>x. x = hd b) a)
      else Inl ValueError)"

section \<open>Merging the bodies into the multibody system\<close>

text \<open>One pass of the loop of \<open>update_mb_dB_before_merge\<close>.\<close>

definition update_mb_dB_body :: "tstep list \<Rightarrow> tstep \<Rightarrow> int \<Rightarrow> error + tstep" where
  "update_mb_dB_body MB_tstep ts ibody =
     ebind (py_index MB_tstep ibody) (\<lambda>b.
     ebind (set_row assign1 (mb_FoR_pos ts) ibody (for_pos b)) (\<lambda>a1.
     ebind (set_row assign1 (mb_FoR_vel ts) ibody (for_vel b)) (\<lambda>a2.
     ebind (set_row assign1 (mb_FoR_acc ts) ibody (for_acc b)) (\<lambda>a3.
     ebind (set_row assign1 (mb_quat ts) ibody (quat b)) (\<lambda>a4.
     ebind (py_index (mb_dquatdt b) ibody) (\<lambda>row.
     ebind (all_equal row (last_entries 4 (dqddt b))) (\<lambda>same.
       if \<not> same then Inl AssertionError
       else
     ebind (set_row assign1 (mb_dquatdt ts) ibody (last_entries 4 (dqddt b))) (\<lambda>a5.
       Inr (ts\<lparr>mb_FoR_pos := a1, mb_FoR_vel := a2, mb_FoR_acc := a3, mb_quat := a4,
              mb_dquatdt := a5\<rparr>)))))))))"

fun update_mb_dB_loop :: "tstep list \<Rightarrow> int list \<Rightarrow> tstep \<Rightarrow> error + tstep" where
  "update_mb_dB_loop MB_tstep [] ts = Inr ts"
| "update_mb_dB_loop MB_tstep (ibody # rest) ts =
     ebind (update_mb_dB_body MB_tstep ts ibody) (update_mb_dB_loop MB_tstep rest)"

definition update_mb_dB_before_merge :: "tstep \<Rightarrow> tstep list \<Rightarrow> error + tstep" where
  "update_mb_dB_before_merge ts MB_tstep =
     update_mb_dB_loop MB_tstep (py_range (int (length MB_tstep))) ts"

text \<open>One pass of the loop of \<open>merge_multibody\<close>: the node and element fields of the
  body go to its global nodes and elements, its states to the next \<open>num_dof\<close> entries
  of the state vectors. The result is the system's time step and the next
  \<open>first_dof\<close>.\<close>

definition merge_body ::
  "tstep list \<Rightarrow> beam list \<Rightarrow> tstep \<Rightarrow> int \<Rightarrow> int \<Rightarrow> error + (tstep \<times> int)" where
  "merge_body MB_tstep MB_beam ts first_dof ibody =
     ebind (py_index MB_beam ibody) (\<lambda>bm.
     let ibody_elems = global_elems_num bm; ibody_nodes = global_nodes_num bm in
     ebind (py_index MB_tstep ibody) (\<lambda>b.
     ebind (set_rows assign1 (pos ts) ibody_nodes (pos b)) (\<lambda>a1.
     ebind (set_rows assign1 (pos_dot ts) ibody_nodes (pos_dot b)) (\<lambda>a2.
     ebind (set_rows assign1 (pos_ddot ts) ibody_nodes (pos_ddot b)) (\<lambda>a3.
     ebind (set_rows assign2 (psi ts) ibody_elems (psi b)) (\<lambda>a4.
     ebind (set_rows assign2 (psi_dot ts) ibody_elems (psi_dot b)) (\<lambda>a5.
     ebind (set_rows assign2 (psi_ddot ts) ibody_elems (psi_ddot b)) (\<lambda>a6.
     ebind (set_rows assign1 (gravity_forces ts) ibody_nodes (gravity_forces b)) (\<lambda>a7.
     ebind (set_rows assign1 (forces_constraints_nodes ts) ibody_nodes
              (forces_constraints_nodes b)) (\<lambda>a8.
     ebind (py_index (forces_constraints_FoR b) ibody) (\<lambda>fr.
     ebind (set_row assign1 (forces_constraints_FoR ts) ibody fr) (\<lambda>a9.
     let ibody_num_dof = num_dof bm in
     ebind (set_slice (q ts) first_dof (first_dof + ibody_num_dof)
              (get_slice (q b) 0 (- 10))) (\<lambda>s1.
     ebind (set_slice (dqdt ts) first_dof (first_dof + ibody_num_dof)
              (get_slice (dqdt b) 0 (- 10))) (\<lambda>s2.
     ebind (set_slice (dqddt ts) first_dof (first_dof + ibody_num_dof)
              (get_slice (dqddt b) 0 (- 10))) (\<lambda>s3.
     ebind (set_row assign1 (mb_dquatdt ts) ibody (last_entries 4 (dqddt b))) (\<lambda>a10.
       Inr (ts\<lparr>pos := a1, pos_dot := a2, pos_ddot := a3, psi := a4, psi_dot := a5,
              psi_ddot := a6, gravity_forces := a7, forces_constraints_nodes := a8,
              forces_constraints_FoR := a9, q := s1, dqdt := s2, dqddt := s3,
              mb_dquatdt := a10\<rparr>,
            first_dof + ibody_num_dof)))))))))))))))))"

fun merge_loop ::
  "tstep list \<Rightarrow> beam list \<Rightarrow> int list \<Rightarrow> tstep \<Rightarrow> int \<Rightarrow> error + tstep" where
  "merge_loop MB_tstep MB_beam [] ts first_dof = Inr ts"
| "merge_loop MB_tstep MB_beam (ibody # rest) ts first_dof =
     ebind (merge_body MB_tstep MB_beam ts first_dof ibody) (\<lambda>(ts', first_dof').
       merge_loop MB_tstep MB_beam rest ts' first_dof')"

text \<open>The statements after the loop: the last 10 states and the frame of reference of
  the system are those of body 0.\<close>

definition merge_master :: "tstep list \<Rightarrow> tstep \<Rightarrow> error + tstep" where
  "merge_master MB_tstep ts =
     ebind (py_index MB_tstep 0) (\<lambda>b0.
     ebind (set_slice (q ts) (- 10) (int (length (q ts))) (last_entries 10 (q b0))) (\<lambda>s1.
     ebind (set_slice (dqdt ts) (- 10) (int (length (dqdt ts))) (last_entries 10 (dqdt b0))) (\<lambda>s2.
     ebind (set_slice (dqddt ts) (- 10) (int (length (dqddt ts))) (last_entries 10 (dqddt b0))) (\<lambda>s3.
       Inr (ts\<lparr>q := s1, dqdt := s2, dqddt := s3, for_pos := for_pos b0,
              for_vel := for_vel b0, for_acc := for_acc b0, quat := quat b0\<rparr>)))))"

text \<open>\<open>merge_multibody(MB_tstep, MB_beam, beam, tstep, mb_data_dict, dt)\<close>: the
  function changes \<open>tstep\<close> in place; the model returns it. \<open>mb_data_dict\<close> and \<open>dt\<close>
  are not used.\<close>

definition merge_multibody :: "tstep list \<Rightarrow> beam list \<Rightarrow> beam \<Rightarrow> tstep \<Rightarrow> error + tstep" where
  "merge_multibody MB_tstep MB_beam bm ts =
     ebind (update_mb_dB_before_merge ts MB_tstep) (\<lambda>ts1.
     ebind (merge_loop MB_tstep MB_beam (py_range (num_bodies bm)) ts1 0) (\<lambda>ts2.
       merge_master MB_tstep ts2))"

definition no_assert :: "error + 'a \<Rightarrow> bool" where
  "no_assert m \<longleftrightarrow> m \<noteq> Inl AssertionError"

text \<open>Shapes that fit, so that an assignment neither fails nor broadcasts: row \<open>i\<close>
  of \<open>A\<close> exists and has the length of \<open>v\<close>; the rows \<open>idx\<close> of \<open>A\<close> exist and have the
  shapes of the rows of \<open>X\<close>.\<close>

definition row_fits :: "'a list list \<Rightarrow> nat \<Rightarrow> 'a list \<Rightarrow> bool" where
  "row_fits A i v \<longleftrightarrow> i < length A \<and> length (A ! i) = length v"

definition rows_fit :: "('a \<Rightarrow> 's) \<Rightarrow> 'a list \<Rightarrow> int list \<Rightarrow> 'a list \<Rightarrow> bool" where
  "rows_fit sh A idx X \<longleftrightarrow>
     length X = length idx \<and>
     (\<forall>k<length idx. 0 \<le> idx ! k \<and> idx ! k < int (length A) \<and>
        sh (X ! k) = sh (A ! nat (idx ! k)))"

text \<open>The database rows of body \<open>i\<close> fit the body's frame fields, and the body's own
  row of \<open>mb_dquatdt\<close> has the 4 entries it is compared with.\<close>

definition body_db_fits :: "tstep \<Rightarrow> tstep \<Rightarrow> nat \<Rightarrow> bool" where
  "body_db_fits ts b i \<longleftrightarrow>
     row_fits (mb_FoR_pos ts) i (for_pos b) \<and>
     row_fits (mb_FoR_vel ts) i (for_vel b) \<and>
     row_fits (mb_FoR_acc ts) i (for_acc b) \<and>
     row_fits (mb_quat ts) i (quat b) \<and>
     row_fits (mb_dquatdt ts) i (last_entries 4 (dqddt b)) \<and>
     row_fits (mb_dquatdt b) i (last_entries 4 (dqddt b))"

text \<open>What the assertion of \<open>update_mb_dB_before_merge\<close> checks for body \<open>i\<close>.\<close>

definition quat_rate_matches :: "tstep \<Rightarrow> nat \<Rightarrow> bool" where
  "quat_rate_matches b i \<longleftrightarrow> mb_dquatdt b ! i = last_entries 4 (dqddt b)"

text \<open>Row \<open>i\<close> of the system's database holds the frame of body \<open>b\<close>.\<close>

definition db_recorded :: "tstep \<Rightarrow> tstep \<Rightarrow> nat \<Rightarrow> bool" where
  "db_recorded ts b i \<longleftrightarrow>
     mb_FoR_pos ts ! i = for_pos b \<and>
     mb_FoR_vel ts ! i = for_vel b \<and>
     mb_FoR_acc ts ! i = for_acc b \<and>
     mb_quat ts ! i = quat b \<and>
     mb_dquatdt ts ! i = last_entries 4 (dqddt b)"

definition db_row_same :: "tstep \<Rightarrow> tstep \<Rightarrow> nat \<Rightarrow> bool" where
  "db_row_same ts ts' i \<longleftrightarrow>
     mb_FoR_pos ts' ! i = mb_FoR_pos ts ! i \<and>
     mb_FoR_vel ts' ! i = mb_FoR_vel ts ! i \<and>
     mb_FoR_acc ts' ! i = mb_FoR_acc ts ! i \<and>
     mb_quat ts' ! i = mb_quat ts ! i \<and>
     mb_dquatdt ts' ! i = mb_dquatdt ts ! i"

definition same_db_shape :: "tstep \<Rightarrow> tstep \<Rightarrow> bool" where
  "same_db_shape ts ts' \<longleftrightarrow>
     map length (mb_FoR_pos ts') = map length (mb_FoR_pos ts) \<and>
     map length (mb_FoR_vel ts') = map length (mb_FoR_vel ts) \<and>
     map length (mb_FoR_acc ts') = map length (mb_FoR_acc ts) \<and>
     map length (mb_quat ts') = map length (mb_quat ts) \<and>
     map length (mb_dquatdt ts') = map length (mb_dquatdt ts)"

definition db_only :: "tstep \<Rightarrow> tstep \<Rightarrow> bool" where
  "db_only ts ts' \<longleftrightarrow>
     pos ts' = pos ts \<and> pos_dot ts' = pos_dot ts \<and> pos_ddot ts' = pos_ddot ts \<and>
     psi ts' = psi ts \<and> psi_dot ts' = psi_dot ts \<and> psi_ddot ts' = psi_ddot ts \<and>
     gravity_forces ts' = gravity_forces ts \<and>
     forces_constraints_nodes ts' = forces_constraints_nodes ts \<and>
     forces_constraints_FoR ts' = forces_constraints_FoR ts \<and>
     q ts' = q ts \<and> dqdt ts' = dqdt ts \<and> dqddt ts' = dqddt ts \<and>
     for_pos ts' = for_pos ts \<and> for_vel ts' = for_vel ts \<and> for_acc ts' = for_acc ts \<and>
     quat ts' = quat ts"

definition db_step :: "tstep \<Rightarrow> tstep \<Rightarrow> nat \<Rightarrow> tstep" where
  "db_step ts b i =
     ts\<lparr>mb_FoR_pos := (mb_FoR_pos ts)[i := for_pos b],
        mb_FoR_vel := (mb_FoR_vel ts)[i := for_vel b],
        mb_FoR_acc := (mb_FoR_acc ts)[i := for_acc b],
        mb_quat := (mb_quat ts)[i := quat b],
        mb_dquatdt := (mb_dquatdt ts)[i := last_entries 4 (dqddt b)]\<rparr>"

text \<open>The fields of body \<open>i\<close> fit the system's arrays: its node and element arrays have
  one row per global node or element, of the shape of the system's row; its state
  vectors have \<open>num_dof + 10\<close> entries and the system's vectors have room for
  \<open>num_dof\<close> entries from \<open>first_dof\<close> on.\<close>

definition body_fits :: "tstep \<Rightarrow> tstep \<Rightarrow> beam \<Rightarrow> nat \<Rightarrow> int \<Rightarrow> bool" where
  "body_fits ts b bmi i fd \<longleftrightarrow>
     rows_fit length (pos ts) (global_nodes_num bmi) (pos b) \<and>
     rows_fit length (pos_dot ts) (global_nodes_num bmi) (pos_dot b) \<and>
     rows_fit length (pos_ddot ts) (global_nodes_num bmi) (pos_ddot b) \<and>
     rows_fit (map length) (psi ts) (global_elems_num bmi) (psi b) \<and>
     rows_fit (map length) (psi_dot ts) (global_elems_num bmi) (psi_dot b) \<and>
     rows_fit (map length) (psi_ddot ts) (global_elems_num bmi) (psi_ddot b) \<and>
     rows_fit length (gravity_forces ts) (global_nodes_num bmi) (gravity_forces b) \<and>
     rows_fit length (forces_constraints_nodes ts) (global_nodes_num bmi)
       (forces_constraints_nodes b) \<and>
     i < length (forces_constraints_FoR b) \<and>
     row_fits (forces_constraints_FoR ts) i (forces_constraints_FoR b ! i) \<and>
     0 \<le> fd \<and> 0 \<le> num_dof bmi \<and>
     fd + num_dof bmi \<le> int (length (q ts)) \<and> length (q b) = nat (num_dof bmi) + 10 \<and>
     fd + num_dof bmi \<le> int (length (dqdt ts)) \<and> length (dqdt b) = nat (num_dof bmi) + 10 \<and>
     fd + num_dof bmi \<le> int (length (dqddt ts)) \<and> length (dqddt b) = nat (num_dof bmi) + 10"

definition same_shape :: "tstep \<Rightarrow> tstep \<Rightarrow> bool" where
  "same_shape ts ts' \<longleftrightarrow>
     map length (pos ts') = map length (pos ts) \<and>
     map length (pos_dot ts') = map length (pos_dot ts) \<and>
     map length (pos_ddot ts') = map length (pos_ddot ts) \<and>
     map (map length) (psi ts') = map (map length) (psi ts) \<and>
     map (map length) (psi_dot ts') = map (map length) (psi_dot ts) \<and>
     map (map length) (psi_ddot ts') = map (map length) (psi_ddot ts) \<and>
     map length (gravity_forces ts') = map length (gravity_forces ts) \<and>
     map length (forces_constraints_nodes ts') = map length (forces_constraints_nodes ts) \<and>
     map length (forces_constraints_FoR ts') = map length (forces_constraints_FoR ts) \<and>
     length (q ts') = length (q ts) \<and>
     length (dqdt ts') = length (dqdt ts) \<and>
     length (dqddt ts') = length (dqddt ts)"

text \<open>The frame database is the same in both time steps.\<close>

definition same_db :: "tstep \<Rightarrow> tstep \<Rightarrow> bool" where
  "same_db ts ts' \<longleftrightarrow>
     mb_FoR_pos ts' = mb_FoR_pos ts \<and> mb_FoR_vel ts' = mb_FoR_vel ts \<and>
     mb_FoR_acc ts' = mb_FoR_acc ts \<and> mb_quat ts' = mb_quat ts \<and>
     mb_dquatdt ts' = mb_dquatdt ts"

text \<open>\<open>first_dof\<close> when the loop of \<open>merge_multibody\<close> reaches body \<open>i\<close>.\<close>

definition first_dof_of :: "beam list \<Rightarrow> nat \<Rightarrow> int" where
  "first_dof_of MB_beam i = (\<Sum>j<i. num_dof (MB_beam ! j))"

text \<open>All shapes fit: one beam per body, the database rows and the fields of every
  body fit the system, and the system's state vectors have their last 10 entries.\<close>

definition merge_fits :: "tstep list \<Rightarrow> beam list \<Rightarrow> beam \<Rightarrow> tstep \<Rightarrow> bool" where
  "merge_fits MB_tstep MB_beam bm ts \<longleftrightarrow>
     MB_tstep \<noteq> [] \<and> length MB_beam = length MB_tstep \<and>
     num_bodies bm = int (length MB_tstep) \<and>
     (\<forall>i<length MB_tstep.
        body_db_fits ts (MB_tstep ! i) i \<and>
        body_fits ts (MB_tstep ! i) (MB_beam ! i) i (first_dof_of MB_beam i)) \<and>
     10 \<le> length (q ts) \<and> 10 \<le> length (dqdt ts) \<and> 10 \<le> length (dqddt ts)"

text \<open>An example: two bodies of one node and one element each, 6 degrees of freedom
  per body, and the system they are merged into.\<close>

definition example_body :: "real \<Rightarrow> tstep" where
  "example_body k =
     \<lparr>pos = [[k, 0, 0]], pos_dot = [[0, k, 0]], pos_ddot = [[0, 0, k]],
      psi = [[[k, 0, 0]]], psi_dot = [[[0, k, 0]]], psi_ddot = [[[0, 0, k]]],
      gravity_forces = [[0, 0, k]], forces_constraints_nodes = [[k, k, k]],
      forces_constraints_FoR = [[k], [k]],
      q = [k, k, k, k, k, k, 1, 2, 3, 4, 5, 6, 7, 8, 9, k],
      dqdt = [k, k, k, k, k, k, 1, 2, 3, 4, 5, 6, 7, 8, 9, k],
      dqddt = [k, k, k, k, k, k, 1, 2, 3, 4, 5, 6, 0, 0, 0, k],
      mb_dquatdt = [[0, 0, 0, k], [0, 0, 0, k]],
      mb_FoR_pos = [[0, 0, 0], [0, 0, 0]], mb_FoR_vel = [[0, 0, 0], [0, 0, 0]],
      mb_FoR_acc = [[0, 0, 0], [0, 0, 0]], mb_quat = [[1, 0, 0, 0], [1, 0, 0, 0]],
      for_pos = [k, 0, 0], for_vel = [0, k, 0], for_acc = [0, 0, k],
      quat = [1, 0, 0, k]\<rparr>"

definition example_system :: tstep where
  "example_system =
     \<lparr>pos = [[0, 0, 0], [0, 0, 0]], pos_dot = [[0, 0, 0], [0, 0, 0]],
      pos_ddot = [[0, 0, 0], [0, 0, 0]],
      psi = [[[0, 0, 0]], [[0, 0, 0]]], psi_dot = [[[0, 0, 0]], [[0, 0, 0]]],
      psi_ddot = [[[0, 0, 0]], [[0, 0, 0]]],
      gravity_forces = [[0, 0, 0], [0, 0, 0]],
      forces_constraints_nodes = [[0, 0, 0], [0, 0, 0]],
      forces_constraints_FoR = [[0], [0]],
      q = [0, 0, 0, 0, 0, 0, 0, 0, 0, 0, 0, 0, 0, 0, 0, 0, 0, 0, 0, 0, 0, 0],
      dqdt = [0, 0, 0, 0, 0, 0, 0, 0, 0, 0, 0, 0, 0, 0, 0, 0, 0, 0, 0, 0, 0, 0],
      dqddt = [0, 0, 0, 0, 0, 0, 0, 0, 0, 0, 0, 0, 0, 0, 0, 0, 0, 0, 0, 0, 0, 0],
      mb_dquatdt = [[0, 0, 0, 0], [0, 0, 0, 0]],
      mb_FoR_pos = [[0, 0, 0], [0, 0, 0]], mb_FoR_vel = [[0, 0, 0], [0, 0, 0]],
      mb_FoR_acc = [[0, 0, 0], [0, 0, 0]], mb_quat = [[1, 0, 0, 0], [1, 0, 0, 0]],
      for_pos = [0, 0, 0], for_vel = [0, 0, 0], for_acc = [0, 0, 0],
      quat = [1, 0, 0, 0]\<rparr>"

definition example_body_beam :: "int \<Rightarrow> beam" where
  "example_body_beam i =
     \<lparr>num_bodies = 1, num_dof = 6, FoR_movement = ''free'', vdof = [0],
      node_master_elem = [(0, 0)], global_elems_num = [i], global_nodes_num = [i],
      ini_info = example_body 0\<rparr>"

definition example_system_beam :: beam where
  "example_system_beam =
     \<lparr>num_bodies = 2, num_dof = 12, FoR_movement = ''free'', vdof = [0, 1],
      node_master_elem = [(0, 0), (1, 0)], global_elems_num = [0, 1],
      global_nodes_num = [0, 1], ini_info = example_system\<rparr>"

section \<open>Arrays of numbers\<close>

text \<open>A value of \<^typ>\<open>pval\<close> also stands for a numpy value: a scalar, a
  one-dimensional or a two-dimensional array. The operations below are numpy's, with
  its broadcasting and its errors.\<close>

definition ncols :: "'a list list \<Rightarrow> nat" where
  "ncols M = (case M of [] \<Rightarrow> 0 | r # _ \<Rightarrow> length r)"

definition mk_mat :: "nat \<Rightarrow> nat \<Rightarrow> (nat \<Rightarrow> nat \<Rightarrow> real) \<Rightarrow> real list list" where
  "mk_mat n m f = map (\<lambda>i. map (f i) [0..<m]) [0..<n]"

text \<open>\<open>np.zeros((n, m))\<close>, \<open>np.zeros(n)\<close> and \<open>np.eye(n)\<close>; a negative dimension raises
  ValueError.\<close>

definition zeros2 :: "int \<Rightarrow> int \<Rightarrow> error + real list list" where
  "zeros2 n m = (if n < 0 \<or> m < 0 then Inl ValueError
                 else Inr (mk_mat (nat n) (nat m) (\<lambda>i j. 0)))"

definition zeros1 :: "int \<Rightarrow> error + real list" where
  "zeros1 n = (if n < 0 then Inl ValueError else Inr (replicate (nat n) 0))"

definition eye :: "nat \<Rightarrow> pval" where
  "eye n = PMat (mk_mat n n (\<lambda>i j. if i = j then 1 else 0))"

text \<open>Broadcasting along one axis, and of a value to a two-dimensional or
  one-dimensional shape.\<close>

definition bcast_len :: "nat \<Rightarrow> 'a list \<Rightarrow> error + 'a list" where
  "bcast_len n xs =
     (if length xs = n then Inr xs
      else if length xs = 1 then Inr (replicate n (hd xs))
      else Inl ValueError)"

definition to_shape :: "nat \<Rightarrow> nat \<Rightarrow> pval \<Rightarrow> error + real list list" where
  "to_shape r c v =
     (case v of
        PInt i \<Rightarrow> Inr (replicate r (replicate c (of_int i)))
      | PReal x \<Rightarrow> Inr (replicate r (replicate c x))
      | PVec xs \<Rightarrow> ebind (bcast_len c xs) (\<lambda>row. Inr (replicate r row))
      | PMat M \<Rightarrow> ebind (bcast_len r M) (\<lambda>rows. emap (bcast_len c) rows)
      | PStr _ \<Rightarrow> Inl ValueError)"

definition to_len :: "nat \<Rightarrow> pval \<Rightarrow> error + real list" where
  "to_len n v =
     (case v of
        PInt i \<Rightarrow> Inr (replicate n (of_int i))
      | PReal x \<Rightarrow> Inr (replicate n x)
      | PVec xs \<Rightarrow> bcast_len n xs
      | PMat M \<Rightarrow> Inl ValueError
      | PStr _ \<Rightarrow> Inl ValueError)"

text \<open>\<open>M[r0:r1, c0:c1] op= v\<close> on a two-dimensional array and \<open>xs[a:b] op= v\<close> on a
  one-dimensional one: the value is broadcast to the shape of the slice; \<open>opr\<close> takes
  the old entry and the value's entry (\<open>+=\<close>, \<open>-=\<close>, or \<open>=\<close> which keeps the value's).\<close>

definition upd_block ::
  "(real \<Rightarrow> real \<Rightarrow> real) \<Rightarrow> real list list \<Rightarrow> int \<Rightarrow> int \<Rightarrow> int \<Rightarrow> int \<Rightarrow> pval
     \<Rightarrow> error + real list list" where
  "upd_block opr M r0 r1 c0 c1 v =
     (case py_slice (length M) r0 r1 of (rlo, rlen) \<Rightarrow>
      case py_slice (ncols M) c0 c1 of (clo, clen) \<Rightarrow>
        ebind (to_shape rlen clen v) (\<lambda>B.
          Inr (mk_mat (length M) (ncols M) (\<lambda>i j.
                 if rlo \<le> i \<and> i < rlo + rlen \<and> clo \<le> j \<and> j < clo + clen
                 then opr (M ! i ! j) (B ! (i - rlo) ! (j - clo))
                 else M ! i ! j))))"

definition upd_slice ::
  "(real \<Rightarrow> real \<Rightarrow> real) \<Rightarrow> real list \<Rightarrow> int \<Rightarrow> int \<Rightarrow> pval \<Rightarrow> error + real list" where
  "upd_slice opr xs a b v =
     (case py_slice (length xs) a b of (lo, len) \<Rightarrow>
        ebind (to_len len v) (\<lambda>w.
          Inr (map (\<lambda>i. if lo \<le> i \<and> i < lo + len then opr (xs ! i) (w ! (i - lo)) else xs ! i)
                 [0..<length xs])))"

abbreviation add_block where "add_block \<equiv> upd_block (\<lambda>old new. old + new)"
abbreviation sub_block where "sub_block \<equiv> upd_block (\<lambda>old new. old - new)"
abbreviation set_block where "set_block \<equiv> upd_block (\<lambda>old new. new)"
abbreviation add_slice where "add_slice \<equiv> upd_slice (\<lambda>old new. old + new)"
abbreviation sub_slice where "sub_slice \<equiv> upd_slice (\<lambda>old new. old - new)"

text \<open>An elementwise operation \<open>a op b\<close>: both values are broadcast to the common
  shape; the result has the larger number of axes.\<close>

definition np_rank :: "pval \<Rightarrow> nat" where
  "np_rank v = (case v of PVec _ \<Rightarrow> 1 | PMat _ \<Rightarrow> 2 | _ \<Rightarrow> 0)"

definition np_shape :: "pval \<Rightarrow> nat \<times> nat" where
  "np_shape v = (case v of PVec xs \<Rightarrow> (1, length xs) | PMat M \<Rightarrow> (length M, ncols M)
                 | _ \<Rightarrow> (1, 1))"

definition bdim :: "nat \<Rightarrow> nat \<Rightarrow> error + nat" where
  "bdim x y = (if x = y then Inr x else if x = 1 then Inr y else if y = 1 then Inr x
               else Inl ValueError)"

definition np_binop :: "(real \<Rightarrow> real \<Rightarrow> real) \<Rightarrow> pval \<Rightarrow> pval \<Rightarrow> error + pval" where
  "np_binop f a b =
     (case (a, b) of
        (PStr _, _) \<Rightarrow> Inl TypeError
      | (_, PStr _) \<Rightarrow> Inl TypeError
      | _ \<Rightarrow>
        ebind (bdim (fst (np_shape a)) (fst (np_shape b))) (\<lambda>r.
        ebind (bdim (snd (np_shape a)) (snd (np_shape b))) (\<lambda>c.
        ebind (to_shape r c a) (\<lambda>A.
        ebind (to_shape r c b) (\<lambda>B.
          let R = mk_mat r c (\<lambda>i j. f (A ! i ! j) (B ! i ! j));
              k = max (np_rank a) (np_rank b)
          in Inr (if k = 2 then PMat R else if k = 1 then PVec (R ! 0)
                  else PReal (R ! 0 ! 0)))))))"

abbreviation np_add where "np_add \<equiv> np_binop (\<lambda>x y. x + y)"
abbreviation np_sub where "np_sub \<equiv> np_binop (\<lambda>x y. x - y)"
abbreviation np_mul where "np_mul \<equiv> np_binop (\<lambda>x y. x * y)"

text \<open>\<open>np.dot(a, b)\<close> and \<open>np.transpose(a)\<close> (\<open>a.T\<close>).\<close>

definition inner :: "real list \<Rightarrow> real list \<Rightarrow> real" where
  "inner u v = (\<Sum>k<length u. u ! k * v ! k)"

definition np_dot :: "pval \<Rightarrow> pval \<Rightarrow> error + pval" where
  "np_dot a b =
     (case (a, b) of
        (PMat A, PMat B) \<Rightarrow>
          if ncols A = length B
          then Inr (PMat (mk_mat (length A) (ncols B)
                 (\<lambda>i j. \<Sum>k<length B. A ! i ! k * B ! k ! j)))
          else Inl ValueError
      | (PMat A, PVec v) \<Rightarrow>
          if ncols A = length v then Inr (PVec (map (\<lambda>row. inner row v) A))
          else Inl ValueError
      | (PVec u, PMat B) \<Rightarrow>
          if length u = length B
          then Inr (PVec (map (\<lambda>j. \<Sum>k<length B. u ! k * B ! k ! j) [0..<ncols B]))
          else Inl ValueError
      | (PVec u, PVec v) \<Rightarrow>
          if length u = length v then Inr (PReal (inner u v)) else Inl ValueError
      | (PStr _, _) \<Rightarrow> Inl TypeError
      | (_, PStr _) \<Rightarrow> Inl TypeError
      | _ \<Rightarrow> np_mul a b)"

definition np_transpose :: "pval \<Rightarrow> pval" where
  "np_transpose a =
     (case a of PMat A \<Rightarrow> PMat (mk_mat (ncols A) (length A) (\<lambda>i j. A ! j ! i)) | _ \<Rightarrow> a)"

text \<open>\<open>a[idx, :]\<close> and \<open>a[idx]\<close> with a list of indices, \<open>a[i, :]\<close> with one index, and
  \<open>a[lo:hi]\<close> on a one-dimensional array.\<close>

definition np_take_rows :: "pval \<Rightarrow> int list \<Rightarrow> error + pval" where
  "np_take_rows a idx =
     (case a of
        PMat A \<Rightarrow> ebind (emap (py_index A) idx) (\<lambda>rows. Inr (PMat rows))
      | _ \<Rightarrow> Inl IndexError)"

definition np_take :: "pval \<Rightarrow> int list \<Rightarrow> error + pval" where
  "np_take a idx =
     (case a of
        PMat A \<Rightarrow> ebind (emap (py_index A) idx) (\<lambda>rows. Inr (PMat rows))
      | PVec v \<Rightarrow> ebind (emap (py_index v) idx) (\<lambda>xs. Inr (PVec xs))
      | _ \<Rightarrow> Inl IndexError)"

definition np_row :: "pval \<Rightarrow> int \<Rightarrow> error + pval" where
  "np_row a i =
     (case a of
        PMat A \<Rightarrow> ebind (py_index A i) (\<lambda>row. Inr (PVec row))
      | _ \<Rightarrow> Inl IndexError)"

text \<open>\<open>np.linalg.norm\<close> of a one-dimensional array.\<close>

definition np_norm :: "pval \<Rightarrow> error + real" where
  "np_norm a = (case a of PVec v \<Rightarrow> Inr (sqrt (\<Sum>x\<leftarrow>v. x\<^sup>2)) | _ \<Rightarrow> Inl TypeError)"

text \<open>An integer taken from a configuration value, where the code uses it as an index
  or in \<open>range\<close>.\<close>

definition as_int :: "pval \<Rightarrow> error + int" where
  "as_int v = (case v of PInt i \<Rightarrow> Inr i | _ \<Rightarrow> Inl TypeError)"

section \<open>The constraint equations\<close>

text \<open>The functions of \<open>sharpy.utils.algebra\<close> the constraints call. Their code is not
  part of the sources at hand, so they are a parameter: any functions from arrays to
  arrays, which may raise.\<close>

record algebra =
  quat2rotation :: "pval \<Rightarrow> error + pval"
  crv2rotation :: "pval \<Rightarrow> error + pval"
  crv2tan :: "pval \<Rightarrow> error + pval"
  quat_bound :: "pval \<Rightarrow> error + pval"
  skew :: "pval \<Rightarrow> error + pval"
  multiply_matrices :: "pval list \<Rightarrow> error + pval"
  der_CquatT_by_v :: "pval \<Rightarrow> pval \<Rightarrow> error + pval"
  der_Cquat_by_v :: "pval \<Rightarrow> pval \<Rightarrow> error + pval"
  der_CcrvT_by_v :: "pval \<Rightarrow> pval \<Rightarrow> error + pval"
  der_Ccrv_by_v :: "pval \<Rightarrow> pval \<Rightarrow> error + pval"
  der_TanT_by_xv :: "pval \<Rightarrow> pval \<Rightarrow> error + pval"

text \<open>The matrices and the vector the constraints add to.\<close>

record lm =
  LM_C :: "real list list"
  LM_K :: "real list list"
  LM_Q :: "real list"

text \<open>\<open>t.pos[n, :]\<close> and \<open>t.psi[ielem, inode, :]\<close> as values, \<open>v[a:b]\<close>, and
  \<open>xs[k] = v\<close> on a one-dimensional array.\<close>

definition row_of :: "real list list \<Rightarrow> int \<Rightarrow> error + pval" where
  "row_of A n = ebind (py_index A n) (\<lambda>r. Inr (PVec r))"

definition psi_of :: "real list list list \<Rightarrow> int \<Rightarrow> int \<Rightarrow> error + pval" where
  "psi_of A ielem inode = ebind (py_index A ielem) (\<lambda>e. row_of e inode)"

definition slice_of :: "real list \<Rightarrow> int \<Rightarrow> int \<Rightarrow> pval" where
  "slice_of v a b = PVec (get_slice v a b)"

definition set_entry :: "real list \<Rightarrow> int \<Rightarrow> real \<Rightarrow> error + real list" where
  "set_entry xs k v = ebind (py_index xs k) (\<lambda>_. Inr (xs[norm_index xs k := v]))"

text \<open>The statements by which every constraint enters its Jacobian \<open>Bnh\<close> (\<open>n\<close> rows)
  into a matrix:
  \<^verbatim>\<open>M[sys_size+ieq:sys_size+ieq+n, :sys_size] += scalingFactor*Bnh\<close> and
  \<^verbatim>\<open>M[:sys_size, sys_size+ieq:sys_size+ieq+n] += scalingFactor*np.transpose(Bnh)\<close>;
  and into the vector:
  \<^verbatim>\<open>LM_Q[:sys_size] += scalingFactor*np.dot(np.transpose(Bnh), Lam[ieq:ieq+n])\<close>.\<close>

definition add_coupling ::
  "real list list \<Rightarrow> int \<Rightarrow> int \<Rightarrow> int \<Rightarrow> real \<Rightarrow> real list list \<Rightarrow> error + real list list" where
  "add_coupling M sys_size i n scalingFactor Bnh =
     ebind (np_mul (PReal scalingFactor) (PMat Bnh)) (\<lambda>sB.
     ebind (add_block M (sys_size + i) (sys_size + i + n) 0 sys_size sB) (\<lambda>M1.
     ebind (np_mul (PReal scalingFactor) (np_transpose (PMat Bnh))) (\<lambda>sBT.
       add_block M1 0 sys_size (sys_size + i) (sys_size + i + n) sBT)))"

definition add_multiplier_forces ::
  "real list \<Rightarrow> int \<Rightarrow> int \<Rightarrow> int \<Rightarrow> real \<Rightarrow> real list list \<Rightarrow> real list \<Rightarrow> error + real list" where
  "add_multiplier_forces Q sys_size i n scalingFactor Bnh Lam =
     ebind (np_dot (np_transpose (PMat Bnh)) (slice_of Lam i (i + n))) (\<lambda>d.
     ebind (np_mul (PReal scalingFactor) d) (\<lambda>sd.
       add_slice Q 0 sys_size sd))"

text \<open>The choice between the three rows of a skew matrix, by their norms: the
  \<open>if\<close>/\<open>elif\<close>/\<open>elif\<close> chain of the source, which has no \<open>else\<close>.\<close>

definition select_rows :: "real \<Rightarrow> real \<Rightarrow> real \<Rightarrow> (int \<times> int) option" where
  "select_rows n0 n1 n2 =
     (if n0 < n1 \<and> n0 < n2 then Some (1, 2)
      else if n1 < n0 \<and> n1 < n2 then Some (0, 2)
      else if n2 < n0 \<and> n2 < n1 then Some (0, 1)
      else None)"

definition row_norms :: "pval \<Rightarrow> error + (real \<times> real \<times> real)" where
  "row_norms M =
     ebind (np_row M 0) (\<lambda>r0. ebind (np_norm r0) (\<lambda>n0.
     ebind (np_row M 1) (\<lambda>r1. ebind (np_norm r1) (\<lambda>n1.
     ebind (np_row M 2) (\<lambda>r2. ebind (np_norm r2) (\<lambda>n2.
       Inr (n0, n1, n2)))))))"

text \<open>\<open>equal_lin_vel_node_FoR\<close>: equal linear velocities of a node and a frame of
  reference. The result is the next \<open>ieq\<close> and the matrices.\<close>

definition equal_lin_vel_node_FoR ::
  "algebra \<Rightarrow> tstep list \<Rightarrow> beam list \<Rightarrow> int \<Rightarrow> int \<Rightarrow> int \<Rightarrow> int \<Rightarrow> int \<Rightarrow> int \<Rightarrow> int
     \<Rightarrow> real list \<Rightarrow> real \<Rightarrow> real \<Rightarrow> int \<Rightarrow> lm \<Rightarrow> error + (int \<times> lm)" where
  "equal_lin_vel_node_FoR alg MB_tstep MB_beam FoR_b node_b node_n node_FoR_dof node_dof
     FoR_dof sys_size Lambda_dot scalingFactor penaltyFactor i st =
     ebind (zeros2 3 sys_size) (\<lambda>Bnh0.
     ebind (py_index MB_tstep FoR_b) (\<lambda>tF.
     ebind (quat2rotation alg (PVec (quat tF))) (\<lambda>RF.
     ebind (set_block Bnh0 0 3 FoR_dof (FoR_dof + 3) RF) (\<lambda>Bnh1.
     ebind (py_index MB_tstep node_b) (\<lambda>tN.
     ebind (quat2rotation alg (PVec (quat tN))) (\<lambda>RN.
     ebind (np_mul (PReal (- 1)) RN) (\<lambda>mRN.
     ebind (set_block Bnh1 0 3 node_dof (node_dof + 3) mRN) (\<lambda>Bnh2.
     ebind (py_index MB_beam node_b) (\<lambda>bN.
     ebind (if FoR_movement bN = ''free'' then
              ebind (set_block Bnh2 0 3 node_FoR_dof (node_FoR_dof + 3) mRN) (\<lambda>Bnh3.
              ebind (row_of (pos tN) node_n) (\<lambda>p.
              ebind (skew alg p) (\<lambda>sp.
              ebind (np_dot RN sp) (\<lambda>d.
              ebind (np_mul (PReal 1) d) (\<lambda>d1.
                set_block Bnh3 0 3 (node_FoR_dof + 3) (node_FoR_dof + 6) d1)))))
            else Inr Bnh2) (\<lambda>Bnh.
     ebind (add_coupling (LM_C st) sys_size i 3 scalingFactor Bnh) (\<lambda>C1.
     ebind (add_multiplier_forces (LM_Q st) sys_size i 3 scalingFactor Bnh Lambda_dot) (\<lambda>Q1.
     ebind (np_dot RF (slice_of (for_vel tF) 0 3)) (\<lambda>vF.
     ebind (row_of (pos_dot tN) node_n) (\<lambda>pd.
     ebind (np_add pd (slice_of (for_vel tN) 0 3)) (\<lambda>s1.
     ebind (row_of (pos tN) node_n) (\<lambda>p.
     ebind (skew alg p) (\<lambda>sp.
     ebind (np_dot sp (slice_of (for_vel tN) 3 6)) (\<lambda>w.
     ebind (np_mul (PReal (- 1)) w) (\<lambda>mw.
     ebind (np_add s1 mw) (\<lambda>s2.
     ebind (np_dot RN s2) (\<lambda>vN.
     ebind (np_mul (PReal (- 1)) vN) (\<lambda>mvN.
     ebind (np_add vF mvN) (\<lambda>res.
     ebind (add_slice Q1 (sys_size + i) (sys_size + i + 3) res) (\<lambda>Q2.
     ebind (np_mul (PReal scalingFactor) (slice_of Lambda_dot i (i + 3))) (\<lambda>sL.
     ebind (der_CquatT_by_v alg (PVec (quat tF)) sL) (\<lambda>dF.
     ebind (add_block C1 FoR_dof (FoR_dof + 3) (FoR_dof + 6) (FoR_dof + 10) dF) (\<lambda>C2.
     ebind (if FoR_movement bN = ''free'' then
              ebind (der_CquatT_by_v alg (PVec (quat tN)) sL) (\<lambda>dN.
              ebind (sub_block C2 node_dof (node_dof + 3) (node_FoR_dof + 6) (node_FoR_dof + 10) dN) (\<lambda>C3.
              ebind (der_CquatT_by_v alg (PVec (quat tN)) sL) (\<lambda>dN2.
              ebind (sub_block C3 node_FoR_dof (node_FoR_dof + 3) (node_FoR_dof + 6) (node_FoR_dof + 10) dN2) (\<lambda>C4.
              ebind (row_of (pos tN) node_n) (\<lambda>p2.
              ebind (skew alg p2) (\<lambda>sp2.
              ebind (np_dot sp2 dN2) (\<lambda>sd.
              ebind (sub_block C4 (node_FoR_dof + 3) (node_FoR_dof + 6) (node_FoR_dof + 6) (node_FoR_dof + 10) sd) (\<lambda>C5.
              ebind (np_dot (np_transpose RN) (slice_of Lambda_dot i (i + 3))) (\<lambda>rl.
              ebind (skew alg rl) (\<lambda>srl.
              ebind (add_block (LM_K st) (node_FoR_dof + 3) (node_FoR_dof + 6) node_dof (node_dof + 3) srl) (\<lambda>K1.
                Inr (C5, K1))))))))))))
            else Inr (C2, LM_K st)) (\<lambda>CK.
       Inr (i + 3, \<lparr>LM_C = fst CK, LM_K = snd CK, LM_Q = Q2\<rparr>)))))))))))))))))))))))))))))"

text \<open>The product the axis-alignment kernel writes for \<open>aux_Bnh\<close> and again for
  \<open>Bnh\<close>:
  \<^verbatim>\<open>multiply_matrices(skew(rot_axisB), crv2rotation(psi[ielem,inode,:]).T, quat2rotation(node quat).T, quat2rotation(FoR quat))\<close>.\<close>

definition rot_axis_rows ::
  "algebra \<Rightarrow> tstep \<Rightarrow> tstep \<Rightarrow> int \<times> int \<Rightarrow> pval \<Rightarrow> error + pval" where
  "rot_axis_rows alg tN tF el rot_axisB =
     ebind (skew alg rot_axisB) (\<lambda>sk.
     ebind (psi_of (psi tN) (fst el) (snd el)) (\<lambda>ps.
     ebind (crv2rotation alg ps) (\<lambda>Rpsi.
     ebind (quat2rotation alg (PVec (quat tN))) (\<lambda>RN.
     ebind (quat2rotation alg (PVec (quat tF))) (\<lambda>RF.
       multiply_matrices alg [sk, np_transpose Rpsi, np_transpose RN, RF])))))"

text \<open>\<open>def_rot_axis_FoR_wrt_node\<close>: the rotation axis of a frame stays parallel to an
  axis fixed to a node. \<open>indep\<close> is the list the caller keeps (\<open>self.indep\<close>): when it
  is empty, the two rows are chosen by the norms of the rows of \<open>aux_Bnh\<close> and stored
  in it (\<open>indep[:] = ...\<close>), and when no row is strictly the smallest it stays empty.
  The result is the next \<open>ieq\<close>, the matrices and \<open>indep\<close>.\<close>

definition def_rot_axis_FoR_wrt_node ::
  "algebra \<Rightarrow> tstep list \<Rightarrow> beam list \<Rightarrow> int \<Rightarrow> int \<Rightarrow> int \<Rightarrow> int \<Rightarrow> int \<Rightarrow> int \<Rightarrow> int
     \<Rightarrow> real list \<Rightarrow> pval \<Rightarrow> real \<Rightarrow> real \<Rightarrow> int \<Rightarrow> lm \<Rightarrow> int list
     \<Rightarrow> error + (int \<times> lm \<times> int list)" where
  "def_rot_axis_FoR_wrt_node alg MB_tstep MB_beam FoR_b node_b node_n node_FoR_dof node_dof
     FoR_dof sys_size Lambda_dot rot_axisB scalingFactor penaltyFactor i st
     indep0 =
     ebind (py_index MB_beam node_b) (\<lambda>bN.
     ebind (py_index (node_master_elem bN) node_n) (\<lambda>el.
     ebind (py_index MB_tstep node_b) (\<lambda>tN.
     ebind (py_index MB_tstep FoR_b) (\<lambda>tF.
     ebind (if indep0 = [] then
              ebind (rot_axis_rows alg tN tF el rot_axisB) (\<lambda>aux_Bnh.
              ebind (row_norms aux_Bnh) (\<lambda>ns.
                Inr (case select_rows (fst ns) (fst (snd ns)) (snd (snd ns)) of
                     Some (a, b) \<Rightarrow> [a, b] | None \<Rightarrow> indep0)))
            else Inr indep0) (\<lambda>indep.
     ebind (zeros1 3) (\<lambda>nl0.
     ebind (py_index Lambda_dot i) (\<lambda>l0.
     ebind (py_index indep 0) (\<lambda>i0.
     ebind (set_entry nl0 i0 l0) (\<lambda>nl1.
     ebind (py_index Lambda_dot (i + 1)) (\<lambda>l1.
     ebind (py_index indep 1) (\<lambda>i1.
     ebind (set_entry nl1 i1 l1) (\<lambda>new_Lambda_dot.
     ebind (zeros2 2 sys_size) (\<lambda>Bnh0.
     ebind (rot_axis_rows alg tN tF el rot_axisB) (\<lambda>aux.
     ebind (np_take_rows aux indep) (\<lambda>rows.
     ebind (skew alg rot_axisB) (\<lambda>sk.
     ebind (psi_of (psi tN) (fst el) (snd el)) (\<lambda>ps.
     ebind (crv2rotation alg ps) (\<lambda>Rpsi.
     ebind (quat2rotation alg (PVec (quat tN))) (\<lambda>RN.
     ebind (quat2rotation alg (PVec (quat tF))) (\<lambda>RF.
     ebind (set_block Bnh0 0 2 (FoR_dof + 3) (FoR_dof + 6) rows) (\<lambda>Bnh.
     ebind (add_multiplier_forces (LM_Q st) sys_size i 2 scalingFactor Bnh Lambda_dot) (\<lambda>Q1.
     ebind (multiply_matrices alg [sk, np_transpose Rpsi, np_transpose RN, RF,
              slice_of (for_vel tF) 3 6]) (\<lambda>av.
     ebind (np_take av indep) (\<lambda>avi.
     ebind (add_slice Q1 (sys_size + i) (sys_size + i + 2) avi) (\<lambda>Q2.
     ebind (add_coupling (LM_C st) sys_size i 2 scalingFactor Bnh) (\<lambda>C1.
     ebind (if FoR_movement bN = ''free'' then
              ebind (multiply_matrices alg [Rpsi, np_transpose sk, PVec new_Lambda_dot]) (\<lambda>v.
              ebind (der_Cquat_by_v alg (PVec (quat tN)) v) (\<lambda>d.
              ebind (np_dot (np_transpose RF) d) (\<lambda>m.
                add_block C1 (FoR_dof + 3) (FoR_dof + 6) (node_FoR_dof + 6) (node_FoR_dof + 10) m)))
            else Inr C1) (\<lambda>C2.
     ebind (multiply_matrices alg [RN, Rpsi, np_transpose sk, PVec new_Lambda_dot]) (\<lambda>v2.
     ebind (der_CquatT_by_v alg (PVec (quat tF)) v2) (\<lambda>d2.
     ebind (add_block C2 (FoR_dof + 3) (FoR_dof + 6) (FoR_dof + 6) (FoR_dof + 10) d2) (\<lambda>C3.
     ebind (np_dot (np_transpose sk) (PVec new_Lambda_dot)) (\<lambda>v3.
     ebind (der_CcrvT_by_v alg ps v3) (\<lambda>d3.
     ebind (multiply_matrices alg [np_transpose RF, RN, d3]) (\<lambda>m3.
     ebind (add_block (LM_K st) (FoR_dof + 3) (FoR_dof + 6) (node_dof + 3) (node_dof + 6) m3) (\<lambda>K1.
       Inr (i + 2, \<lparr>LM_C = C3, LM_K = K1, LM_Q = Q2\<rparr>, indep)))))))))))))))))))))))))))))))))))"

text \<open>\<open>def_rot_vel_FoR_wrt_node\<close>: the rotation velocity of a frame about an axis
  fixed to a node.\<close>

definition def_rot_vel_FoR_wrt_node ::
  "algebra \<Rightarrow> tstep list \<Rightarrow> beam list \<Rightarrow> int \<Rightarrow> int \<Rightarrow> int \<Rightarrow> int \<Rightarrow> int \<Rightarrow> int \<Rightarrow> int
     \<Rightarrow> real list \<Rightarrow> pval \<Rightarrow> pval \<Rightarrow> real \<Rightarrow> real \<Rightarrow> int \<Rightarrow> lm
     \<Rightarrow> error + (int \<times> lm)" where
  "def_rot_vel_FoR_wrt_node alg MB_tstep MB_beam FoR_b node_b node_n node_FoR_dof node_dof
     FoR_dof sys_size Lambda_dot rot_axisB rot_vel scalingFactor penaltyFactor
     i st =
     ebind (zeros2 1 sys_size) (\<lambda>Bnh0.
     ebind (py_index MB_beam node_b) (\<lambda>bN.
     ebind (py_index (node_master_elem bN) node_n) (\<lambda>el.
     ebind (py_index MB_tstep node_b) (\<lambda>tN.
     ebind (psi_of (psi tN) (fst el) (snd el)) (\<lambda>ps.
     ebind (crv2rotation alg ps) (\<lambda>Rpsi.
     ebind (quat2rotation alg (PVec (quat tN))) (\<lambda>RN.
     ebind (py_index MB_tstep FoR_b) (\<lambda>tF.
     ebind (quat2rotation alg (PVec (quat tF))) (\<lambda>RF.
     ebind (multiply_matrices alg [rot_axisB, np_transpose Rpsi, np_transpose RN, RF]) (\<lambda>row.
     ebind (set_block Bnh0 0 1 (FoR_dof + 3) (FoR_dof + 6) row) (\<lambda>Bnh.
     ebind (add_multiplier_forces (LM_Q st) sys_size i 1 scalingFactor Bnh Lambda_dot) (\<lambda>Q1.
     ebind (multiply_matrices alg [rot_axisB, np_transpose Rpsi, np_transpose RN, RF,
              slice_of (for_vel tF) 3 6]) (\<lambda>av.
     ebind (np_sub av rot_vel) (\<lambda>avr.
     ebind (add_slice Q1 (sys_size + i) (sys_size + i + 1) avr) (\<lambda>Q2.
     ebind (add_coupling (LM_C st) sys_size i 1 scalingFactor Bnh) (\<lambda>C1.
     ebind (if FoR_movement bN = ''free'' then
              ebind (np_mul (np_transpose rot_axisB) (slice_of Lambda_dot i (i + 1))) (\<lambda>al.
              ebind (multiply_matrices alg [Rpsi, al]) (\<lambda>v.
              ebind (der_Cquat_by_v alg (PVec (quat tN)) v) (\<lambda>d.
              ebind (np_dot (np_transpose RF) d) (\<lambda>m.
                add_block C1 (FoR_dof + 3) (FoR_dof + 6) (node_FoR_dof + 6) (node_FoR_dof + 10) m))))
            else Inr C1) (\<lambda>C2.
     ebind (np_mul (np_transpose rot_axisB) (slice_of Lambda_dot i (i + 1))) (\<lambda>al2.
     ebind (multiply_matrices alg [RN, np_transpose Rpsi, al2]) (\<lambda>v2.
     ebind (der_CquatT_by_v alg (PVec (quat tF)) v2) (\<lambda>d2.
     ebind (add_block C2 (FoR_dof + 3) (FoR_dof + 6) (FoR_dof + 6) (FoR_dof + 10) d2) (\<lambda>C3.
     ebind (der_Ccrv_by_v alg ps al2) (\<lambda>d3.
     ebind (multiply_matrices alg [np_transpose RF, RN, d3]) (\<lambda>m3.
     ebind (add_block (LM_K st) (FoR_dof + 3) (FoR_dof + 6) (node_dof + 3) (node_dof + 6) m3) (\<lambda>K1.
       Inr (i + 1, \<lparr>LM_C = C3, LM_K = K1, LM_Q = Q2\<rparr>)))))))))))))))))))))))))"

section \<open>The constraint classes\<close>

text \<open>The \<open>staticmat\<close> and \<open>dynamicmat\<close> methods of the registered classes. They take the
  attributes \<open>initialise\<close> stored, the bodies, the system size, the multipliers and the
  matrices, and give the matrices back (the source adds into the arrays it is given).
  \<open>num_LM_eq\<close> and \<open>dt\<close> are not read by any of them. Body and node numbers come from
  the configuration; they are used in \<open>range\<close> and as indices, which raises TypeError
  unless they are integers.\<close>

text \<open>\<open>hinge_node_FoR.dynamicmat\<close>. The second component of the result is \<open>self.indep\<close>
  after the call.\<close>

definition hinge_node_FoR_dynamicmat ::
  "algebra \<Rightarrow> pval \<Rightarrow> pval \<Rightarrow> pval \<Rightarrow> pval \<Rightarrow> int \<Rightarrow> int list \<Rightarrow> beam list \<Rightarrow> tstep list \<Rightarrow> int \<Rightarrow> real list \<Rightarrow> real \<Rightarrow> real \<Rightarrow> lm
     \<Rightarrow> error + (lm \<times> int list)" where
  "hinge_node_FoR_dynamicmat alg node_number node_body FoR_body rot_axisB ieq indep
     MB_beam MB_tstep sys_size Lambda_dot scalingFactor penaltyFactor st =
     ebind (as_int node_body) (\<lambda>nb.
     ebind (as_int node_number) (\<lambda>nn.
     ebind (define_node_dof MB_beam nb nn) (\<lambda>node_dof.
     ebind (define_FoR_dof MB_beam nb) (\<lambda>node_FoR_dof.
     ebind (as_int FoR_body) (\<lambda>fb.
     ebind (define_FoR_dof MB_beam fb) (\<lambda>FoR_dof.
     ebind (equal_lin_vel_node_FoR alg MB_tstep MB_beam fb nb nn node_FoR_dof node_dof FoR_dof sys_size Lambda_dot
              scalingFactor penaltyFactor ieq st) (\<lambda>r1.
     ebind (def_rot_axis_FoR_wrt_node alg MB_tstep MB_beam fb nb nn node_FoR_dof node_dof FoR_dof sys_size Lambda_dot
              rot_axisB scalingFactor penaltyFactor (fst r1) (snd r1) indep) (\<lambda>r2.
       Inr (fst (snd r2), snd (snd r2))))))))))"

text \<open>\<open>hinge_node_FoR_constant_vel.dynamicmat\<close>.\<close>

definition hinge_node_FoR_constant_vel_dynamicmat ::
  "algebra \<Rightarrow> pval \<Rightarrow> pval \<Rightarrow> pval \<Rightarrow> pval \<Rightarrow> pval \<Rightarrow> int \<Rightarrow> int list
     \<Rightarrow> beam list \<Rightarrow> tstep list \<Rightarrow> int \<Rightarrow> real list \<Rightarrow> real \<Rightarrow> real \<Rightarrow> lm \<Rightarrow> error + (lm \<times> int list)" where
  "hinge_node_FoR_constant_vel_dynamicmat alg node_number node_body FoR_body rot_axisB rot_vel ieq
     indep MB_beam MB_tstep sys_size Lambda_dot scalingFactor penaltyFactor st =
     ebind (as_int node_body) (\<lambda>nb.
     ebind (as_int node_number) (\<lambda>nn.
     ebind (define_node_dof MB_beam nb nn) (\<lambda>node_dof.
     ebind (define_FoR_dof MB_beam nb) (\<lambda>node_FoR_dof.
     ebind (as_int FoR_body) (\<lambda>fb.
     ebind (define_FoR_dof MB_beam fb) (\<lambda>FoR_dof.
     ebind (equal_lin_vel_node_FoR alg MB_tstep MB_beam fb nb nn node_FoR_dof node_dof FoR_dof sys_size Lambda_dot
              scalingFactor penaltyFactor ieq st) (\<lambda>r1.
     ebind (def_rot_axis_FoR_wrt_node alg MB_tstep MB_beam fb nb nn node_FoR_dof node_dof FoR_dof sys_size Lambda_dot
              rot_axisB scalingFactor penaltyFactor (fst r1) (snd r1) indep) (\<lambda>r2.
     ebind (def_rot_vel_FoR_wrt_node alg MB_tstep MB_beam fb nb nn node_FoR_dof node_dof FoR_dof sys_size Lambda_dot
              rot_axisB rot_vel scalingFactor penaltyFactor (fst r2) (fst (snd r2))) (\<lambda>r3.
       Inr (snd r3, snd (snd r2)))))))))))"

text \<open>\<open>spherical_node_FoR.dynamicmat\<close>.\<close>

definition spherical_node_FoR_dynamicmat ::
  "algebra \<Rightarrow> pval \<Rightarrow> pval \<Rightarrow> pval \<Rightarrow> int \<Rightarrow> beam list \<Rightarrow> tstep list \<Rightarrow> int \<Rightarrow> real list \<Rightarrow> real \<Rightarrow> real \<Rightarrow> lm \<Rightarrow> error + lm" where
  "spherical_node_FoR_dynamicmat alg node_number node_body FoR_body ieq
     MB_beam MB_tstep sys_size Lambda_dot scalingFactor penaltyFactor st =
     ebind (as_int node_body) (\<lambda>nb.
     ebind (as_int node_number) (\<lambda>nn.
     ebind (define_node_dof MB_beam nb nn) (\<lambda>node_dof.
     ebind (define_FoR_dof MB_beam nb) (\<lambda>node_FoR_dof.
     ebind (as_int FoR_body) (\<lambda>fb.
     ebind (define_FoR_dof MB_beam fb) (\<lambda>FoR_dof.
     ebind (equal_lin_vel_node_FoR alg MB_tstep MB_beam fb nb nn node_FoR_dof node_dof FoR_dof sys_size Lambda_dot
              scalingFactor penaltyFactor ieq st) (\<lambda>r1.
       Inr (snd r1))))))))"

text \<open>\<open>spherical_FoR.dynamicmat\<close>.\<close>

definition spherical_FoR_dynamicmat ::
  "pval \<Rightarrow> int \<Rightarrow> beam list \<Rightarrow> tstep list \<Rightarrow> int \<Rightarrow> real list \<Rightarrow> real \<Rightarrow> real \<Rightarrow> lm \<Rightarrow> error + lm" where
  "spherical_FoR_dynamicmat body_FoR ieq MB_beam MB_tstep sys_size Lambda_dot scalingFactor penaltyFactor st =
     ebind (zeros2 3 sys_size) (\<lambda>Bnh0.
     ebind (as_int body_FoR) (\<lambda>fb.
     ebind (define_FoR_dof MB_beam fb) (\<lambda>FoR_dof.
     ebind (np_mul (PReal 1) (eye 3)) (\<lambda>e.
     ebind (set_block Bnh0 0 3 FoR_dof (FoR_dof + 3) e) (\<lambda>Bnh.
     ebind (add_coupling (LM_C st) sys_size ieq 3 scalingFactor Bnh) (\<lambda>C1.
     ebind (add_multiplier_forces (LM_Q st) sys_size ieq 3 scalingFactor Bnh Lambda_dot) (\<lambda>Q1.
     ebind (py_index MB_tstep fb) (\<lambda>tF.
     ebind (add_slice Q1 (sys_size + ieq) (sys_size + ieq + 3) (slice_of (for_vel tF) 0 3)) (\<lambda>Q2.
       Inr (st\<lparr>LM_C := C1, LM_Q := Q2\<rparr>))))))))))"

text \<open>\<open>hinge_FoR.dynamicmat\<close>. The rows \<open>row0\<close> and \<open>row1\<close> are set by an
  \<open>if\<close>/\<open>elif\<close>/\<open>elif\<close> chain; when no branch is taken they are unbound where
  the rows of \<open>skew_rot_axis\<close> are taken, which raises UnboundLocalError.\<close>

definition hinge_FoR_dynamicmat ::
  "algebra \<Rightarrow> pval \<Rightarrow> pval \<Rightarrow> int \<Rightarrow> beam list \<Rightarrow> tstep list \<Rightarrow> int \<Rightarrow> real list \<Rightarrow> real \<Rightarrow> real \<Rightarrow> lm \<Rightarrow> error + lm" where
  "hinge_FoR_dynamicmat alg body_FoR rot_axis ieq MB_beam MB_tstep sys_size Lambda_dot scalingFactor penaltyFactor st =
     ebind (zeros2 5 sys_size) (\<lambda>Bnh0.
     ebind (as_int body_FoR) (\<lambda>fb.
     ebind (define_FoR_dof MB_beam fb) (\<lambda>FoR_dof.
     ebind (np_mul (PReal 1) (eye 3)) (\<lambda>e.
     ebind (set_block Bnh0 0 3 FoR_dof (FoR_dof + 3) e) (\<lambda>Bnh1.
     ebind (skew alg rot_axis) (\<lambda>sk.
     ebind (row_norms sk) (\<lambda>ns.
     ebind (case select_rows (fst ns) (fst (snd ns)) (snd (snd ns)) of
              Some p \<Rightarrow> Inr p | None \<Rightarrow> Inl UnboundLocalError) (\<lambda>rw.
     ebind (np_take_rows sk [fst rw, snd rw]) (\<lambda>rows.
     ebind (set_block Bnh1 3 5 (FoR_dof + 3) (FoR_dof + 6) rows) (\<lambda>Bnh.
     ebind (add_coupling (LM_C st) sys_size ieq 5 scalingFactor Bnh) (\<lambda>C1.
     ebind (add_multiplier_forces (LM_Q st) sys_size ieq 5 scalingFactor Bnh Lambda_dot) (\<lambda>Q1.
     ebind (py_index MB_tstep fb) (\<lambda>tF.
     ebind (add_slice Q1 (sys_size + ieq) (sys_size + ieq + 3) (slice_of (for_vel tF) 0 3)) (\<lambda>Q2.
     ebind (np_dot rows (slice_of (for_vel tF) 3 6)) (\<lambda>d.
     ebind (add_slice Q2 (sys_size + ieq + 3) (sys_size + ieq + 5) d) (\<lambda>Q3.
       Inr (st\<lparr>LM_C := C1, LM_Q := Q3\<rparr>)))))))))))))))))"

text \<open>\<open>hinge_FoR_wrtG.dynamicmat\<close>. The rows \<open>row0\<close> and \<open>row1\<close> are set by an
  \<open>if\<close>/\<open>elif\<close>/\<open>elif\<close> chain; when no branch is taken they are unbound where
  the rows of \<open>skew_rot_axis\<close> are taken, which raises UnboundLocalError.\<close>

definition hinge_FoR_wrtG_dynamicmat ::
  "algebra \<Rightarrow> pval \<Rightarrow> pval \<Rightarrow> int \<Rightarrow> beam list \<Rightarrow> tstep list \<Rightarrow> int \<Rightarrow> real list \<Rightarrow> real \<Rightarrow> real \<Rightarrow> lm \<Rightarrow> error + lm" where
  "hinge_FoR_wrtG_dynamicmat alg body_FoR rot_axis ieq MB_beam MB_tstep sys_size Lambda_dot scalingFactor penaltyFactor st =
     ebind (zeros2 5 sys_size) (\<lambda>Bnh0.
     ebind (as_int body_FoR) (\<lambda>fb.
     ebind (define_FoR_dof MB_beam fb) (\<lambda>FoR_dof.
     ebind (py_index MB_tstep fb) (\<lambda>tF.
     ebind (quat2rotation alg (PVec (quat tF))) (\<lambda>RF.
     ebind (set_block Bnh0 0 3 FoR_dof (FoR_dof + 3) RF) (\<lambda>Bnh1.
     ebind (skew alg rot_axis) (\<lambda>sk.
     ebind (row_norms sk) (\<lambda>ns.
     ebind (case select_rows (fst ns) (fst (snd ns)) (snd (snd ns)) of
              Some p \<Rightarrow> Inr p | None \<Rightarrow> Inl UnboundLocalError) (\<lambda>rw.
     ebind (np_take_rows sk [fst rw, snd rw]) (\<lambda>rows.
     ebind (set_block Bnh1 3 5 (FoR_dof + 3) (FoR_dof + 6) rows) (\<lambda>Bnh.
     ebind (add_coupling (LM_C st) sys_size ieq 5 scalingFactor Bnh) (\<lambda>C1.
     ebind (der_CquatT_by_v alg (PVec (quat tF)) (slice_of Lambda_dot ieq (ieq + 3))) (\<lambda>dF.
     ebind (add_block C1 FoR_dof (FoR_dof + 3) (FoR_dof + 6) (FoR_dof + 10) dF) (\<lambda>C2.
     ebind (add_multiplier_forces (LM_Q st) sys_size ieq 5 scalingFactor Bnh Lambda_dot) (\<lambda>Q1.
     ebind (np_dot RF (slice_of (for_vel tF) 0 3)) (\<lambda>v.
     ebind (add_slice Q1 (sys_size + ieq) (sys_size + ieq + 3) v) (\<lambda>Q2.
     ebind (np_dot rows (slice_of (for_vel tF) 3 6)) (\<lambda>d.
     ebind (add_slice Q2 (sys_size + ieq + 3) (sys_size + ieq + 5) d) (\<lambda>Q3.
       Inr (st\<lparr>LM_C := C2, LM_Q := Q3\<rparr>))))))))))))))))))))"

text \<open>\<open>fully_constrained_node_FoR.dynamicmat\<close>. It reads body 0 for the node's master
  element and rotation, and \<open>MB_tstep[1]\<close> for the linear velocity, as the source does.\<close>

definition fully_constrained_node_FoR_dynamicmat ::
  "algebra \<Rightarrow> pval \<Rightarrow> pval \<Rightarrow> pval \<Rightarrow> int \<Rightarrow> beam list \<Rightarrow> tstep list \<Rightarrow> int \<Rightarrow> real list \<Rightarrow> real \<Rightarrow> real \<Rightarrow> lm \<Rightarrow> error + lm" where
  "fully_constrained_node_FoR_dynamicmat alg node_number node_body FoR_body ieq
     MB_beam MB_tstep sys_size Lambda_dot scalingFactor penaltyFactor st =
     ebind (zeros2 6 sys_size) (\<lambda>Bnh0.
     ebind (as_int node_body) (\<lambda>nb.
     ebind (as_int node_number) (\<lambda>nn.
     ebind (define_node_dof MB_beam nb nn) (\<lambda>node_dof.
     ebind (as_int FoR_body) (\<lambda>fb.
     ebind (define_FoR_dof MB_beam fb) (\<lambda>FoR_dof.
     ebind (np_mul (PReal (- 1)) (eye 3)) (\<lambda>me.
     ebind (set_block Bnh0 0 3 node_dof (node_dof + 3) me) (\<lambda>Bnh1.
     ebind (py_index MB_tstep fb) (\<lambda>tF.
     ebind (quat_bound alg (PVec (quat tF))) (\<lambda>qb.
     ebind (quat2rotation alg qb) (\<lambda>R.
     ebind (set_block Bnh1 0 3 FoR_dof (FoR_dof + 3) R) (\<lambda>Bnh2.
     ebind (np_mul (PReal (- 1)) R) (\<lambda>mR.
     ebind (set_block Bnh2 3 6 (FoR_dof + 3) (FoR_dof + 6) mR) (\<lambda>Bnh3.
     ebind (py_index MB_beam 0) (\<lambda>b0.
     ebind (py_index (node_master_elem b0) nn) (\<lambda>el.
     ebind (py_index MB_tstep 0) (\<lambda>t0.
     ebind (psi_of (psi t0) (fst el) (snd el)) (\<lambda>ps.
     ebind (crv2tan alg ps) (\<lambda>T.
     ebind (set_block Bnh3 3 6 (node_dof + 3) (node_dof + 6) T) (\<lambda>Bnh.
     ebind (add_coupling (LM_C st) sys_size ieq 6 scalingFactor Bnh) (\<lambda>C1.
     ebind (add_multiplier_forces (LM_Q st) sys_size ieq 6 scalingFactor Bnh Lambda_dot) (\<lambda>Q1.
     ebind (row_of (pos_dot t0) (- 1)) (\<lambda>pd.
     ebind (np_mul (PReal (- 1)) pd) (\<lambda>mpd.
     ebind (py_index MB_tstep 1) (\<lambda>t1.
     ebind (np_dot R (slice_of (for_vel t1) 0 3)) (\<lambda>v1.
     ebind (np_add mpd v1) (\<lambda>res1.
     ebind (add_slice Q1 (sys_size + ieq) (sys_size + ieq + 3) res1) (\<lambda>Q2.
     ebind (psi_of (psi_dot t0) (fst el) (snd el)) (\<lambda>psd.
     ebind (np_dot T psd) (\<lambda>a.
     ebind (np_dot R (slice_of (for_vel tF) 3 6)) (\<lambda>b.
     ebind (np_sub a b) (\<lambda>res2.
     ebind (add_slice Q2 (sys_size + ieq + 3) (sys_size + ieq + 6) res2) (\<lambda>Q3.
     ebind (np_mul (PReal scalingFactor) (slice_of Lambda_dot ieq (ieq + 3))) (\<lambda>sL1.
     ebind (der_CquatT_by_v alg qb sL1) (\<lambda>d1.
     ebind (add_block C1 FoR_dof (FoR_dof + 3) (FoR_dof + 6) (FoR_dof + 10) d1) (\<lambda>C2.
     ebind (np_mul (PReal scalingFactor) (slice_of Lambda_dot (ieq + 3) (ieq + 6))) (\<lambda>sL2.
     ebind (der_CquatT_by_v alg qb sL2) (\<lambda>d2.
     ebind (sub_block C2 (FoR_dof + 3) (FoR_dof + 6) (FoR_dof + 6) (FoR_dof + 10) d2) (\<lambda>C3.
     ebind (der_TanT_by_xv alg ps sL2) (\<lambda>d3.
     ebind (add_block (LM_K st) (node_dof + 3) (node_dof + 6) (node_dof + 3) (node_dof + 6) d3) (\<lambda>K1.
       Inr \<lparr>LM_C = C3, LM_K = K1, LM_Q = Q3\<rparr>)))))))))))))))))))))))))))))))))))))))))"

text \<open>\<open>constant_rot_vel_FoR.dynamicmat\<close>.\<close>

definition constant_rot_vel_FoR_dynamicmat ::
  "pval \<Rightarrow> pval \<Rightarrow> int \<Rightarrow> beam list \<Rightarrow> tstep list \<Rightarrow> int \<Rightarrow> real list \<Rightarrow> real \<Rightarrow> real \<Rightarrow> lm \<Rightarrow> error + lm" where
  "constant_rot_vel_FoR_dynamicmat rot_vel FoR_body ieq MB_beam MB_tstep sys_size Lambda_dot scalingFactor penaltyFactor st =
     ebind (zeros2 3 sys_size) (\<lambda>Bnh0.
     ebind (as_int FoR_body) (\<lambda>fb.
     ebind (define_FoR_dof MB_beam fb) (\<lambda>FoR_dof.
     ebind (set_block Bnh0 0 3 (FoR_dof + 3) (FoR_dof + 6) (eye 3)) (\<lambda>Bnh.
     ebind (add_coupling (LM_C st) sys_size ieq 3 scalingFactor Bnh) (\<lambda>C1.
     ebind (add_multiplier_forces (LM_Q st) sys_size ieq 3 scalingFactor Bnh Lambda_dot) (\<lambda>Q1.
     ebind (py_index MB_tstep fb) (\<lambda>tF.
     ebind (np_sub (slice_of (for_vel tF) 3 6) rot_vel) (\<lambda>res.
     ebind (add_slice Q1 (sys_size + ieq) (sys_size + ieq + 3) res) (\<lambda>Q2.
       Inr (st\<lparr>LM_C := C1, LM_Q := Q2\<rparr>))))))))))"

text \<open>\<open>constant_vel_FoR.dynamicmat\<close>.\<close>

definition constant_vel_FoR_dynamicmat ::
  "pval \<Rightarrow> pval \<Rightarrow> int \<Rightarrow> beam list \<Rightarrow> tstep list \<Rightarrow> int \<Rightarrow> real list \<Rightarrow> real \<Rightarrow> real \<Rightarrow> lm \<Rightarrow> error + lm" where
  "constant_vel_FoR_dynamicmat vel FoR_body ieq MB_beam MB_tstep sys_size Lambda_dot scalingFactor penaltyFactor st =
     ebind (zeros2 6 sys_size) (\<lambda>Bnh0.
     ebind (as_int FoR_body) (\<lambda>fb.
     ebind (define_FoR_dof MB_beam fb) (\<lambda>FoR_dof.
     ebind (set_block Bnh0 0 6 FoR_dof (FoR_dof + 6) (eye 6)) (\<lambda>Bnh.
     ebind (add_coupling (LM_C st) sys_size ieq 6 scalingFactor Bnh) (\<lambda>C1.
     ebind (add_multiplier_forces (LM_Q st) sys_size ieq 6 scalingFactor Bnh Lambda_dot) (\<lambda>Q1.
     ebind (py_index MB_tstep fb) (\<lambda>tF.
     ebind (np_sub (PVec (for_vel tF)) vel) (\<lambda>res.
     ebind (add_slice Q1 (sys_size + ieq) (sys_size + ieq + 6) res) (\<lambda>Q2.
       Inr (st\<lparr>LM_C := C1, LM_Q := Q2\<rparr>))))))))))"

text \<open>\<open>current_vel\<close> of the two \<open>lin_vel_node\<close> classes: row \<open>ts - 1\<close> of a
  two-dimensional \<open>self.vel\<close>, and \<open>self.vel\<close> itself when it is one-dimensional. A value
  that is not an array has no \<open>shape\<close>.\<close>

definition current_vel :: "pval \<Rightarrow> int \<Rightarrow> error + pval" where
  "current_vel vel ts =
     (case vel of
        PMat M \<Rightarrow> np_row vel (ts - 1)
      | PVec v \<Rightarrow> Inr vel
      | _ \<Rightarrow> Inl AttributeError)"

text \<open>\<open>lin_vel_node_wrtA.staticmat\<close>: it adds to \<open>LM_K\<close>, with the multipliers \<open>Lambda\<close>.\<close>

definition lin_vel_node_wrtA_staticmat ::
  "pval \<Rightarrow> pval \<Rightarrow> pval \<Rightarrow> int \<Rightarrow> beam list \<Rightarrow> tstep list \<Rightarrow> int \<Rightarrow> real list \<Rightarrow> real \<Rightarrow> real \<Rightarrow> lm \<Rightarrow> error + lm" where
  "lin_vel_node_wrtA_staticmat vel body_number node_number ieq MB_beam MB_tstep sys_size Lambda scalingFactor penaltyFactor st =
     ebind (zeros2 3 sys_size) (\<lambda>B0.
     ebind (as_int body_number) (\<lambda>bn.
     ebind (as_int node_number) (\<lambda>nn.
     ebind (define_node_dof MB_beam bn nn) (\<lambda>node_dof.
     ebind (set_block B0 0 3 node_dof (node_dof + 3) (eye 3)) (\<lambda>B.
     ebind (add_coupling (LM_K st) sys_size ieq 3 scalingFactor B) (\<lambda>K1.
     ebind (add_multiplier_forces (LM_Q st) sys_size ieq 3 scalingFactor B Lambda) (\<lambda>Q1.
     ebind (py_index MB_tstep bn) (\<lambda>t.
     ebind (row_of (pos t) nn) (\<lambda>p.
     ebind (py_index MB_beam bn) (\<lambda>b.
     ebind (row_of (pos (ini_info b)) nn) (\<lambda>p0.
     ebind (np_sub p p0) (\<lambda>res.
     ebind (add_slice Q1 (sys_size + ieq) (sys_size + ieq + 3) res) (\<lambda>Q2.
       Inr (st\<lparr>LM_K := K1, LM_Q := Q2\<rparr>))))))))))))))"

text \<open>\<open>lin_vel_node_wrtA.dynamicmat\<close>.\<close>

definition lin_vel_node_wrtA_dynamicmat ::
  "pval \<Rightarrow> pval \<Rightarrow> pval \<Rightarrow> int \<Rightarrow> int \<Rightarrow> beam list \<Rightarrow> tstep list \<Rightarrow> int \<Rightarrow> real list \<Rightarrow> real \<Rightarrow> real \<Rightarrow> lm \<Rightarrow> error + lm" where
  "lin_vel_node_wrtA_dynamicmat vel body_number node_number ieq ts MB_beam MB_tstep sys_size Lambda_dot scalingFactor penaltyFactor st =
     ebind (current_vel vel ts) (\<lambda>cv.
     ebind (zeros2 3 sys_size) (\<lambda>Bnh0.
     ebind (as_int body_number) (\<lambda>bn.
     ebind (as_int node_number) (\<lambda>nn.
     ebind (define_node_dof MB_beam bn nn) (\<lambda>node_dof.
     ebind (set_block Bnh0 0 3 node_dof (node_dof + 3) (eye 3)) (\<lambda>Bnh.
     ebind (add_coupling (LM_C st) sys_size ieq 3 scalingFactor Bnh) (\<lambda>C1.
     ebind (add_multiplier_forces (LM_Q st) sys_size ieq 3 scalingFactor Bnh Lambda_dot) (\<lambda>Q1.
     ebind (py_index MB_tstep bn) (\<lambda>t.
     ebind (row_of (pos_dot t) nn) (\<lambda>pd.
     ebind (np_sub pd cv) (\<lambda>res.
     ebind (add_slice Q1 (sys_size + ieq) (sys_size + ieq + 3) res) (\<lambda>Q2.
       Inr (st\<lparr>LM_C := C1, LM_Q := Q2\<rparr>)))))))))))))"

text \<open>\<open>lin_vel_node_wrtG.staticmat\<close>.\<close>

definition lin_vel_node_wrtG_staticmat ::
  "algebra \<Rightarrow> pval \<Rightarrow> pval \<Rightarrow> pval \<Rightarrow> int \<Rightarrow> beam list \<Rightarrow> tstep list \<Rightarrow> int \<Rightarrow> real list \<Rightarrow> real \<Rightarrow> real \<Rightarrow> lm \<Rightarrow> error + lm" where
  "lin_vel_node_wrtG_staticmat alg vel body_number node_number ieq MB_beam MB_tstep sys_size Lambda scalingFactor penaltyFactor st =
     ebind (zeros2 3 sys_size) (\<lambda>B0.
     ebind (as_int body_number) (\<lambda>bn.
     ebind (as_int node_number) (\<lambda>nn.
     ebind (define_node_dof MB_beam bn nn) (\<lambda>node_dof.
     ebind (py_index MB_tstep bn) (\<lambda>t.
     ebind (quat2rotation alg (PVec (quat t))) (\<lambda>R.
     ebind (set_block B0 0 3 node_dof (node_dof + 3) R) (\<lambda>B.
     ebind (add_coupling (LM_K st) sys_size ieq 3 scalingFactor B) (\<lambda>K1.
     ebind (add_multiplier_forces (LM_Q st) sys_size ieq 3 scalingFactor B Lambda) (\<lambda>Q1.
     ebind (row_of (pos t) nn) (\<lambda>p.
     ebind (np_dot R p) (\<lambda>Rp.
     ebind (np_add Rp (PVec (for_pos t))) (\<lambda>res.
     ebind (add_slice Q1 (sys_size + ieq) (sys_size + ieq + 3) res) (\<lambda>Q2.
     ebind (py_index MB_beam bn) (\<lambda>b.
     ebind (quat2rotation alg (PVec (quat (ini_info b)))) (\<lambda>R0.
     ebind (row_of (pos (ini_info b)) nn) (\<lambda>p0.
     ebind (np_dot R0 p0) (\<lambda>Rp0.
     ebind (np_add Rp0 (PVec (for_pos (ini_info b)))) (\<lambda>res0.
     ebind (sub_slice Q2 (sys_size + ieq) (sys_size + ieq + 3) res0) (\<lambda>Q3.
       Inr (st\<lparr>LM_K := K1, LM_Q := Q3\<rparr>))))))))))))))))))))"

text \<open>\<open>lin_vel_node_wrtG.dynamicmat\<close>.\<close>

definition lin_vel_node_wrtG_dynamicmat ::
  "algebra \<Rightarrow> pval \<Rightarrow> pval \<Rightarrow> pval \<Rightarrow> int \<Rightarrow> int \<Rightarrow> beam list \<Rightarrow> tstep list \<Rightarrow> int \<Rightarrow> real list \<Rightarrow> real \<Rightarrow> real \<Rightarrow> lm \<Rightarrow> error + lm" where
  "lin_vel_node_wrtG_dynamicmat alg vel body_number node_number ieq ts
     MB_beam MB_tstep sys_size Lambda_dot scalingFactor penaltyFactor st =
     ebind (current_vel vel ts) (\<lambda>cv.
     ebind (zeros2 3 sys_size) (\<lambda>Bnh0.
     ebind (as_int body_number) (\<lambda>bn.
     ebind (define_FoR_dof MB_beam bn) (\<lambda>FoR_dof.
     ebind (as_int node_number) (\<lambda>nn.
     ebind (define_node_dof MB_beam bn nn) (\<lambda>node_dof.
     ebind (py_index MB_beam bn) (\<lambda>b.
     ebind (py_index MB_tstep bn) (\<lambda>t.
     ebind (quat2rotation alg (PVec (quat t))) (\<lambda>R.
     ebind (if FoR_movement b = ''free'' then
              ebind (set_block Bnh0 0 3 FoR_dof (FoR_dof + 3) R) (\<lambda>Bnh1.
              ebind (row_of (pos t) nn) (\<lambda>p.
              ebind (skew alg p) (\<lambda>sp.
              ebind (np_dot R sp) (\<lambda>d.
              ebind (np_mul (PReal (- 1)) d) (\<lambda>md.
                set_block Bnh1 0 3 (FoR_dof + 3) (FoR_dof + 6) md)))))
            else Inr Bnh0) (\<lambda>Bnh2.
     ebind (set_block Bnh2 0 3 node_dof (node_dof + 3) R) (\<lambda>Bnh.
     ebind (add_coupling (LM_C st) sys_size ieq 3 scalingFactor Bnh) (\<lambda>C1.
     ebind (if FoR_movement b = ''free'' then
              ebind (der_CquatT_by_v alg (PVec (quat t)) (slice_of Lambda_dot ieq (ieq + 3))) (\<lambda>dq.
              ebind (add_block C1 FoR_dof (FoR_dof + 3) (FoR_dof + 6) (FoR_dof + 10) dq) (\<lambda>C2.
              ebind (add_block C2 node_dof (node_dof + 3) (FoR_dof + 6) (FoR_dof + 10) dq) (\<lambda>C3.
              ebind (row_of (pos t) nn) (\<lambda>p.
              ebind (skew alg p) (\<lambda>sp.
              ebind (np_dot sp dq) (\<lambda>sd.
              ebind (add_block C3 (FoR_dof + 3) (FoR_dof + 6) (FoR_dof + 6) (FoR_dof + 10) sd) (\<lambda>C4.
              ebind (np_dot (np_transpose R) (slice_of Lambda_dot ieq (ieq + 3))) (\<lambda>rl.
              ebind (skew alg rl) (\<lambda>srl.
              ebind (sub_block (LM_K st) (FoR_dof + 3) (FoR_dof + 6) node_dof (node_dof + 3) srl) (\<lambda>K1.
                Inr (C4, K1)))))))))))
            else Inr (C1, LM_K st)) (\<lambda>CK.
     ebind (add_multiplier_forces (LM_Q st) sys_size ieq 3 scalingFactor Bnh Lambda_dot) (\<lambda>Q1.
     ebind (skew alg (slice_of (for_vel t) 3 6)) (\<lambda>w.
     ebind (row_of (pos t) nn) (\<lambda>p.
     ebind (np_dot w p) (\<lambda>wp.
     ebind (np_add (slice_of (for_vel t) 0 3) wp) (\<lambda>s1.
     ebind (row_of (pos_dot t) nn) (\<lambda>pd.
     ebind (np_add s1 pd) (\<lambda>s2.
     ebind (np_dot R s2) (\<lambda>v.
     ebind (np_sub v cv) (\<lambda>res.
     ebind (add_slice Q1 (sys_size + ieq) (sys_size + ieq + 3) res) (\<lambda>Q2.
       Inr \<lparr>LM_C = fst CK, LM_K = snd CK, LM_Q = Q2\<rparr>)))))))))))))))))))))))"

text \<open>\<open>lc.dynamicmat(...)\<close> and \<open>lc.staticmat(...)\<close> on a constraint object: the method of
  its class. The result is the matrices and the object, whose \<open>indep\<close> the two hinge
  classes may have set. Apart from the two \<open>lin_vel_node\<close> classes, \<open>staticmat\<close> is
  \<open>return\<close>.\<close>

fun dynamicmat ::
  "algebra \<Rightarrow> lc \<Rightarrow> beam list \<Rightarrow> tstep list \<Rightarrow> int \<Rightarrow> int \<Rightarrow> real list \<Rightarrow> real list \<Rightarrow> real
     \<Rightarrow> real \<Rightarrow> lm \<Rightarrow> error + (lm \<times> lc)" where
  "dynamicmat alg (Hinge_node_FoR nn nb fb ax i indep) MB_beam MB_tstep ts sys_size Lambda
     Lambda_dot s p st =
     ebind (hinge_node_FoR_dynamicmat alg nn nb fb ax i indep MB_beam MB_tstep sys_size Lambda_dot s p st)
       (\<lambda>r. Inr (fst r, Hinge_node_FoR nn nb fb ax i (snd r)))"
| "dynamicmat alg (Hinge_node_FoR_constant_vel nn nb fb ax rv i indep) MB_beam MB_tstep ts
     sys_size Lambda Lambda_dot s p st =
     ebind (hinge_node_FoR_constant_vel_dynamicmat alg nn nb fb ax rv i indep MB_beam MB_tstep sys_size Lambda_dot s p st)
       (\<lambda>r. Inr (fst r, Hinge_node_FoR_constant_vel nn nb fb ax rv i (snd r)))"
| "dynamicmat alg (Spherical_node_FoR nn nb fb i) MB_beam MB_tstep ts sys_size Lambda
     Lambda_dot s p st =
     ebind (spherical_node_FoR_dynamicmat alg nn nb fb i MB_beam MB_tstep sys_size Lambda_dot s p st)
       (\<lambda>st'. Inr (st', Spherical_node_FoR nn nb fb i))"
| "dynamicmat alg (Free i) MB_beam MB_tstep ts sys_size Lambda Lambda_dot s p st =
     Inr (st, Free i)"
| "dynamicmat alg (Spherical_FoR fb i) MB_beam MB_tstep ts sys_size Lambda Lambda_dot s p st =
     ebind (spherical_FoR_dynamicmat fb i MB_beam MB_tstep sys_size Lambda_dot s p st)
       (\<lambda>st'. Inr (st', Spherical_FoR fb i))"
| "dynamicmat alg (Hinge_FoR fb ax i) MB_beam MB_tstep ts sys_size Lambda Lambda_dot s p st =
     ebind (hinge_FoR_dynamicmat alg fb ax i MB_beam MB_tstep sys_size Lambda_dot s p st)
       (\<lambda>st'. Inr (st', Hinge_FoR fb ax i))"
| "dynamicmat alg (Hinge_FoR_wrtG fb ax i) MB_beam MB_tstep ts sys_size Lambda Lambda_dot s p
     st =
     ebind (hinge_FoR_wrtG_dynamicmat alg fb ax i MB_beam MB_tstep sys_size Lambda_dot s p st)
       (\<lambda>st'. Inr (st', Hinge_FoR_wrtG fb ax i))"
| "dynamicmat alg (Fully_constrained_node_FoR nn nb fb i) MB_beam MB_tstep ts sys_size Lambda
     Lambda_dot s p st =
     ebind (fully_constrained_node_FoR_dynamicmat alg nn nb fb i MB_beam MB_tstep sys_size Lambda_dot s p st)
       (\<lambda>st'. Inr (st', Fully_constrained_node_FoR nn nb fb i))"
| "dynamicmat alg (Constant_rot_vel_FoR rv fb i) MB_beam MB_tstep ts sys_size Lambda Lambda_dot
     s p st =
     ebind (constant_rot_vel_FoR_dynamicmat rv fb i MB_beam MB_tstep sys_size Lambda_dot s p st)
       (\<lambda>st'. Inr (st', Constant_rot_vel_FoR rv fb i))"
| "dynamicmat alg (Constant_vel_FoR v fb i) MB_beam MB_tstep ts sys_size Lambda Lambda_dot s p
     st =
     ebind (constant_vel_FoR_dynamicmat v fb i MB_beam MB_tstep sys_size Lambda_dot s p st)
       (\<lambda>st'. Inr (st', Constant_vel_FoR v fb i))"
| "dynamicmat alg (Lin_vel_node_wrtA v bn nn i) MB_beam MB_tstep ts sys_size Lambda Lambda_dot
     s p st =
     ebind (lin_vel_node_wrtA_dynamicmat v bn nn i ts MB_beam MB_tstep sys_size Lambda_dot s p st)
       (\<lambda>st'. Inr (st', Lin_vel_node_wrtA v bn nn i))"
| "dynamicmat alg (Lin_vel_node_wrtG v bn nn i) MB_beam MB_tstep ts sys_size Lambda Lambda_dot
     s p st =
     ebind (lin_vel_node_wrtG_dynamicmat alg v bn nn i ts MB_beam MB_tstep sys_size Lambda_dot s p st)
       (\<lambda>st'. Inr (st', Lin_vel_node_wrtG v bn nn i))"

fun staticmat ::
  "algebra \<Rightarrow> lc \<Rightarrow> beam list \<Rightarrow> tstep list \<Rightarrow> int \<Rightarrow> int \<Rightarrow> real list \<Rightarrow> real list \<Rightarrow> real
     \<Rightarrow> real \<Rightarrow> lm \<Rightarrow> error + (lm \<times> lc)" where
  "staticmat alg (Lin_vel_node_wrtA v bn nn i) MB_beam MB_tstep ts sys_size Lambda Lambda_dot
     s p st =
     ebind (lin_vel_node_wrtA_staticmat v bn nn i MB_beam MB_tstep sys_size Lambda s p st)
       (\<lambda>st'. Inr (st', Lin_vel_node_wrtA v bn nn i))"
| "staticmat alg (Lin_vel_node_wrtG v bn nn i) MB_beam MB_tstep ts sys_size Lambda Lambda_dot
     s p st =
     ebind (lin_vel_node_wrtG_staticmat alg v bn nn i MB_beam MB_tstep sys_size Lambda s p st)
       (\<lambda>st'. Inr (st', Lin_vel_node_wrtG v bn nn i))"
| "staticmat alg c MB_beam MB_tstep ts sys_size Lambda Lambda_dot s p st = Inr (st, c)"

text \<open>The matrices \<open>generate_lagrange_matrix\<close> starts from: zeros of size
  \<open>sys_size + num_LM_eq\<close>.\<close>

definition initial_matrices :: "int \<Rightarrow> int \<Rightarrow> error + lm" where
  "initial_matrices sys_size num_LM_eq =
     ebind (zeros2 (sys_size + num_LM_eq) (sys_size + num_LM_eq)) (\<lambda>C.
     ebind (zeros2 (sys_size + num_LM_eq) (sys_size + num_LM_eq)) (\<lambda>K.
     ebind (zeros1 (sys_size + num_LM_eq)) (\<lambda>Q.
       Inr \<lparr>LM_C = C, LM_K = K, LM_Q = Q\<rparr>)))"

text \<open>A specification whose only entry names a registered kind and leaves out the
  parameters the kind reads.\<close>

definition incomplete_MBdict :: mbdict where
  "incomplete_MBdict =
     [''num_constraints'' \<mapsto> MVal (PInt 1),
      ''constraint_00'' \<mapsto> MEntry [''behaviour'' \<mapsto> PStr ''hinge_FoR'']]"

section \<open>Symmetry of the coupling blocks\<close>

text \<open>A two-dimensional array of \<open>r\<close> rows and \<open>c\<close> columns. The blocks of a matrix
  that couple the first \<open>sys\<close> unknowns with the others are symmetric: the entry in row
  \<open>j\<close> and column \<open>i\<close> is the entry in row \<open>i\<close> and column \<open>j\<close>, for \<open>i\<close> below \<open>sys\<close>
  and \<open>j\<close> from \<open>sys\<close> on.\<close>

definition rect :: "nat \<Rightarrow> nat \<Rightarrow> 'a list list \<Rightarrow> bool" where
  "rect r c A \<longleftrightarrow> length A = r \<and> (\<forall>row \<in> set A. length row = c)"

definition offdiag_sym :: "nat \<Rightarrow> real list list \<Rightarrow> bool" where
  "offdiag_sym sys M \<longleftrightarrow>
     (\<forall>i \<in> set [0..<sys]. \<forall>j \<in> set [sys..<length M]. M ! j ! i = M ! i ! j)"

text \<open>A square matrix of size \<open>N\<close> with symmetric coupling blocks; what holds of every
  result of a computation that returns; the frame window is inside the system when the
  node's body is free.\<close>

definition good :: "nat \<Rightarrow> nat \<Rightarrow> real list list \<Rightarrow> bool" where
  "good sys N M \<longleftrightarrow> rect N N M \<and> offdiag_sym sys M"

definition post :: "error + 'a \<Rightarrow> ('a \<Rightarrow> bool) \<Rightarrow> bool" where
  "post m Q \<longleftrightarrow> (\<forall>x. m = Inr x \<longrightarrow> Q x)"

definition free_frame_ok :: "beam list \<Rightarrow> int \<Rightarrow> int \<Rightarrow> int \<Rightarrow> bool" where
  "free_frame_ok MB_beam node_b d sys_size \<longleftrightarrow>
     (case py_index MB_beam node_b of
        Inr b \<Rightarrow> FoR_movement b = ''free'' \<longrightarrow> 0 \<le> d \<and> d + 10 \<le> sys_size
      | Inl _ \<Rightarrow> True)"

text \<open>The DOF windows a constraint addresses, where the addressing functions give
  them: the 10 DOFs of a body's frame of reference and the 6 DOFs of a node lie among
  the \<open>sys_size\<close> DOFs of the bodies.\<close>

definition frame_window :: "beam list \<Rightarrow> int \<Rightarrow> pval \<Rightarrow> bool" where
  "frame_window MB_beam sys_size body \<longleftrightarrow>
     (case ebind (as_int body) (define_FoR_dof MB_beam) of
        Inr d \<Rightarrow> 0 \<le> d \<and> d + 10 \<le> sys_size
      | Inl _ \<Rightarrow> True)"

definition node_window :: "beam list \<Rightarrow> int \<Rightarrow> pval \<Rightarrow> pval \<Rightarrow> bool" where
  "node_window MB_beam sys_size body node \<longleftrightarrow>
     (case ebind (as_int body) (\<lambda>b. ebind (as_int node) (define_node_dof MB_beam b)) of
        Inr d \<Rightarrow> 0 \<le> d \<and> d + 6 \<le> sys_size
      | Inl _ \<Rightarrow> True)"

definition body_free :: "beam list \<Rightarrow> pval \<Rightarrow> bool" where
  "body_free MB_beam body \<longleftrightarrow>
     (case ebind (as_int body) (py_index MB_beam) of
        Inr b \<Rightarrow> FoR_movement b = ''free''
      | Inl _ \<Rightarrow> False)"

text \<open>The windows each kind of constraint addresses outside its own rows and columns:
  the frame of the body it names as frame of reference, the node, and the frame of the
  node's body when that body is free. The kinds that only write their Jacobian address
  none.\<close>

fun windows_in_range :: "beam list \<Rightarrow> int \<Rightarrow> lc \<Rightarrow> bool" where
  "windows_in_range MB_beam sys_size (Hinge_node_FoR nn nb fb ax i indep) \<longleftrightarrow>
     frame_window MB_beam sys_size fb \<and> node_window MB_beam sys_size nb nn \<and>
     (body_free MB_beam nb \<longrightarrow> frame_window MB_beam sys_size nb)"
| "windows_in_range MB_beam sys_size (Hinge_node_FoR_constant_vel nn nb fb ax rv i indep) \<longleftrightarrow>
     frame_window MB_beam sys_size fb \<and> node_window MB_beam sys_size nb nn \<and>
     (body_free MB_beam nb \<longrightarrow> frame_window MB_beam sys_size nb)"
| "windows_in_range MB_beam sys_size (Spherical_node_FoR nn nb fb i) \<longleftrightarrow>
     frame_window MB_beam sys_size fb \<and> node_window MB_beam sys_size nb nn \<and>
     (body_free MB_beam nb \<longrightarrow> frame_window MB_beam sys_size nb)"
| "windows_in_range MB_beam sys_size (Hinge_FoR_wrtG fb ax i) \<longleftrightarrow>
     frame_window MB_beam sys_size fb"
| "windows_in_range MB_beam sys_size (Fully_constrained_node_FoR nn nb fb i) \<longleftrightarrow>
     frame_window MB_beam sys_size fb \<and> node_window MB_beam sys_size nb nn"
| "windows_in_range MB_beam sys_size (Lin_vel_node_wrtG v bn nn i) \<longleftrightarrow>
     (body_free MB_beam bn \<longrightarrow>
        frame_window MB_beam sys_size bn \<and> node_window MB_beam sys_size bn nn)"
| "windows_in_range MB_beam sys_size c \<longleftrightarrow> True"

section \<open>Properties of DOF addressing\<close>

lemma ebind_Inr [simp]: "ebind (Inr x) f = f x"
  by (simp add: ebind_def)

lemma ebind_Inl [simp]: "ebind (Inl e) f = Inl e"
  by (simp add: ebind_def)

lemma ebind_eq_Inr:
  "ebind m f = Inr y \<longleftrightarrow> (\<exists>x. m = Inr x \<and> f x = Inr y)"
  by (cases m) simp_all

lemma py_index_nat:
  "i < length xs \<Longrightarrow> py_index xs (int i) = Inr (xs ! i)"
  by (simp add: py_index_def)

lemma dof_loop_upt:
  "n \<le> length MB_beam \<Longrightarrow>
   dof_loop MB_beam (map int [m..<n]) dof =
     Inr (dof + (\<Sum>i = m..<n. body_span (MB_beam ! i)))"
proof (induction "n - m" arbitrary: m dof)
  case 0
  then show ?case by simp
next
  case (Suc k)
  then have mn: "m < n" by simp
  then have upt: "[m..<n] = m # [Suc m..<n]" by (simp add: upt_conv_Cons)
  have idx: "py_index MB_beam (int m) = Inr (MB_beam ! m)"
    using mn Suc.prems by (simp add: py_index_nat)
  have ih: "dof_loop MB_beam (map int [Suc m..<n]) d =
      Inr (d + (\<Sum>i = Suc m..<n. body_span (MB_beam ! i)))" for d
    using Suc.hyps(1) [of "Suc m" d] Suc.hyps(2) Suc.prems by simp
  have split: "(\<Sum>i = m..<n. body_span (MB_beam ! i)) =
      body_span (MB_beam ! m) + (\<Sum>i = Suc m..<n. body_span (MB_beam ! i))"
    using mn by (simp add: sum.atLeast_Suc_lessThan)
  show ?case
    by (simp add: upt idx ih split Let_def) (simp add: body_span_def)
qed

text \<open>
  C4. For a list of bodies and an in-range body index and node index,
  \<open>define_node_dof\<close> returns the sum over the preceding bodies of \<open>num_dof\<close>, plus 10
  for each preceding body whose \<open>FoR_movement\<close> is \<open>free\<close>, plus 6 times the entry of
  the target body's \<open>vdof\<close> table for the node; \<open>define_FoR_dof\<close> returns the same
  prefix sum plus the target body's own \<open>num_dof\<close>.
\<close>

theorem dof_addressing_prefix_sum:
  assumes "node_body < length MB_beam"
    and "num_node < length (vdof (MB_beam ! node_body))"
  shows "define_node_dof MB_beam (int node_body) (int num_node) =
           Inr ((\<Sum>i = 0..<node_body.
                   num_dof (MB_beam ! i) +
                   (if FoR_movement (MB_beam ! i) = ''free'' then 10 else 0))
                + 6 * (vdof (MB_beam ! node_body) ! num_node))
       \<and> define_FoR_dof MB_beam (int node_body) =
           Inr ((\<Sum>i = 0..<node_body.
                   num_dof (MB_beam ! i) +
                   (if FoR_movement (MB_beam ! i) = ''free'' then 10 else 0))
                + num_dof (MB_beam ! node_body))"
proof -
  have loop: "dof_loop MB_beam (py_range (int node_body)) 0 =
      Inr (\<Sum>i = 0..<node_body. body_span (MB_beam ! i))"
    using dof_loop_upt [of node_body MB_beam 0 0] assms(1) by (simp add: py_range_def)
  have b: "py_index MB_beam (int node_body) = Inr (MB_beam ! node_body)"
    using assms(1) by (rule py_index_nat)
  have v: "py_index (vdof (MB_beam ! node_body)) (int num_node) =
      Inr (vdof (MB_beam ! node_body) ! num_node)"
    using assms(2) by (rule py_index_nat)
  show ?thesis
    by (simp add: define_node_dof_def define_FoR_dof_def loop b v body_span_def)
qed

lemma initialise_result:
  "initialise k e i = Inr (c, j) \<Longrightarrow> j = i + n_eq_of k \<and> kind_of c = k \<and> ieq_of c = i"
  by (cases k) (auto simp: ebind_eq_Inr)

lemma initialise_succeeds:
  "\<forall>p \<in> set (required_parameters k). e p \<noteq> None \<Longrightarrow>
   \<exists>c. initialise k e i = Inr (c, i + n_eq_of k)"
  by (cases k) (auto simp: dict_get_def split: option.splits)

lemma n_eq_of_nonneg: "0 \<le> n_eq_of k"
  by (cases k) simp_all

lemma get_n_eq_nonneg: "0 \<le> get_n_eq c"
  by (simp add: get_n_eq_def n_eq_of_nonneg)

lemma scan_append:
  "scan s (xs @ ys) \<longleftrightarrow> scan s xs \<and> scan (s + sum_list (map get_n_eq xs)) ys"
  by (induction xs arbitrary: s) (auto simp: add.assoc)

lemma declared_step:
  assumes "declared MBdict i = Some (k, e)"
  shows "init_loop MBdict (i # rest) s acc =
     ebind (initialise k e s) (\<lambda>(c, s'). init_loop MBdict rest s' (acc @ [c]))"
  using assms
  by (auto simp: declared_def dict_get_def subscript_def lc_from_string_def
      split: option.splits mbval.splits pval.splits)

lemma init_loop_upt:
  assumes "\<forall>i \<in> {m..<n}. \<exists>k e. declared MBdict (int i) = Some (k, e) \<and>
        (\<forall>p \<in> set (required_parameters k). e p \<noteq> None)"
  shows "\<exists>cs. init_loop MBdict (map int [m..<n]) s acc = Inr (acc @ cs) \<and>
      length cs = n - m \<and> scan s cs \<and>
      (\<forall>i < n - m. map_option fst (declared MBdict (int (m + i))) = Some (kind_of (cs ! i)))"
  using assms
proof (induction "n - m" arbitrary: m s acc)
  case 0
  then show ?case by simp
next
  case (Suc d)
  then have mn: "m < n" by simp
  then have upt: "[m..<n] = m # [Suc m..<n]" by (simp add: upt_conv_Cons)
  from Suc.prems mn obtain k e where
    dk: "declared MBdict (int m) = Some (k, e)" and
    req: "\<forall>p \<in> set (required_parameters k). e p \<noteq> None"
  proof -
    have "m \<in> {m..<n}" using mn by simp
    with Suc.prems show ?thesis using that by blast
  qed
  from initialise_succeeds [OF req] obtain c where
    ini: "initialise k e s = Inr (c, s + n_eq_of k)" by blast
  from initialise_result [OF ini] have ck: "kind_of c = k" and ci: "ieq_of c = s" by simp_all
  have rest: "\<forall>i \<in> {Suc m..<n}. \<exists>k e. declared MBdict (int i) = Some (k, e) \<and>
        (\<forall>p \<in> set (required_parameters k). e p \<noteq> None)"
    using Suc.prems by simp
  have d: "d = n - Suc m" using Suc.hyps(2) by simp
  from Suc.hyps(1) [OF d rest, of "s + n_eq_of k" "acc @ [c]"] obtain cs where
    run: "init_loop MBdict (map int [Suc m..<n]) (s + n_eq_of k) (acc @ [c]) = Inr ((acc @ [c]) @ cs)"
    and len: "length cs = n - Suc m"
    and sc: "scan (s + n_eq_of k) cs"
    and kinds: "\<forall>i < n - Suc m. map_option fst (declared MBdict (int (Suc m + i))) = Some (kind_of (cs ! i))"
    by blast
  have "init_loop MBdict (map int [m..<n]) s acc = Inr (acc @ (c # cs))"
    by (simp add: upt declared_step [OF dk] ini run del: init_loop.simps)
  moreover have "length (c # cs) = n - m" using len mn by simp
  moreover have "scan s (c # cs)" using sc ci ck by (simp add: get_n_eq_def)
  moreover have "\<forall>i < n - m. map_option fst (declared MBdict (int (m + i))) = Some (kind_of ((c # cs) ! i))"
  proof (intro allI impI)
    fix i assume "i < n - m"
    show "map_option fst (declared MBdict (int (m + i))) = Some (kind_of ((c # cs) ! i))"
    proof (cases i)
      case 0
      then show ?thesis using dk ck by simp
    next
      case (Suc i')
      then have "i' < n - Suc m" using \<open>i < n - m\<close> by simp
      then show ?thesis using kinds Suc by simp
    qed
  qed
  ultimately show ?case by blast
qed

lemma scan_nth:
  "scan s cs \<Longrightarrow> i < length cs \<Longrightarrow> ieq_of (cs ! i) = s + (\<Sum>j<i. get_n_eq (cs ! j))"
proof (induction cs arbitrary: s i)
  case Nil
  then show ?case by simp
next
  case (Cons c cs)
  show ?case
  proof (cases i)
    case 0
    then show ?thesis using Cons.prems by simp
  next
    case (Suc i')
    then have "ieq_of (cs ! i') = (s + get_n_eq c) + (\<Sum>j<i'. get_n_eq (cs ! j))"
      using Cons by simp
    moreover have "(\<Sum>j<Suc i'. get_n_eq ((c # cs) ! j)) =
        get_n_eq c + (\<Sum>j<i'. get_n_eq (cs ! j))"
      by (subst sum.lessThan_Suc_shift) simp
    ultimately show ?thesis using Suc by (simp only: nth_Cons_Suc)
  qed
qed

lemma define_num_LM_eq_loop_sum:
  "define_num_LM_eq_loop cs a = a + sum_list (map get_n_eq cs)"
  by (induction cs arbitrary: a) simp_all

lemma sum_list_nth_upto: "sum_list (map f cs) = (\<Sum>j<length cs. f (cs ! j))"
proof -
  have "sum_list (map f cs) = (\<Sum>j = 0..<length cs. map f cs ! j)"
    using sum_list_sum_nth [of "map f cs"] by simp
  also have "\<dots> = (\<Sum>j = 0..<length cs. f (cs ! j))"
    by (rule sum.cong) simp_all
  finally show ?thesis by (simp add: atLeast0LessThan)
qed

lemma scan_union:
  "scan s cs \<Longrightarrow>
   (\<Union>i<length cs. {ieq_of (cs ! i) ..< ieq_of (cs ! i) + get_n_eq (cs ! i)}) =
     {s ..< s + sum_list (map get_n_eq cs)}"
proof (induction cs arbitrary: s)
  case Nil
  then show ?case by simp
next
  case (Cons c cs)
  have ih: "(\<Union>i<length cs. {ieq_of (cs ! i) ..< ieq_of (cs ! i) + get_n_eq (cs ! i)}) =
     {s + get_n_eq c ..< s + get_n_eq c + sum_list (map get_n_eq cs)}"
    using Cons by simp
  have "(\<Union>i<length (c # cs). {ieq_of ((c # cs) ! i) ..< ieq_of ((c # cs) ! i) + get_n_eq ((c # cs) ! i)}) =
     {s ..< s + get_n_eq c} \<union>
     (\<Union>i<length cs. {ieq_of (cs ! i) ..< ieq_of (cs ! i) + get_n_eq (cs ! i)})"
    using Cons.prems by (simp add: lessThan_Suc_eq_insert_0 image_image)
  also have "\<dots> = {s ..< s + get_n_eq c + sum_list (map get_n_eq cs)}"
  proof -
    have nn: "0 \<le> sum_list (map get_n_eq cs)"
      by (rule sum_list_nonneg) (auto simp: get_n_eq_nonneg)
    show ?thesis
      using get_n_eq_nonneg [of c] nn by (auto simp: ih)
  qed
  finally show ?case by (simp add: add.assoc)
qed

theorem dof_addressing_prefix_sum_witness:
  "define_node_dof [example_beam 12 ''free'' [0, 1], example_beam 6 ''prescribed'' [0, 1]] 1 1
     = Inr 28
   \<and> define_FoR_dof [example_beam 12 ''free'' [0, 1], example_beam 6 ''prescribed'' [0, 1]] 1
     = Inr 28"
  using dof_addressing_prefix_sum
    [of 1 "[example_beam 12 ''free'' [0, 1], example_beam 6 ''prescribed'' [0, 1]]" 1]
  by (simp add: example_beam_def)

lemma sum_prefix_le:
  fixes f :: "nat \<Rightarrow> int"
  assumes "\<And>k. 0 \<le> f k" and "i < j"
  shows "(\<Sum>k<i. f k) + f i \<le> (\<Sum>k<j. f k)"
proof -
  have "(\<Sum>k<Suc i. f k) \<le> (\<Sum>k<j. f k)"
    by (rule sum_mono2) (use assms in auto)
  then show ?thesis by simp
qed

lemma prefix_ranges_disjoint:
  assumes pre: "\<forall>i<length cs. ieq_of (cs ! i) = (\<Sum>j<i. get_n_eq (cs ! j))"
    and "i < length cs" "j < length cs" "i \<noteq> j"
  shows "eq_range (cs ! i) \<inter> eq_range (cs ! j) = {}"
proof -
  have key: "eq_range (cs ! a) \<inter> eq_range (cs ! b) = {}"
    if "a < b" "b < length cs" for a b
  proof -
    have "ieq_of (cs ! a) + get_n_eq (cs ! a) \<le> ieq_of (cs ! b)"
      using sum_prefix_le [of "\<lambda>k. get_n_eq (cs ! k)" a b] that pre
      by (simp add: get_n_eq_nonneg)
    then show ?thesis by (auto simp: eq_range_def)
  qed
  show ?thesis
  proof (cases "i < j")
    case True
    then show ?thesis using key assms by simp
  next
    case False
    then have "j < i" using assms by simp
    then show ?thesis using key [of j i] assms by (simp add: Int_commute)
  qed
qed

text \<open>
  C1, as amended. For a constraint specification whose \<open>num_constraints\<close> entries all
  name known kinds and hold every parameter their kind requires,
  \<open>initialize_constraints\<close> returns one constraint per entry, in declaration order;
  constraint \<open>i\<close> starts at the sum of \<open>get_n_eq\<close> of the constraints before it (a single
  left-to-right scan from 0); every \<open>initialise\<close> call returns \<open>ieq + n_eq\<close>; the ranges
  \<open>[ieq, ieq + n_eq)\<close> are pairwise disjoint and their union is \<open>[0, N)\<close> with
  \<open>N = define_num_LM_eq lc_list\<close>, the sum of \<open>get_n_eq\<close> over the list.
\<close>

theorem initialize_constraints_partition:
  assumes "well_formed_spec MBdict n"
  shows "\<exists>lc_list. initialize_constraints MBdict = Inr lc_list
     \<and> length lc_list = nat n
     \<and> (\<forall>i<length lc_list.
           map_option fst (declared MBdict (int i)) = Some (kind_of (lc_list ! i)))
     \<and> (\<forall>i<length lc_list. ieq_of (lc_list ! i) = (\<Sum>j<i. get_n_eq (lc_list ! j)))
     \<and> (\<forall>i<length lc_list. \<forall>j<length lc_list. i \<noteq> j \<longrightarrow>
           eq_range (lc_list ! i) \<inter> eq_range (lc_list ! j) = {})
     \<and> (\<Union>i<length lc_list. eq_range (lc_list ! i)) = {0..<define_num_LM_eq lc_list}
     \<and> define_num_LM_eq lc_list = (\<Sum>c\<leftarrow>lc_list. get_n_eq c)
     \<and> (\<forall>k e i c j. initialise k e i = Inr (c, j) \<longrightarrow>
           ieq_of c = i \<and> j = i + get_n_eq c)"
proof -
  from assms have num: "MBdict ''num_constraints'' = Some (MVal (PInt n))"
    and ent: "\<forall>i \<in> {0..<nat n}. \<exists>k e. declared MBdict (int i) = Some (k, e) \<and>
        (\<forall>p \<in> set (required_parameters k). e p \<noteq> None)"
    by (simp_all add: well_formed_spec_def)
  from init_loop_upt [OF ent, of 0 "[]"] obtain cs where
    run: "init_loop MBdict (map int [0..<nat n]) 0 [] = Inr cs"
    and len: "length cs = nat n"
    and sc: "scan 0 cs"
    and kinds: "\<forall>i < nat n. map_option fst (declared MBdict (int i)) = Some (kind_of (cs ! i))"
    by auto
  have 1: "initialize_constraints MBdict = Inr cs"
    by (simp add: initialize_constraints_def dict_get_def num py_range_def run)
  have 4: "\<forall>i<length cs. ieq_of (cs ! i) = (\<Sum>j<i. get_n_eq (cs ! j))"
    using scan_nth [OF sc] by simp
  have 5: "\<forall>i<length cs. \<forall>j<length cs. i \<noteq> j \<longrightarrow>
           eq_range (cs ! i) \<inter> eq_range (cs ! j) = {}"
    using prefix_ranges_disjoint [OF 4] by blast
  have 7: "define_num_LM_eq cs = (\<Sum>c\<leftarrow>cs. get_n_eq c)"
    by (simp add: define_num_LM_eq_def define_num_LM_eq_loop_sum)
  have 6: "(\<Union>i<length cs. eq_range (cs ! i)) = {0..<define_num_LM_eq cs}"
    using scan_union [OF sc] by (simp add: eq_range_def 7)
  have 8: "\<forall>k e i c j. initialise k e i = Inr (c, j) \<longrightarrow>
           ieq_of c = i \<and> j = i + get_n_eq c"
    using initialise_result by (auto simp: get_n_eq_def)
  show ?thesis
    using 1 len kinds 4 5 6 7 8 by (intro exI [of _ cs] conjI) simp_all
qed

lemma example_keys:
  "constraint_key 0 = ''constraint_00''" "constraint_key 1 = ''constraint_01''"
  by (simp_all add: constraint_key_def digit_def)

lemma example_well_formed: "well_formed_spec example_MBdict 2"
proof -
  have "{0..<nat 2} = {0, 1}" by auto
  then show ?thesis
    by (simp add: well_formed_spec_def declared_def example_MBdict_def example_keys
        dict_of_lc_def)
qed

theorem initialize_constraints_partition_witness:
  "well_formed_spec example_MBdict 2 \<and>
   (\<exists>lc_list. initialize_constraints example_MBdict = Inr lc_list
      \<and> length lc_list = 2
      \<and> (\<Union>i<length lc_list. eq_range (lc_list ! i)) = {0..<define_num_LM_eq lc_list})"
  using initialize_constraints_partition [OF example_well_formed] example_well_formed
  by auto

text \<open>
  C6. For every constraint kind, \<open>initialise\<close> on a parameter dictionary that lacks one
  of the kind's required parameters fails (Python's KeyError, on a required parameter
  that is absent), and \<open>lc_from_string\<close> on a kind string that is not in the registry
  fails (KeyError on that string).
\<close>

theorem missing_parameter_and_unknown_kind_fail:
  "(p \<in> set (required_parameters kind) \<and> e p = None \<longrightarrow>
      (\<exists>p'. p' \<in> set (required_parameters kind) \<and> e p' = None \<and>
            initialise kind e i = Inl (KeyError (PStr p'))))
   \<and> (dict_of_lc s = None \<longrightarrow> lc_from_string (PStr s) = Inl (KeyError (PStr s)))"
  by (cases kind) (auto simp: dict_get_def lc_from_string_def split: option.splits)

theorem missing_parameter_and_unknown_kind_fail_witness:
  "initialise K_hinge_FoR [''body_FoR'' \<mapsto> PInt 0] 0 = Inl (KeyError (PStr ''rot_axis_AFoR''))
   \<and> lc_from_string (PStr ''hinge'') = Inl (KeyError (PStr ''hinge''))"
  using missing_parameter_and_unknown_kind_fail
    [of "''rot_axis_AFoR''" K_hinge_FoR "[''body_FoR'' \<mapsto> PInt 0]" 0 "''hinge''"]
  by (auto simp: dict_of_lc_def)

text \<open>
  C10. For a key that is not in the specification dictionary, \<open>remove_constraint\<close>
  returns normally and leaves the dictionary as it was: in particular
  \<open>num_constraints\<close> is not decremented.
\<close>

theorem remove_absent_key_unchanged:
  "MBdict constraint = None \<Longrightarrow> remove_constraint MBdict constraint = Inr MBdict"
  by (simp add: remove_constraint_def)

theorem remove_absent_key_unchanged_witness:
  "example_MBdict ''constraint_02'' = None \<and>
   remove_constraint example_MBdict ''constraint_02'' = Inr example_MBdict"
proof -
  have h: "example_MBdict ''constraint_02'' = None" by (simp add: example_MBdict_def)
  show ?thesis
    using h remove_absent_key_unchanged [of example_MBdict "''constraint_02''"] by simp
qed

lemma example_ranges: "py_range 2 = [0, 1]" "py_range 1 = [0]"
  by (simp_all add: py_range_def numeral_2_eq_2)

text \<open>
  C9. Removing a constraint that is not the last one: the example specification has two
  constraints and 8 equations. After \<open>remove_constraint\<close> of \<open>constraint_00\<close> the count
  is 1 and the entry is gone, but the next \<open>initialize_constraints\<close> looks for
  \<open>constraint_00\<close> again and raises KeyError instead of building a block of 5 equations.
\<close>

theorem remove_first_constraint_breaks_initialize:
  "(\<exists>l. initialize_constraints example_MBdict = Inr l \<and> define_num_LM_eq l = 8) \<and>
   (\<exists>d. remove_constraint example_MBdict ''constraint_00'' = Inr d \<and>
        d ''num_constraints'' = Some (MVal (PInt 1)) \<and>
        d ''constraint_00'' = None \<and>
        initialize_constraints d = Inl (KeyError (PStr ''constraint_00'')))"
  by (simp add: initialize_constraints_def remove_constraint_def example_MBdict_def
      dict_get_def example_ranges example_keys subscript_def lc_from_string_def dict_of_lc_def
      define_num_LM_eq_def get_n_eq_def Let_def)

lemma last_entries_drop:
  assumes "0 < n" and "n \<le> length xs"
  shows "last_entries n xs = drop (length xs - n) xs"
proof -
  have "nat (int (length xs) - int n) = length xs - n" by arith
  then show ?thesis
    using assms by (auto simp: last_entries_def get_slice_def py_slice_def Let_def max_def min_def)
qed

lemma length_last_entries:
  "0 < n \<Longrightarrow> n \<le> length xs \<Longrightarrow> length (last_entries n xs) = n"
  by (simp add: last_entries_drop)

lemma set_slice_last:
  assumes "set_slice xs (- int n) (int (length xs)) v = Inr xs'"
    and "length v = n" and "1 < n"
  shows "last_entries n xs' = v"
proof -
  let ?len = "length xs"
  have sl: "py_slice ?len (- int n) (int ?len) = (?len - n, min n ?len)"
    using assms(3) by (auto simp: py_slice_def Let_def max_def min_def)
  from assms(1) have as: "ebind (assign1 (take (min n ?len) (drop (?len - n) xs)) v)
      (\<lambda>new. Inr (take (?len - n) xs @ new @ drop (?len - n + min n ?len) xs)) = Inr xs'"
    by (simp add: set_slice_def sl)
  have le: "n \<le> ?len"
  proof (rule ccontr)
    assume "\<not> n \<le> ?len"
    then have "assign1 (take (min n ?len) (drop (?len - n) xs)) v = Inl ValueError"
      using assms(2,3) by (simp add: assign1_def min_def)
    with as show False by simp
  qed
  then have "assign1 (take (min n ?len) (drop (?len - n) xs)) v = Inr v"
    using assms(2) by (simp add: assign1_def min_def)
  with as le have xs': "xs' = take (?len - n) xs @ v" by (auto simp: min_def)
  have len': "length xs' = ?len" using xs' le assms(2) by simp
  have "last_entries n xs' = drop (length xs' - n) xs'"
    using last_entries_drop [of n xs'] assms(3) le len' by simp
  also have "\<dots> = v" using xs' le assms(2) len' by simp
  finally show ?thesis .
qed

text \<open>
  C7. After a merge, the last 10 entries of the system's \<open>q\<close>, \<open>dqdt\<close> and \<open>dqddt\<close> are
  the last 10 entries of body 0's vectors, and the system's \<open>for_pos\<close>, \<open>for_vel\<close>,
  \<open>for_acc\<close> and \<open>quat\<close> are body 0's, whatever the other bodies hold. (Body 0's state
  vectors have the 10 entries the statement speaks of.)
\<close>

theorem merge_master_frame_from_body_0:
  assumes "merge_multibody MB_tstep MB_beam bm ts = Inr ts'"
    and "10 \<le> length (q (MB_tstep ! 0))"
    and "10 \<le> length (dqdt (MB_tstep ! 0))"
    and "10 \<le> length (dqddt (MB_tstep ! 0))"
  shows "last_entries 10 (q ts') = last_entries 10 (q (MB_tstep ! 0))
       \<and> last_entries 10 (dqdt ts') = last_entries 10 (dqdt (MB_tstep ! 0))
       \<and> last_entries 10 (dqddt ts') = last_entries 10 (dqddt (MB_tstep ! 0))
       \<and> for_pos ts' = for_pos (MB_tstep ! 0)
       \<and> for_vel ts' = for_vel (MB_tstep ! 0)
       \<and> for_acc ts' = for_acc (MB_tstep ! 0)
       \<and> quat ts' = quat (MB_tstep ! 0)"
proof -
  from assms(1) obtain ts2 where m: "merge_master MB_tstep ts2 = Inr ts'"
    by (auto simp: merge_multibody_def ebind_eq_Inr)
  then obtain b0 s1 s2 s3 where
    b0: "py_index MB_tstep 0 = Inr b0"
    and s1: "set_slice (q ts2) (- 10) (int (length (q ts2))) (last_entries 10 (q b0)) = Inr s1"
    and s2: "set_slice (dqdt ts2) (- 10) (int (length (dqdt ts2))) (last_entries 10 (dqdt b0)) = Inr s2"
    and s3: "set_slice (dqddt ts2) (- 10) (int (length (dqddt ts2))) (last_entries 10 (dqddt b0)) = Inr s3"
    and ts': "ts' = ts2\<lparr>q := s1, dqdt := s2, dqddt := s3, for_pos := for_pos b0,
              for_vel := for_vel b0, for_acc := for_acc b0, quat := quat b0\<rparr>"
    by (auto simp: merge_master_def ebind_eq_Inr)
  from b0 have b0_eq: "b0 = MB_tstep ! 0"
    by (auto simp: py_index_def Let_def split: if_splits)
  have "last_entries 10 s1 = last_entries 10 (q b0)"
    using set_slice_last [of "q ts2" 10 "last_entries 10 (q b0)" s1] s1 assms(2)
    by (simp add: length_last_entries b0_eq)
  moreover have "last_entries 10 s2 = last_entries 10 (dqdt b0)"
    using set_slice_last [of "dqdt ts2" 10 "last_entries 10 (dqdt b0)" s2] s2 assms(3)
    by (simp add: length_last_entries b0_eq)
  moreover have "last_entries 10 s3 = last_entries 10 (dqddt b0)"
    using set_slice_last [of "dqddt ts2" 10 "last_entries 10 (dqddt b0)" s3] s3 assms(4)
    by (simp add: length_last_entries b0_eq)
  ultimately show ?thesis by (simp add: ts' b0_eq)
qed

lemma no_assert_Inr [simp]: "no_assert (Inr x)"
  by (simp add: no_assert_def)

lemma no_assert_ebind:
  "no_assert m \<Longrightarrow> (\<And>x. m = Inr x \<Longrightarrow> no_assert (f x)) \<Longrightarrow> no_assert (ebind m f)"
  by (cases m) (auto simp: no_assert_def)

lemma no_assert_py_index [simp]: "no_assert (py_index xs i)"
  by (simp add: py_index_def Let_def no_assert_def)

lemma no_assert_assign1 [simp]: "no_assert (assign1 old new)"
  by (simp add: assign1_def no_assert_def)

lemma no_assert_emap:
  "(\<And>x. x \<in> set xs \<Longrightarrow> no_assert (f x)) \<Longrightarrow> no_assert (emap f xs)"
  by (induction xs) (auto intro!: no_assert_ebind)

lemma no_assert_bc_list:
  "(\<And>old new. no_assert (f old new)) \<Longrightarrow> no_assert (bc_list f olds news)"
  by (auto simp: bc_list_def no_assert_def [of "Inl ValueError"] intro!: no_assert_emap)

lemma no_assert_assign2 [simp]: "no_assert (assign2 old new)"
  by (simp add: assign2_def no_assert_bc_list)

lemma no_assert_set_rows:
  "(\<And>old new. no_assert (f old new)) \<Longrightarrow> no_assert (set_rows f A idx X)"
  by (auto simp: set_rows_def intro!: no_assert_ebind no_assert_emap no_assert_bc_list)

lemma no_assert_set_row:
  "(\<And>old new. no_assert (f old new)) \<Longrightarrow> no_assert (set_row f A i v)"
  by (auto simp: set_row_def intro!: no_assert_ebind)

lemma no_assert_set_slice [simp]: "no_assert (set_slice xs a b v)"
  by (auto simp: set_slice_def split: prod.splits intro!: no_assert_ebind)

lemma no_assert_merge_body: "no_assert (merge_body MB_tstep MB_beam ts first_dof ibody)"
  unfolding merge_body_def Let_def
  by (intro no_assert_ebind no_assert_set_rows no_assert_set_row no_assert_py_index
      no_assert_assign1 no_assert_assign2 no_assert_set_slice no_assert_Inr)

lemma no_assert_merge_loop: "no_assert (merge_loop MB_tstep MB_beam is ts first_dof)"
proof (induction "is" arbitrary: ts first_dof)
  case Nil
  then show ?case by simp
next
  case (Cons i "is")
  show ?case
    by (auto intro!: no_assert_ebind no_assert_merge_body Cons)
qed

lemma no_assert_merge_master: "no_assert (merge_master MB_tstep ts)"
  unfolding merge_master_def
  by (intro no_assert_ebind no_assert_py_index no_assert_set_slice no_assert_Inr)

lemma merge_assertion_iff:
  "merge_multibody MB_tstep MB_beam bm ts = Inl AssertionError \<longleftrightarrow>
   update_mb_dB_before_merge ts MB_tstep = Inl AssertionError"
proof (cases "update_mb_dB_before_merge ts MB_tstep")
  case (Inl e)
  then show ?thesis by (simp add: merge_multibody_def)
next
  case (Inr ts1)
  have "no_assert (ebind (merge_loop MB_tstep MB_beam (py_range (num_bodies bm)) ts1 0)
      (merge_master MB_tstep))"
    by (intro no_assert_ebind no_assert_merge_loop no_assert_merge_master)
  then show ?thesis using Inr by (simp add: merge_multibody_def no_assert_def)
qed

lemma set_row_fits:
  assumes "row_fits A i v"
  shows "set_row assign1 A (int i) v = Inr (A[i := v])"
  using assms
  by (simp add: set_row_def row_fits_def py_index_nat assign1_def norm_index_def)

lemma map_length_update:
  "i < length A \<Longrightarrow> sh v = sh (A ! i) \<Longrightarrow> map sh (A[i := v]) = map sh A"
  by (simp add: map_update list_update_same_conv)

lemma row_fits_cong:
  "map length A' = map length A \<Longrightarrow> row_fits A' i v = row_fits A i v"
proof -
  assume h: "map length A' = map length A"
  then have l: "length A' = length A" by (metis length_map)
  have "i < length A \<Longrightarrow> length (A' ! i) = length (A ! i)"
    using h l by (metis nth_map)
  then show ?thesis using l by (auto simp: row_fits_def)
qed

lemma rows_fit_cong:
  assumes h: "map sh A' = map sh A"
  shows "rows_fit sh A' idx X = rows_fit sh A idx X"
proof -
  from h have l: "length A' = length A" by (metis length_map)
  have "j < length A \<Longrightarrow> sh (A' ! j) = sh (A ! j)" for j
    using h l by (metis nth_map)
  then have "0 \<le> i \<Longrightarrow> i < int (length A) \<Longrightarrow> sh (A' ! nat i) = sh (A ! nat i)" for i
    by simp
  then show ?thesis unfolding rows_fit_def l by (metis (no_types, lifting))
qed

lemma emap_all_Inr:
  "(\<And>x. x \<in> set xs \<Longrightarrow> f x = Inr (g x)) \<Longrightarrow> emap f xs = Inr (map g xs)"
  by (induction xs) simp_all

lemma emap_py_index:
  assumes "\<forall>k<length idx. 0 \<le> idx ! k \<and> idx ! k < int (length A)"
  shows "emap (py_index A) idx = Inr (map (\<lambda>i. A ! nat i) idx)"
proof (rule emap_all_Inr)
  fix x assume "x \<in> set idx"
  then obtain k where "k < length idx" "idx ! k = x" by (auto simp: in_set_conv_nth)
  with assms have "0 \<le> x" "x < int (length A)" by auto
  then show "py_index A x = Inr (A ! nat x)" by (simp add: py_index_def)
qed

lemma bc_list_same_shape:
  assumes "length news = length olds"
    and "\<And>k. k < length olds \<Longrightarrow> f (olds ! k) (news ! k) = Inr (news ! k)"
  shows "bc_list f olds news = Inr news"
proof -
  have "emap (\<lambda>(old, new). f old new) (zip olds news) = Inr (map snd (zip olds news))"
  proof (rule emap_all_Inr)
    fix x assume "x \<in> set (zip olds news)"
    then obtain k where "k < length olds" "x = (olds ! k, news ! k)"
      using assms(1) by (auto simp: in_set_zip)
    then show "(case x of (old, new) \<Rightarrow> f old new) = Inr (snd x)"
      using assms(2) by simp
  qed
  then show ?thesis using assms(1) by (simp add: bc_list_def)
qed

lemma assign1_same: "length new = length old \<Longrightarrow> assign1 old new = Inr new"
  by (simp add: assign1_def)

lemma assign2_same: "map length new = map length old \<Longrightarrow> assign2 old new = Inr new"
proof -
  assume h: "map length new = map length old"
  then have l: "length new = length old" by (metis length_map)
  have "k < length old \<Longrightarrow> length (new ! k) = length (old ! k)" for k
    using h l by (metis nth_map)
  then show ?thesis
    unfolding assign2_def by (intro bc_list_same_shape l) (simp add: assign1_same)
qed

lemma fold_update_shape:
  assumes "\<forall>(i, v) \<in> set ps. g i < length A \<and> sh v = sh (A ! g i)"
    and "map sh B0 = map sh A"
  shows "map sh (fold (\<lambda>(i, v) B. B[g i := v]) ps B0) = map sh B0"
  using assms
proof (induction ps arbitrary: B0)
  case Nil
  then show ?case by simp
next
  case (Cons p ps)
  obtain i v where p: "p = (i, v)" by (cases p)
  from Cons.prems(2) have l: "length B0 = length A" by (metis length_map)
  have gi: "g i < length A" and shv: "sh v = sh (A ! g i)"
    using Cons.prems(1) p by auto
  have "sh (B0 ! g i) = sh (A ! g i)"
    using Cons.prems(2) gi l by (metis nth_map)
  then have step: "map sh (B0[g i := v]) = map sh B0"
    using gi l shv by (simp add: map_length_update)
  have "map sh (fold (\<lambda>(i, v) B. B[g i := v]) ps (B0[g i := v])) = map sh (B0[g i := v])"
    using Cons.IH [of "B0[g i := v]"] Cons.prems step by simp
  then show ?case by (simp add: p step)
qed

lemma set_rows_fit:
  assumes fit: "rows_fit sh A idx X"
    and same: "\<And>old new. sh new = sh old \<Longrightarrow> f old new = Inr new"
  shows "\<exists>A'. set_rows f A idx X = Inr A' \<and> map sh A' = map sh A"
proof -
  from fit have len: "length X = length idx"
    and rng: "\<forall>k<length idx. 0 \<le> idx ! k \<and> idx ! k < int (length A)"
    and shp: "\<forall>k<length idx. sh (X ! k) = sh (A ! nat (idx ! k))"
    by (auto simp: rows_fit_def)
  have olds: "emap (py_index A) idx = Inr (map (\<lambda>i. A ! nat i) idx)"
    by (rule emap_py_index [OF rng])
  have news: "bc_list f (map (\<lambda>i. A ! nat i) idx) X = Inr X"
    by (rule bc_list_same_shape) (use len shp same in auto)
  have norm: "norm_index A i = nat i" if "0 \<le> i" for i
    using that by (simp add: norm_index_def)
  have "\<forall>(i, v) \<in> set (zip idx X). norm_index A i < length A \<and> sh v = sh (A ! norm_index A i)"
  proof (clarify)
    fix i v assume "(i, v) \<in> set (zip idx X)"
    then obtain k where k: "k < length idx" "i = idx ! k" "v = X ! k"
      using len by (auto simp: in_set_zip)
    with rng shp have "0 \<le> i" "i < int (length A)" "sh v = sh (A ! nat i)" by auto
    then show "norm_index A i < length A \<and> sh v = sh (A ! norm_index A i)"
      by (simp add: norm)
  qed
  then have "map sh (fold (\<lambda>(i, v) B. B[norm_index A i := v]) (zip idx X) A) = map sh A"
    by (rule fold_update_shape) simp
  then show ?thesis by (simp add: set_rows_def olds news)
qed

lemma set_slice_fits:
  assumes "0 \<le> fd" "0 \<le> n" "fd + n \<le> int (length xs)" "length v = nat n"
  shows "\<exists>xs'. set_slice xs fd (fd + n) v = Inr xs' \<and> length xs' = length xs"
proof -
  have sl: "py_slice (length xs) fd (fd + n) = (nat fd, nat n)"
    using assms by (auto simp: py_slice_def Let_def min_def)
  have tk: "length (take (nat n) (drop (nat fd) xs)) = nat n"
    using assms by simp
  show ?thesis
    using assms by (simp add: set_slice_def sl assign1_def tk)
qed

lemma get_slice_states:
  "length xs = n + 10 \<Longrightarrow> length (get_slice xs 0 (- 10)) = n"
  by (simp add: get_slice_def py_slice_def Let_def)

lemma set_slice_master:
  assumes "10 \<le> length xs" "length v = 10"
  shows "\<exists>xs'. set_slice xs (- 10) (int (length xs)) v = Inr xs' \<and> length xs' = length xs"
proof -
  have sl: "py_slice (length xs) (- 10) (int (length xs)) = (length xs - 10, 10)"
    using assms by (auto simp: py_slice_def Let_def max_def)
  show ?thesis using assms by (simp add: set_slice_def sl assign1_def)
qed

lemma body_db_fits_cong:
  "same_db_shape ts ts' \<Longrightarrow> body_db_fits ts' b i = body_db_fits ts b i"
  by (simp add: same_db_shape_def body_db_fits_def
      row_fits_cong [of "mb_FoR_pos ts'" "mb_FoR_pos ts"]
      row_fits_cong [of "mb_FoR_vel ts'" "mb_FoR_vel ts"]
      row_fits_cong [of "mb_FoR_acc ts'" "mb_FoR_acc ts"]
      row_fits_cong [of "mb_quat ts'" "mb_quat ts"]
      row_fits_cong [of "mb_dquatdt ts'" "mb_dquatdt ts"])

lemma update_mb_dB_body_fits:
  assumes fit: "body_db_fits ts b i" and i: "i < length MB_tstep" and b: "MB_tstep ! i = b"
  shows "update_mb_dB_body MB_tstep ts (int i) =
     (if quat_rate_matches b i then Inr (db_step ts b i) else Inl AssertionError)"
proof -
  have idx: "py_index MB_tstep (int i) = Inr b" using i b by (simp add: py_index_nat)
  from fit have
    r1: "set_row assign1 (mb_FoR_pos ts) (int i) (for_pos b) = Inr ((mb_FoR_pos ts)[i := for_pos b])" and
    r2: "set_row assign1 (mb_FoR_vel ts) (int i) (for_vel b) = Inr ((mb_FoR_vel ts)[i := for_vel b])" and
    r3: "set_row assign1 (mb_FoR_acc ts) (int i) (for_acc b) = Inr ((mb_FoR_acc ts)[i := for_acc b])" and
    r4: "set_row assign1 (mb_quat ts) (int i) (quat b) = Inr ((mb_quat ts)[i := quat b])" and
    r5: "set_row assign1 (mb_dquatdt ts) (int i) (last_entries 4 (dqddt b)) =
          Inr ((mb_dquatdt ts)[i := last_entries 4 (dqddt b)])"
    by (simp_all add: body_db_fits_def set_row_fits)
  from fit have row: "py_index (mb_dquatdt b) (int i) = Inr (mb_dquatdt b ! i)"
    and rl: "length (mb_dquatdt b ! i) = length (last_entries 4 (dqddt b))"
    by (simp_all add: body_db_fits_def row_fits_def py_index_nat)
  have eq: "all_equal (mb_dquatdt b ! i) (last_entries 4 (dqddt b)) = Inr (quat_rate_matches b i)"
    using rl by (simp add: all_equal_def quat_rate_matches_def)
  show ?thesis
    by (simp add: update_mb_dB_body_def idx r1 r2 r3 r4 r5 row eq db_step_def)
qed

lemma db_step_props:
  assumes fit: "body_db_fits ts b i"
  shows "db_only ts (db_step ts b i)" "same_db_shape ts (db_step ts b i)"
    "db_recorded (db_step ts b i) b i"
    "j \<noteq> i \<Longrightarrow> db_row_same ts (db_step ts b i) j"
  using fit
  by (simp_all add: db_only_def same_db_shape_def db_recorded_def db_row_same_def db_step_def
      body_db_fits_def row_fits_def map_length_update)

lemma db_only_trans: "db_only a b \<Longrightarrow> db_only b c \<Longrightarrow> db_only a c"
  by (simp add: db_only_def)

lemma same_db_shape_trans: "same_db_shape a b \<Longrightarrow> same_db_shape b c \<Longrightarrow> same_db_shape a c"
  by (simp add: same_db_shape_def)

lemma db_only_refl [simp]: "db_only ts ts"
  by (simp add: db_only_def)

lemma same_db_shape_refl [simp]: "same_db_shape ts ts"
  by (simp add: same_db_shape_def)

lemma db_row_same_refl [simp]: "db_row_same ts ts i"
  by (simp add: db_row_same_def)

lemma update_mb_dB_loop_upt:
  assumes "n \<le> length MB_tstep"
    and "\<forall>i \<in> {m..<n}. body_db_fits ts (MB_tstep ! i) i"
  shows "if \<forall>i \<in> {m..<n}. quat_rate_matches (MB_tstep ! i) i
     then \<exists>ts'. update_mb_dB_loop MB_tstep (map int [m..<n]) ts = Inr ts' \<and>
            db_only ts ts' \<and> same_db_shape ts ts' \<and>
            (\<forall>i \<in> {m..<n}. db_recorded ts' (MB_tstep ! i) i) \<and>
            (\<forall>i. i \<notin> {m..<n} \<longrightarrow> db_row_same ts ts' i)
     else update_mb_dB_loop MB_tstep (map int [m..<n]) ts = Inl AssertionError"
  using assms
proof (induction "n - m" arbitrary: m ts)
  case 0
  then show ?case by (auto simp: db_row_same_def)
next
  case (Suc d)
  then have mn: "m < n" by simp
  then have upt: "[m..<n] = m # [Suc m..<n]" by (simp add: upt_conv_Cons)
  let ?b = "MB_tstep ! m"
  have fit: "body_db_fits ts ?b m" using Suc.prems(2) mn by simp
  have body: "update_mb_dB_body MB_tstep ts (int m) =
     (if quat_rate_matches ?b m then Inr (db_step ts ?b m) else Inl AssertionError)"
    using update_mb_dB_body_fits [OF fit] mn Suc.prems(1) by simp
  show ?case
  proof (cases "quat_rate_matches ?b m")
    case False
    then have "\<not> (\<forall>i \<in> {m..<n}. quat_rate_matches (MB_tstep ! i) i)" using mn by auto
    moreover have "update_mb_dB_loop MB_tstep (map int [m..<n]) ts = Inl AssertionError"
      using False by (simp add: upt body)
    ultimately show ?thesis by simp
  next
    case True
    let ?ts1 = "db_step ts ?b m"
    have sh1: "same_db_shape ts ?ts1" and on1: "db_only ts ?ts1"
      and rec1: "db_recorded ?ts1 ?b m"
      and same1: "\<And>j. j \<noteq> m \<Longrightarrow> db_row_same ts ?ts1 j"
      using db_step_props [OF fit] by blast+
    have fits1: "\<forall>i \<in> {Suc m..<n}. body_db_fits ?ts1 (MB_tstep ! i) i"
      using Suc.prems(2) by (simp add: body_db_fits_cong [OF sh1])
    have d: "d = n - Suc m" using Suc.hyps(2) by simp
    have step: "update_mb_dB_loop MB_tstep (map int [m..<n]) ts =
        update_mb_dB_loop MB_tstep (map int [Suc m..<n]) ?ts1"
      using True by (simp add: upt body)
    have all_iff: "(\<forall>i \<in> {m..<n}. quat_rate_matches (MB_tstep ! i) i) \<longleftrightarrow>
        (\<forall>i \<in> {Suc m..<n}. quat_rate_matches (MB_tstep ! i) i)"
    proof
      assume "\<forall>i \<in> {m..<n}. quat_rate_matches (MB_tstep ! i) i"
      then show "\<forall>i \<in> {Suc m..<n}. quat_rate_matches (MB_tstep ! i) i" by simp
    next
      assume r: "\<forall>i \<in> {Suc m..<n}. quat_rate_matches (MB_tstep ! i) i"
      show "\<forall>i \<in> {m..<n}. quat_rate_matches (MB_tstep ! i) i"
      proof
        fix i assume "i \<in> {m..<n}"
        then have "i = m \<or> i \<in> {Suc m..<n}" by auto
        then show "quat_rate_matches (MB_tstep ! i) i" using True r by auto
      qed
    qed
    note ih = Suc.hyps(1) [OF d Suc.prems(1) fits1]
    show ?thesis
    proof (cases "\<forall>i \<in> {Suc m..<n}. quat_rate_matches (MB_tstep ! i) i")
      case False
      with ih have "update_mb_dB_loop MB_tstep (map int [Suc m..<n]) ?ts1 = Inl AssertionError"
        by simp
      then show ?thesis using False all_iff step by simp
    next
      case all: True
      with ih obtain ts' where
        run: "update_mb_dB_loop MB_tstep (map int [Suc m..<n]) ?ts1 = Inr ts'"
        and on: "db_only ?ts1 ts'" and sh: "same_db_shape ?ts1 ts'"
        and rec: "\<forall>i \<in> {Suc m..<n}. db_recorded ts' (MB_tstep ! i) i"
        and same: "\<forall>i. i \<notin> {Suc m..<n} \<longrightarrow> db_row_same ?ts1 ts' i"
        by auto
      have m_same: "db_row_same ?ts1 ts' m" using same by simp
      have rec_m: "db_recorded ts' ?b m"
        using rec1 m_same by (simp add: db_recorded_def db_row_same_def)
      have rec_all: "\<forall>i \<in> {m..<n}. db_recorded ts' (MB_tstep ! i) i"
      proof
        fix i assume "i \<in> {m..<n}"
        then have "i = m \<or> i \<in> {Suc m..<n}" by auto
        then show "db_recorded ts' (MB_tstep ! i) i" using rec_m rec by auto
      qed
      have same_all: "\<forall>i. i \<notin> {m..<n} \<longrightarrow> db_row_same ts ts' i"
      proof (intro allI impI)
        fix i assume i: "i \<notin> {m..<n}"
        then have "i \<noteq> m" "i \<notin> {Suc m..<n}" using mn by auto
        then have "db_row_same ts ?ts1 i" "db_row_same ?ts1 ts' i"
          using same1 same by auto
        then show "db_row_same ts ts' i" by (simp add: db_row_same_def)
      qed
      have "db_only ts ts'" using on1 on by (rule db_only_trans)
      moreover have "same_db_shape ts ts'" using sh1 sh by (rule same_db_shape_trans)
      ultimately show ?thesis
        using all all_iff step run rec_all same_all by simp
    qed
  qed
qed

lemma body_fits_cong:
  assumes "same_shape ts ts'"
  shows "body_fits ts' b bmi i fd = body_fits ts b bmi i fd"
  using assms
  by (simp add: same_shape_def body_fits_def
      rows_fit_cong [of length "pos ts'" "pos ts"]
      rows_fit_cong [of length "pos_dot ts'" "pos_dot ts"]
      rows_fit_cong [of length "pos_ddot ts'" "pos_ddot ts"]
      rows_fit_cong [of "map length" "psi ts'" "psi ts"]
      rows_fit_cong [of "map length" "psi_dot ts'" "psi_dot ts"]
      rows_fit_cong [of "map length" "psi_ddot ts'" "psi_ddot ts"]
      rows_fit_cong [of length "gravity_forces ts'" "gravity_forces ts"]
      rows_fit_cong [of length "forces_constraints_nodes ts'" "forces_constraints_nodes ts"]
      row_fits_cong [of "forces_constraints_FoR ts'" "forces_constraints_FoR ts"])

lemma merge_body_fits:
  assumes fit: "body_fits ts b bmi i fd"
    and i: "i < length MB_tstep" "MB_tstep ! i = b" "i < length MB_beam" "MB_beam ! i = bmi"
    and dq: "i < length (mb_dquatdt ts)" "mb_dquatdt ts ! i = last_entries 4 (dqddt b)"
  shows "\<exists>ts'. merge_body MB_tstep MB_beam ts fd (int i) = Inr (ts', fd + num_dof bmi) \<and>
     same_shape ts ts' \<and> same_db ts ts'"
proof -
  have ib: "py_index MB_beam (int i) = Inr bmi" using i by (simp add: py_index_nat)
  have it: "py_index MB_tstep (int i) = Inr b" using i by (simp add: py_index_nat)
  note a1 = assign1_same
  note a2 = assign2_same
  from fit obtain r1 where r1: "set_rows assign1 (pos ts) (global_nodes_num bmi) (pos b) = Inr r1"
    "map length r1 = map length (pos ts)"
    using set_rows_fit [of length "pos ts" "global_nodes_num bmi" "pos b" assign1] a1
    by (auto simp: body_fits_def)
  from fit obtain r2 where r2: "set_rows assign1 (pos_dot ts) (global_nodes_num bmi) (pos_dot b) = Inr r2"
    "map length r2 = map length (pos_dot ts)"
    using set_rows_fit [of length "pos_dot ts" "global_nodes_num bmi" "pos_dot b" assign1] a1
    by (auto simp: body_fits_def)
  from fit obtain r3 where r3: "set_rows assign1 (pos_ddot ts) (global_nodes_num bmi) (pos_ddot b) = Inr r3"
    "map length r3 = map length (pos_ddot ts)"
    using set_rows_fit [of length "pos_ddot ts" "global_nodes_num bmi" "pos_ddot b" assign1] a1
    by (auto simp: body_fits_def)
  from fit obtain r4 where r4: "set_rows assign2 (psi ts) (global_elems_num bmi) (psi b) = Inr r4"
    "map (map length) r4 = map (map length) (psi ts)"
    using set_rows_fit [of "map length" "psi ts" "global_elems_num bmi" "psi b" assign2] a2
    by (auto simp: body_fits_def)
  from fit obtain r5 where r5: "set_rows assign2 (psi_dot ts) (global_elems_num bmi) (psi_dot b) = Inr r5"
    "map (map length) r5 = map (map length) (psi_dot ts)"
    using set_rows_fit [of "map length" "psi_dot ts" "global_elems_num bmi" "psi_dot b" assign2] a2
    by (auto simp: body_fits_def)
  from fit obtain r6 where r6: "set_rows assign2 (psi_ddot ts) (global_elems_num bmi) (psi_ddot b) = Inr r6"
    "map (map length) r6 = map (map length) (psi_ddot ts)"
    using set_rows_fit [of "map length" "psi_ddot ts" "global_elems_num bmi" "psi_ddot b" assign2] a2
    by (auto simp: body_fits_def)
  from fit obtain r7 where r7: "set_rows assign1 (gravity_forces ts) (global_nodes_num bmi) (gravity_forces b) = Inr r7"
    "map length r7 = map length (gravity_forces ts)"
    using set_rows_fit [of length "gravity_forces ts" "global_nodes_num bmi" "gravity_forces b" assign1] a1
    by (auto simp: body_fits_def)
  from fit obtain r8 where r8: "set_rows assign1 (forces_constraints_nodes ts) (global_nodes_num bmi)
      (forces_constraints_nodes b) = Inr r8"
    "map length r8 = map length (forces_constraints_nodes ts)"
    using set_rows_fit [of length "forces_constraints_nodes ts" "global_nodes_num bmi"
        "forces_constraints_nodes b" assign1] a1
    by (auto simp: body_fits_def)
  from fit have fr: "py_index (forces_constraints_FoR b) (int i) = Inr (forces_constraints_FoR b ! i)"
    and rf: "row_fits (forces_constraints_FoR ts) i (forces_constraints_FoR b ! i)"
    by (simp_all add: body_fits_def py_index_nat)
  have r9: "set_row assign1 (forces_constraints_FoR ts) (int i) (forces_constraints_FoR b ! i) =
      Inr ((forces_constraints_FoR ts)[i := forces_constraints_FoR b ! i])"
    by (rule set_row_fits [OF rf])
  have r9s: "map length ((forces_constraints_FoR ts)[i := forces_constraints_FoR b ! i]) =
      map length (forces_constraints_FoR ts)"
    using rf by (simp add: row_fits_def map_length_update)
  from fit have nn: "0 \<le> fd" "0 \<le> num_dof bmi" by (simp_all add: body_fits_def)
  from fit obtain s1 where s1: "set_slice (q ts) fd (fd + num_dof bmi) (get_slice (q b) 0 (- 10)) = Inr s1"
    "length s1 = length (q ts)"
    using set_slice_fits [of fd "num_dof bmi" "q ts" "get_slice (q b) 0 (- 10)"]
    by (auto simp: body_fits_def get_slice_states)
  from fit obtain s2 where s2: "set_slice (dqdt ts) fd (fd + num_dof bmi) (get_slice (dqdt b) 0 (- 10)) = Inr s2"
    "length s2 = length (dqdt ts)"
    using set_slice_fits [of fd "num_dof bmi" "dqdt ts" "get_slice (dqdt b) 0 (- 10)"]
    by (auto simp: body_fits_def get_slice_states)
  from fit obtain s3 where s3: "set_slice (dqddt ts) fd (fd + num_dof bmi) (get_slice (dqddt b) 0 (- 10)) = Inr s3"
    "length s3 = length (dqddt ts)"
    using set_slice_fits [of fd "num_dof bmi" "dqddt ts" "get_slice (dqddt b) 0 (- 10)"]
    by (auto simp: body_fits_def get_slice_states)
  have rfq: "row_fits (mb_dquatdt ts) i (last_entries 4 (dqddt b))"
    using dq by (simp add: row_fits_def)
  have r10: "set_row assign1 (mb_dquatdt ts) (int i) (last_entries 4 (dqddt b)) = Inr (mb_dquatdt ts)"
    using set_row_fits [OF rfq] dq by (simp add: list_update_same_conv)
  show ?thesis
    by (simp add: merge_body_def Let_def ib it r1 r2 r3 r4 r5 r6 r7 r8 fr r9 s1 s2 s3 r10
        same_shape_def same_db_def r9s)
qed

lemma same_shape_refl [simp]: "same_shape ts ts"
  by (simp add: same_shape_def)

lemma same_db_refl [simp]: "same_db ts ts"
  by (simp add: same_db_def)

lemma same_shape_trans: "same_shape a b \<Longrightarrow> same_shape b c \<Longrightarrow> same_shape a c"
  by (simp add: same_shape_def)

lemma same_db_trans: "same_db a b \<Longrightarrow> same_db b c \<Longrightarrow> same_db a c"
  by (simp add: same_db_def)

lemma first_dof_of_Suc:
  "first_dof_of MB_beam (Suc m) = first_dof_of MB_beam m + num_dof (MB_beam ! m)"
  by (simp add: first_dof_of_def)

lemma merge_loop_upt:
  assumes "n \<le> length MB_tstep" and "length MB_beam = length MB_tstep"
    and "\<forall>i \<in> {m..<n}. body_fits ts (MB_tstep ! i) (MB_beam ! i) i (first_dof_of MB_beam i)"
    and "\<forall>i \<in> {m..<n}. i < length (mb_dquatdt ts) \<and>
           mb_dquatdt ts ! i = last_entries 4 (dqddt (MB_tstep ! i))"
  shows "\<exists>ts'. merge_loop MB_tstep MB_beam (map int [m..<n]) ts (first_dof_of MB_beam m) = Inr ts' \<and>
     same_shape ts ts' \<and> same_db ts ts'"
  using assms
proof (induction "n - m" arbitrary: m ts)
  case 0
  then show ?case by simp
next
  case (Suc d)
  then have mn: "m < n" by simp
  then have upt: "[m..<n] = m # [Suc m..<n]" by (simp add: upt_conv_Cons)
  have m_in: "m \<in> {m..<n}" using mn by simp
  have fit: "body_fits ts (MB_tstep ! m) (MB_beam ! m) m (first_dof_of MB_beam m)"
    using Suc.prems(3) m_in by blast
  have dq: "m < length (mb_dquatdt ts)"
    "mb_dquatdt ts ! m = last_entries 4 (dqddt (MB_tstep ! m))"
    using Suc.prems(4) m_in by blast+
  have ml: "m < length MB_tstep" "m < length MB_beam"
    using mn Suc.prems(1,2) by simp_all
  from merge_body_fits [OF fit ml(1) refl ml(2) refl dq] obtain ts1 where
    body: "merge_body MB_tstep MB_beam ts (first_dof_of MB_beam m) (int m) =
       Inr (ts1, first_dof_of MB_beam (Suc m))"
    and sh1: "same_shape ts ts1" and db1: "same_db ts ts1"
    by (auto simp: first_dof_of_Suc)
  have fits1: "\<forall>i \<in> {Suc m..<n}.
      body_fits ts1 (MB_tstep ! i) (MB_beam ! i) i (first_dof_of MB_beam i)"
    using Suc.prems(3) by (simp add: body_fits_cong [OF sh1])
  have dq1: "\<forall>i \<in> {Suc m..<n}. i < length (mb_dquatdt ts1) \<and>
           mb_dquatdt ts1 ! i = last_entries 4 (dqddt (MB_tstep ! i))"
    using Suc.prems(4) db1 by (simp add: same_db_def)
  have d: "d = n - Suc m" using Suc.hyps(2) by simp
  from Suc.hyps(1) [OF d Suc.prems(1,2) fits1 dq1] obtain ts' where
    run: "merge_loop MB_tstep MB_beam (map int [Suc m..<n]) ts1 (first_dof_of MB_beam (Suc m)) = Inr ts'"
    and sh: "same_shape ts1 ts'" and db: "same_db ts1 ts'"
    by blast
  have "merge_loop MB_tstep MB_beam (map int [m..<n]) ts (first_dof_of MB_beam m) = Inr ts'"
    by (simp add: upt body run)
  moreover have "same_shape ts ts'" using sh1 sh by (rule same_shape_trans)
  moreover have "same_db ts ts'" using db1 db by (rule same_db_trans)
  ultimately show ?case by blast
qed

lemma merge_master_fits:
  assumes "MB_tstep \<noteq> []"
    and "10 \<le> length (q ts)" "10 \<le> length (dqdt ts)" "10 \<le> length (dqddt ts)"
    and "10 \<le> length (q (MB_tstep ! 0))" "10 \<le> length (dqdt (MB_tstep ! 0))"
      "10 \<le> length (dqddt (MB_tstep ! 0))"
  shows "\<exists>ts'. merge_master MB_tstep ts = Inr ts' \<and> same_db ts ts'"
proof -
  let ?b0 = "MB_tstep ! 0"
  have b0: "py_index MB_tstep 0 = Inr ?b0"
    using assms(1) by (simp add: py_index_def)
  obtain s1 where s1: "set_slice (q ts) (- 10) (int (length (q ts))) (last_entries 10 (q ?b0)) = Inr s1"
    using set_slice_master [of "q ts" "last_entries 10 (q ?b0)"] assms
    by (auto simp: length_last_entries)
  obtain s2 where s2: "set_slice (dqdt ts) (- 10) (int (length (dqdt ts))) (last_entries 10 (dqdt ?b0)) = Inr s2"
    using set_slice_master [of "dqdt ts" "last_entries 10 (dqdt ?b0)"] assms
    by (auto simp: length_last_entries)
  obtain s3 where s3: "set_slice (dqddt ts) (- 10) (int (length (dqddt ts))) (last_entries 10 (dqddt ?b0)) = Inr s3"
    using set_slice_master [of "dqddt ts" "last_entries 10 (dqddt ?b0)"] assms
    by (auto simp: length_last_entries)
  show ?thesis
    by (simp add: merge_master_def b0 s1 s2 s3 same_db_def)
qed

lemma merge_assertion_cases:
  assumes fits: "merge_fits MB_tstep MB_beam bm ts"
  shows "merge_multibody MB_tstep MB_beam bm ts = Inl AssertionError \<longleftrightarrow>
      (\<exists>i<length MB_tstep. mb_dquatdt (MB_tstep ! i) ! i \<noteq>
          last_entries 4 (dqddt (MB_tstep ! i)))"
proof -
  let ?n = "length MB_tstep"
  from fits have ne: "MB_tstep \<noteq> []" and lb: "length MB_beam = ?n"
    and nb: "num_bodies bm = int ?n"
    and dbf: "\<forall>i \<in> {0..<?n}. body_db_fits ts (MB_tstep ! i) i"
    and bf: "\<forall>i \<in> {0..<?n}. body_fits ts (MB_tstep ! i) (MB_beam ! i) i (first_dof_of MB_beam i)"
    and lq: "10 \<le> length (q ts)" "10 \<le> length (dqdt ts)" "10 \<le> length (dqddt ts)"
    by (simp_all add: merge_fits_def)
  have range: "py_range (int ?n) = map int [0..<?n]" by (simp add: py_range_def)
  note upd = update_mb_dB_loop_upt [OF le_refl dbf]
  have all_iff: "(\<forall>i \<in> {0..<?n}. quat_rate_matches (MB_tstep ! i) i) \<longleftrightarrow>
      (\<forall>i<?n. mb_dquatdt (MB_tstep ! i) ! i = last_entries 4 (dqddt (MB_tstep ! i)))"
    by (auto simp: quat_rate_matches_def)
  show ?thesis
  proof (cases "\<forall>i \<in> {0..<?n}. quat_rate_matches (MB_tstep ! i) i")
    case True
    with upd obtain ts1 where "update_mb_dB_loop MB_tstep (map int [0..<?n]) ts = Inr ts1"
      by auto
    then have "update_mb_dB_before_merge ts MB_tstep \<noteq> Inl AssertionError"
      by (simp add: update_mb_dB_before_merge_def range)
    then show ?thesis using True all_iff by (simp add: merge_assertion_iff)
  next
    case False
    with upd have "update_mb_dB_before_merge ts MB_tstep = Inl AssertionError"
      by (simp add: update_mb_dB_before_merge_def range)
    then show ?thesis using False all_iff by (simp add: merge_assertion_iff)
  qed
qed

lemma merge_completes:
  assumes fits: "merge_fits MB_tstep MB_beam bm ts"
    and all: "\<forall>i<length MB_tstep. mb_dquatdt (MB_tstep ! i) ! i =
        last_entries 4 (dqddt (MB_tstep ! i))"
  shows "\<exists>ts'. merge_multibody MB_tstep MB_beam bm ts = Inr ts' \<and>
      (\<forall>i<length MB_tstep. db_recorded ts' (MB_tstep ! i) i)"
proof -
  let ?n = "length MB_tstep"
  from fits have ne: "MB_tstep \<noteq> []" and lb: "length MB_beam = ?n"
    and nb: "num_bodies bm = int ?n"
    and dbf: "\<forall>i \<in> {0..<?n}. body_db_fits ts (MB_tstep ! i) i"
    and bf: "\<forall>i \<in> {0..<?n}. body_fits ts (MB_tstep ! i) (MB_beam ! i) i (first_dof_of MB_beam i)"
    and lq: "10 \<le> length (q ts)" "10 \<le> length (dqdt ts)" "10 \<le> length (dqddt ts)"
    by (simp_all add: merge_fits_def)
  have range: "py_range (int ?n) = map int [0..<?n]" by (simp add: py_range_def)
  note upd = update_mb_dB_loop_upt [OF le_refl dbf]
  have all_iff: "(\<forall>i \<in> {0..<?n}. quat_rate_matches (MB_tstep ! i) i) \<longleftrightarrow>
      (\<forall>i<?n. mb_dquatdt (MB_tstep ! i) ! i = last_entries 4 (dqddt (MB_tstep ! i)))"
    by (auto simp: quat_rate_matches_def)
  from all all_iff have "\<forall>i \<in> {0..<?n}. quat_rate_matches (MB_tstep ! i) i" by simp
  with upd obtain ts1 where
    u: "update_mb_dB_loop MB_tstep (map int [0..<?n]) ts = Inr ts1"
    and on: "db_only ts ts1" and sh: "same_db_shape ts ts1"
    and rec: "\<forall>i \<in> {0..<?n}. db_recorded ts1 (MB_tstep ! i) i"
    by auto
  have shape1: "same_shape ts ts1" using on by (simp add: db_only_def same_shape_def)
  have bf1: "\<forall>i \<in> {0..<?n}.
      body_fits ts1 (MB_tstep ! i) (MB_beam ! i) i (first_dof_of MB_beam i)"
    using bf by (simp add: body_fits_cong [OF shape1])
  have rows: "\<forall>i \<in> {0..<?n}. i < length (mb_dquatdt ts1) \<and>
      mb_dquatdt ts1 ! i = last_entries 4 (dqddt (MB_tstep ! i))"
  proof
    fix i assume i: "i \<in> {0..<?n}"
    with dbf have "i < length (mb_dquatdt ts)"
      by (simp add: body_db_fits_def row_fits_def)
    moreover have "length (mb_dquatdt ts1) = length (mb_dquatdt ts)"
      using sh by (metis same_db_shape_def length_map)
    ultimately show "i < length (mb_dquatdt ts1) \<and>
        mb_dquatdt ts1 ! i = last_entries 4 (dqddt (MB_tstep ! i))"
      using rec i by (simp add: db_recorded_def)
  qed
  have fd0: "first_dof_of MB_beam 0 = 0" by (simp add: first_dof_of_def)
  from merge_loop_upt [OF le_refl lb bf1 rows] obtain ts2 where
    l: "merge_loop MB_tstep MB_beam (map int [0..<?n]) ts1 0 = Inr ts2"
    and sh2: "same_shape ts1 ts2" and db2: "same_db ts1 ts2"
    by (auto simp: fd0)
  have lq2: "10 \<le> length (q ts2)" "10 \<le> length (dqdt ts2)" "10 \<le> length (dqddt ts2)"
    using lq shape1 sh2 by (simp_all add: same_shape_def)
  have "0 \<in> {0..<?n}" using ne by simp
  with bf have "body_fits ts (MB_tstep ! 0) (MB_beam ! 0) 0 (first_dof_of MB_beam 0)"
    by blast
  then have l0: "10 \<le> length (q (MB_tstep ! 0))" "10 \<le> length (dqdt (MB_tstep ! 0))"
    "10 \<le> length (dqddt (MB_tstep ! 0))"
    by (simp_all add: body_fits_def)
  from merge_master_fits [OF ne lq2 l0] obtain ts' where
    m: "merge_master MB_tstep ts2 = Inr ts'" and db3: "same_db ts2 ts'"
    by blast
  have "merge_multibody MB_tstep MB_beam bm ts = Inr ts'"
    by (simp add: merge_multibody_def update_mb_dB_before_merge_def range u nb l m)
  moreover have "\<forall>i<?n. db_recorded ts' (MB_tstep ! i) i"
    using rec db2 db3 by (simp add: db_recorded_def same_db_def)
  ultimately show ?thesis by blast
qed

text \<open>
  C8. When the shapes fit, \<open>merge_multibody\<close> fails with the assertion error exactly
  when some body \<open>i\<close> holds, in row \<open>i\<close> of its own \<open>mb_dquatdt\<close>, something else than
  the last 4 entries of its \<open>dqddt\<close>; and when all bodies match, the merge returns, with
  row \<open>i\<close> of the system's \<open>mb_FoR_pos\<close>, \<open>mb_FoR_vel\<close>, \<open>mb_FoR_acc\<close>, \<open>mb_quat\<close> and
  \<open>mb_dquatdt\<close> holding the frame position, velocity, acceleration, quaternion and
  quaternion derivative of body \<open>i\<close>.
\<close>

theorem merge_assertion_iff_quat_rate_mismatch:
  assumes fits: "merge_fits MB_tstep MB_beam bm ts"
  shows "(merge_multibody MB_tstep MB_beam bm ts = Inl AssertionError \<longleftrightarrow>
            (\<exists>i<length MB_tstep. mb_dquatdt (MB_tstep ! i) ! i \<noteq>
                last_entries 4 (dqddt (MB_tstep ! i))))
       \<and> ((\<forall>i<length MB_tstep. mb_dquatdt (MB_tstep ! i) ! i =
                last_entries 4 (dqddt (MB_tstep ! i))) \<longrightarrow>
            (\<exists>ts'. merge_multibody MB_tstep MB_beam bm ts = Inr ts' \<and>
               (\<forall>i<length MB_tstep. db_recorded ts' (MB_tstep ! i) i)))"
  using merge_assertion_cases [OF fits] merge_completes [OF fits] by blast

lemma example_last_entries:
  "last_entries 4 (dqddt (example_body k)) = [0, 0, 0, k]"
  by (simp add: example_body_def last_entries_def get_slice_def py_slice_def)

lemma all_less_2:
  "(\<forall>i<2. P i) \<longleftrightarrow> P 0 \<and> P (Suc 0)"
  "(\<forall>i<Suc (Suc 0). P i) \<longleftrightarrow> P 0 \<and> P (Suc 0)"
  by (auto simp: numeral_2_eq_2 less_Suc_eq)

lemma example_merge_fits:
  "merge_fits [example_body 1, example_body 2] [example_body_beam 0, example_body_beam 1]
     example_system_beam example_system"
  by (simp add: merge_fits_def all_less_2 body_db_fits_def body_fits_def row_fits_def
      rows_fit_def first_dof_of_def example_last_entries)
    (simp add: example_body_def example_system_def example_body_beam_def
      example_system_beam_def)

lemma example_matches:
  "\<forall>i<length [example_body 1, example_body 2].
      mb_dquatdt ([example_body 1, example_body 2] ! i) ! i =
      last_entries 4 (dqddt ([example_body 1, example_body 2] ! i))"
  by (simp add: all_less_2 example_last_entries) (simp add: example_body_def)

theorem merge_assertion_iff_quat_rate_mismatch_witness:
  "merge_fits [example_body 1, example_body 2] [example_body_beam 0, example_body_beam 1]
     example_system_beam example_system
   \<and> merge_multibody [example_body 1, example_body 2]
        [example_body_beam 0, example_body_beam 1] example_system_beam example_system
        \<noteq> Inl AssertionError
   \<and> (\<exists>ts'. merge_multibody [example_body 1, example_body 2]
        [example_body_beam 0, example_body_beam 1] example_system_beam example_system = Inr ts'
        \<and> mb_FoR_pos ts' ! 0 = [1, 0, 0] \<and> mb_FoR_pos ts' ! 1 = [2, 0, 0]
        \<and> mb_dquatdt ts' ! 1 = [0, 0, 0, 2])"
proof -
  note c8 = merge_assertion_iff_quat_rate_mismatch [OF example_merge_fits]
  from c8 example_matches obtain ts' where
    ok: "merge_multibody [example_body 1, example_body 2]
        [example_body_beam 0, example_body_beam 1] example_system_beam example_system = Inr ts'"
    and rec: "\<forall>i<length [example_body 1, example_body 2].
        db_recorded ts' ([example_body 1, example_body 2] ! i) i"
    by blast
  from rec have "db_recorded ts' (example_body 1) 0" "db_recorded ts' (example_body 2) (Suc 0)"
    by (simp_all add: all_less_2)
  then have "mb_FoR_pos ts' ! 0 = [1, 0, 0]" "mb_FoR_pos ts' ! 1 = [2, 0, 0]"
    "mb_dquatdt ts' ! 1 = [0, 0, 0, 2]"
    by (simp_all add: db_recorded_def example_last_entries) (simp_all add: example_body_def)
  with ok example_merge_fits show ?thesis by simp
qed

theorem merge_master_frame_from_body_0_witness:
  "\<exists>ts'. merge_multibody [example_body 1, example_body 2]
        [example_body_beam 0, example_body_beam 1] example_system_beam example_system = Inr ts'
      \<and> last_entries 10 (q ts') = [1, 2, 3, 4, 5, 6, 7, 8, 9, 1]
      \<and> last_entries 10 (dqddt ts') = [1, 2, 3, 4, 5, 6, 0, 0, 0, 1]
      \<and> for_pos ts' = [1, 0, 0] \<and> quat ts' = [1, 0, 0, 1]"
proof -
  from merge_completes [OF example_merge_fits example_matches] obtain ts' where
    ok: "merge_multibody [example_body 1, example_body 2]
        [example_body_beam 0, example_body_beam 1] example_system_beam example_system = Inr ts'"
    by blast
  have len: "10 \<le> length (q ([example_body 1, example_body 2] ! 0))"
    "10 \<le> length (dqdt ([example_body 1, example_body 2] ! 0))"
    "10 \<le> length (dqddt ([example_body 1, example_body 2] ! 0))"
    by (simp_all add: example_body_def)
  have vals: "last_entries 10 (q (example_body 1)) = [1, 2, 3, 4, 5, 6, 7, 8, 9, 1]"
    "last_entries 10 (dqddt (example_body 1)) = [1, 2, 3, 4, 5, 6, 0, 0, 0, 1]"
    "for_pos (example_body 1) = [1, 0, 0]" "quat (example_body 1) = [1, 0, 0, 1]"
    by (simp_all add: example_body_def last_entries_def get_slice_def py_slice_def)
  from merge_master_frame_from_body_0 [OF ok len] vals have
    "last_entries 10 (q ts') = [1, 2, 3, 4, 5, 6, 7, 8, 9, 1]
      \<and> last_entries 10 (dqddt ts') = [1, 2, 3, 4, 5, 6, 0, 0, 0, 1]
      \<and> for_pos ts' = [1, 0, 0] \<and> quat ts' = [1, 0, 0, 1]"
    by simp
  with ok show ?thesis by blast
qed

text \<open>
  C1, as stated, asks only that every entry names a known kind. That is not enough:
  the specification with the single entry \<open>{'behaviour': 'hinge_FoR'}\<close> names a
  registered kind, and \<open>initialize_constraints\<close> raises KeyError on \<open>body_FoR\<close>, the
  first parameter \<open>hinge_FoR.initialise\<close> reads, instead of assigning a range.
\<close>

theorem initialize_constraints_missing_parameter:
  "incomplete_MBdict ''num_constraints'' = Some (MVal (PInt 1))
   \<and> declared incomplete_MBdict 0 =
       Some (K_hinge_FoR, [''behaviour'' \<mapsto> PStr ''hinge_FoR''])
   \<and> initialize_constraints incomplete_MBdict = Inl (KeyError (PStr ''body_FoR''))"
  by (simp add: incomplete_MBdict_def declared_def example_keys dict_of_lc_def
      initialize_constraints_def dict_get_def example_ranges subscript_def
      lc_from_string_def)

lemma length_mk_mat [simp]: "length (mk_mat n m f) = n"
  by (simp add: mk_mat_def)

lemma nth_mk_mat: "i < n \<Longrightarrow> mk_mat n m f ! i = map (f i) [0..<m]"
  by (simp add: mk_mat_def)

lemma nth_nth_mk_mat: "i < n \<Longrightarrow> j < m \<Longrightarrow> mk_mat n m f ! i ! j = f i j"
  by (simp add: mk_mat_def)

lemma rect_mk_mat [simp]: "rect n m (mk_mat n m f)"
  by (auto simp: rect_def mk_mat_def)

lemma rect_nth: "rect r c A \<Longrightarrow> i < r \<Longrightarrow> length (A ! i) = c"
  by (auto simp: rect_def)

lemma ncols_rect: "rect r c A \<Longrightarrow> 0 < r \<Longrightarrow> ncols A = c"
  by (cases A) (auto simp: rect_def ncols_def)

lemma rect_length: "rect r c A \<Longrightarrow> length A = r"
  by (simp add: rect_def)

lemma rect_empty: "rect 0 c A \<Longrightarrow> A = []"
  by (simp add: rect_def)

lemma zeros2_rect: "zeros2 n m = Inr B \<Longrightarrow> rect (nat n) (nat m) B"
  by (auto simp: zeros2_def split: if_splits)

lemma upd_block_shape:
  assumes "upd_block opr M r0 r1 c0 c1 v = Inr M'"
  shows "M' = mk_mat (length M) (ncols M) (\<lambda>i j. M' ! i ! j)"
proof -
  from assms obtain g where m': "M' = mk_mat (length M) (ncols M) g"
    by (auto simp: upd_block_def ebind_eq_Inr split: prod.splits)
  have "mk_mat (length M) (ncols M) g
      = mk_mat (length M) (ncols M) (\<lambda>i j. mk_mat (length M) (ncols M) g ! i ! j)"
    by (simp add: mk_mat_def)
  with m' show ?thesis by simp
qed

lemma upd_block_rect:
  assumes "upd_block opr M r0 r1 c0 c1 v = Inr M'" and "rect r c M"
  shows "rect r c M'"
proof (cases "r = 0")
  case True
  with assms(2) have "M = []" by (simp add: rect_def)
  with upd_block_shape [OF assms(1)] have "M' = []" by (simp add: mk_mat_def)
  with True show ?thesis by (simp add: rect_def)
next
  case False
  with assms(2) have "ncols M = c" "length M = r" by (simp_all add: ncols_rect rect_def)
  with upd_block_shape [OF assms(1)] have "M' = mk_mat r c (\<lambda>i j. M' ! i ! j)" by simp
  then show ?thesis by (metis rect_mk_mat)
qed

lemma emap_bcast_same: "\<forall>row \<in> set A. length row = c \<Longrightarrow> emap (bcast_len c) A = Inr A"
  by (induction A) (simp_all add: bcast_len_def)

lemma to_shape_rect: "rect r c A \<Longrightarrow> to_shape r c (PMat A) = Inr A"
  by (simp add: to_shape_def rect_def bcast_len_def emap_bcast_same)

lemma py_slice_in:
  "0 \<le> a \<Longrightarrow> a \<le> b \<Longrightarrow> b \<le> int n \<Longrightarrow> py_slice n a b = (nat a, nat (b - a))"
  by (simp add: py_slice_def Let_def min_def)

lemma upd_block_nth:
  assumes upd: "upd_block opr M r0 r1 c0 c1 v = Inr M'"
    and M: "rect r c M"
    and rb: "0 \<le> r0" "r0 \<le> r1" "r1 \<le> int r"
    and cb: "0 \<le> c0" "c0 \<le> c1" "c1 \<le> int c"
    and ij: "i < r" "j < c"
  shows "\<exists>B. to_shape (nat (r1 - r0)) (nat (c1 - c0)) v = Inr B \<and>
     M' ! i ! j = (if nat r0 \<le> i \<and> i < nat r1 \<and> nat c0 \<le> j \<and> j < nat c1
                   then opr (M ! i ! j) (B ! (i - nat r0) ! (j - nat c0)) else M ! i ! j)"
proof -
  have len: "length M = r" and nc: "ncols M = c"
    using M ij by (simp_all add: rect_def ncols_rect)
  have sr: "py_slice r r0 r1 = (nat r0, nat (r1 - r0))"
    using rb by (simp add: py_slice_in)
  have sc: "py_slice c c0 c1 = (nat c0, nat (c1 - c0))"
    using cb by (simp add: py_slice_in)
  from upd obtain B where B: "to_shape (nat (r1 - r0)) (nat (c1 - c0)) v = Inr B"
    and M': "M' = mk_mat r c (\<lambda>i j.
        if nat r0 \<le> i \<and> i < nat r0 + nat (r1 - r0) \<and> nat c0 \<le> j \<and> j < nat c0 + nat (c1 - c0)
        then opr (M ! i ! j) (B ! (i - nat r0) ! (j - nat c0)) else M ! i ! j)"
    by (auto simp: upd_block_def len nc sr sc ebind_eq_Inr)
  have e1: "nat r0 + nat (r1 - r0) = nat r1" using rb by simp
  have e2: "nat c0 + nat (c1 - c0) = nat c1" using cb by simp
  show ?thesis using B ij by (simp add: M' nth_nth_mk_mat e1 e2)
qed

lemma upd_block_inner_sym:
  assumes upd: "upd_block opr M r0 r1 c0 c1 v = Inr M'"
    and M: "rect N N M" and sym: "offdiag_sym sys M" and sN: "sys \<le> N"
    and rb: "0 \<le> r0" "r0 \<le> r1" "r1 \<le> int sys"
    and cb: "0 \<le> c0" "c0 \<le> c1" "c1 \<le> int sys"
  shows "offdiag_sym sys M'"
proof -
  have len': "length M' = N" using upd_block_rect [OF upd M] by (simp add: rect_def)
  have len: "length M = N" using M by (simp add: rect_def)
  have rb': "r1 \<le> int N" and cb': "c1 \<le> int N" using rb cb sN by simp_all
  {
    fix i j assume i: "i < sys" and j: "sys \<le> j" "j < N"
    from upd_block_nth [OF upd M rb(1,2) rb' cb(1,2) cb', of j i] i j sN rb
    have 1: "M' ! j ! i = M ! j ! i" by auto
    from upd_block_nth [OF upd M rb(1,2) rb' cb(1,2) cb', of i j] i j sN cb
    have 2: "M' ! i ! j = M ! i ! j" by auto
    from sym i j len have "M ! j ! i = M ! i ! j" by (simp add: offdiag_sym_def)
    with 1 2 have "M' ! j ! i = M' ! i ! j" by simp
  }
  then show ?thesis by (simp add: offdiag_sym_def len')
qed

lemma np_mul_scalar_mat:
  assumes "rect r c A" and "0 < r"
  shows "\<exists>S. np_mul (PReal s) (PMat A) = Inr (PMat S) \<and> rect r c S \<and>
           (\<forall>i<r. \<forall>j<c. S ! i ! j = s * A ! i ! j)"
proof -
  have len: "length A = r" and nc: "ncols A = c"
    using assms by (simp_all add: rect_def ncols_rect)
  have b1: "bdim (Suc 0) r = Inr r" and b2: "bdim (Suc 0) c = Inr c"
    by (simp_all add: bdim_def)
  have t1: "to_shape r c (PReal s) = Inr (replicate r (replicate c s))"
    by (simp add: to_shape_def)
  let ?S = "mk_mat r c (\<lambda>i j. replicate r (replicate c s) ! i ! j * A ! i ! j)"
  have "np_mul (PReal s) (PMat A) = Inr (PMat ?S)"
    by (simp add: np_binop_def np_shape_def len nc b1 b2 to_shape_rect [OF assms(1)]
        t1 np_rank_def)
  moreover have "\<forall>i<r. \<forall>j<c. ?S ! i ! j = s * A ! i ! j"
    by (simp add: nth_nth_mk_mat)
  ultimately show ?thesis by (intro exI [of _ ?S]) simp
qed

lemma np_transpose_mat:
  assumes "rect r c A" and "0 < r"
  shows "\<exists>T. np_transpose (PMat A) = PMat T \<and> rect c r T \<and>
           (\<forall>i<c. \<forall>j<r. T ! i ! j = A ! j ! i)"
proof -
  have len: "length A = r" and nc: "ncols A = c"
    using assms by (simp_all add: rect_def ncols_rect)
  show ?thesis
    by (simp add: np_transpose_def len nc nth_nth_mk_mat)
qed

lemma offdiag_sym_zero [simp]: "offdiag_sym 0 M"
  by (simp add: offdiag_sym_def)

lemma add_coupling_rect:
  assumes "add_coupling M sys_size i n s Bnh = Inr M'" and "rect r c M"
  shows "rect r c M'"
  using assms
  by (auto simp: add_coupling_def ebind_eq_Inr dest: upd_block_rect)

lemma add_coupling_sym:
  assumes cp: "add_coupling M sys_size i n s Bnh = Inr M'"
    and M: "rect N N M" and sym: "offdiag_sym (nat sys_size) M"
    and B: "rect (nat n) (nat sys_size) Bnh"
    and bounds: "0 \<le> sys_size" "0 \<le> i" "0 < n" "sys_size + i + n \<le> int N"
  shows "offdiag_sym (nat sys_size) M'"
proof (cases "sys_size = 0")
  case True
  then show ?thesis by simp
next
  case False
  with bounds have pos: "0 < sys_size" by simp
  define S where "S = nat sys_size"
  have S: "int S = sys_size" "0 < S" using pos by (simp_all add: S_def)
  have npos: "0 < nat n" using bounds by simp
  from np_mul_scalar_mat [OF B npos, of s] obtain sB where
    sB: "np_mul (PReal s) (PMat Bnh) = Inr (PMat sB)" and sBr: "rect (nat n) S sB"
    and sBv: "\<forall>a<nat n. \<forall>b<S. sB ! a ! b = s * Bnh ! a ! b"
    by (auto simp: S_def)
  from np_transpose_mat [OF B npos] obtain T where
    T: "np_transpose (PMat Bnh) = PMat T" and Tr: "rect S (nat n) T"
    and Tv: "\<forall>a<S. \<forall>b<nat n. T ! a ! b = Bnh ! b ! a"
    by (auto simp: S_def)
  from np_mul_scalar_mat [OF Tr S(2), of s] obtain sT where
    sT: "np_mul (PReal s) (PMat T) = Inr (PMat sT)" and sTr: "rect S (nat n) sT"
    and sTv: "\<forall>a<S. \<forall>b<nat n. sT ! a ! b = s * T ! a ! b"
    by auto
  from cp obtain M1 where
    1: "add_block M (sys_size + i) (sys_size + i + n) 0 sys_size (PMat sB) = Inr M1"
    and 2: "add_block M1 0 sys_size (sys_size + i) (sys_size + i + n) (PMat sT) = Inr M'"
    by (auto simp: add_coupling_def sB T sT ebind_eq_Inr)
  have M1: "rect N N M1" by (rule upd_block_rect [OF 1 M])
  have len: "length M = N" using M by (simp add: rect_def)
  have len': "length M' = N" using upd_block_rect [OF 2 M1] by (simp add: rect_def)
  have sN: "sys_size \<le> int N" using bounds by simp
  have shB: "to_shape (nat (sys_size + i + n - (sys_size + i))) (nat (sys_size - 0)) (PMat sB)
      = Inr sB"
    using to_shape_rect [OF sBr] by (simp add: S_def)
  have shT: "to_shape (nat (sys_size - 0)) (nat (sys_size + i + n - (sys_size + i))) (PMat sT)
      = Inr sT"
    using to_shape_rect [OF sTr] by (simp add: S_def)
  define lo where "lo = nat (sys_size + i)"
  have lo: "S \<le> lo" "nat (sys_size + i + n) = lo + nat n"
    using bounds by (simp_all add: lo_def S_def nat_add_distrib)
  have e1: "\<And>a b. a < N \<Longrightarrow> b < N \<Longrightarrow>
      M1 ! a ! b = (if lo \<le> a \<and> a < lo + nat n \<and> b < S
                    then M ! a ! b + sB ! (a - lo) ! b else M ! a ! b)"
  proof -
    fix a b assume ab: "a < N" "b < N"
    from upd_block_nth [OF 1 M _ _ _ _ _ _ ab] bounds sN shB
    show "M1 ! a ! b = (if lo \<le> a \<and> a < lo + nat n \<and> b < S
                    then M ! a ! b + sB ! (a - lo) ! b else M ! a ! b)"
      by (simp add: lo S_def lo_def)
  qed
  have e2: "\<And>a b. a < N \<Longrightarrow> b < N \<Longrightarrow>
      M' ! a ! b = (if a < S \<and> lo \<le> b \<and> b < lo + nat n
                    then M1 ! a ! b + sT ! a ! (b - lo) else M1 ! a ! b)"
  proof -
    fix a b assume ab: "a < N" "b < N"
    from upd_block_nth [OF 2 M1 _ _ _ _ _ _ ab] bounds sN shT
    show "M' ! a ! b = (if a < S \<and> lo \<le> b \<and> b < lo + nat n
                    then M1 ! a ! b + sT ! a ! (b - lo) else M1 ! a ! b)"
      by (simp add: lo S_def lo_def)
  qed
  {
    fix a b assume a: "a < S" and b: "S \<le> b" "b < N"
    have aN: "a < N" using a b by simp
    have old: "M ! b ! a = M ! a ! b"
      using sym a b len by (simp add: offdiag_sym_def S_def)
    have l: "M' ! b ! a = (if lo \<le> b \<and> b < lo + nat n then M ! b ! a + sB ! (b - lo) ! a
                           else M ! b ! a)"
      using e2 [OF b(2) aN] e1 [OF b(2) aN] a b by simp
    have r: "M' ! a ! b = (if lo \<le> b \<and> b < lo + nat n then M ! a ! b + sT ! a ! (b - lo)
                           else M ! a ! b)"
      using e2 [OF aN b(2)] e1 [OF aN b(2)] a lo by simp
    have "M' ! b ! a = M' ! a ! b"
    proof (cases "lo \<le> b \<and> b < lo + nat n")
      case True
      then have k: "b - lo < nat n" by arith
      have "sB ! (b - lo) ! a = s * Bnh ! (b - lo) ! a" using sBv k a by simp
      moreover have "sT ! a ! (b - lo) = s * Bnh ! (b - lo) ! a" using sTv Tv k a by simp
      ultimately show ?thesis using l r old True by simp
    next
      case False
      have "M' ! b ! a = M ! b ! a" using l by (simp only: if_not_P [OF False])
      moreover have "M' ! a ! b = M ! a ! b" using r by (simp only: if_not_P [OF False])
      ultimately show ?thesis using old by simp
    qed
  }
  then show ?thesis by (simp add: offdiag_sym_def len' S_def)
qed

lemma post_bind: "(\<And>x. m = Inr x \<Longrightarrow> post (f x) Q) \<Longrightarrow> post (ebind m f) Q"
  by (auto simp: post_def ebind_eq_Inr)

lemma post_bind_any: "(\<And>x. post (f x) Q) \<Longrightarrow> post (ebind m f) Q"
  by (auto simp: post_def ebind_eq_Inr)

lemma bind_beam:
  "(\<And>b. py_index MB_beam i = Inr b \<Longrightarrow> post (f b) Q)
    \<Longrightarrow> post (ebind (py_index (MB_beam :: beam list) i) f) Q"
  by (rule post_bind)

lemma post_Inr: "Q x \<Longrightarrow> post (Inr x) Q"
  by (simp add: post_def)

lemma post_if: "(c \<Longrightarrow> post a Q) \<Longrightarrow> (\<not> c \<Longrightarrow> post b Q) \<Longrightarrow> post (if c then a else b) Q"
  by simp

lemma bind_assoc: "post (ebind m (\<lambda>x. ebind (g x) f)) Q \<Longrightarrow> post (ebind (ebind m g) f) Q"
  by (cases m) (simp_all add: post_def)

lemma bind_if:
  "(c \<Longrightarrow> post (ebind a f) Q) \<Longrightarrow> (\<not> c \<Longrightarrow> post (ebind b f) Q)
    \<Longrightarrow> post (ebind (if c then a else b) f) Q"
  by simp

lemma bind_Inr: "post (f x) Q \<Longrightarrow> post (ebind (Inr x) f) Q"
  by simp

lemma bind_zeros2:
  "(\<And>B. rect (nat n) (nat m) B \<Longrightarrow> post (f B) Q) \<Longrightarrow> post (ebind (zeros2 n m) f) Q"
  by (auto simp: post_def ebind_eq_Inr dest: zeros2_rect)

lemma bind_upd_rect:
  "rect r c M \<Longrightarrow> (\<And>M'. rect r c M' \<Longrightarrow> post (f M') Q)
    \<Longrightarrow> post (ebind (upd_block opr M r0 r1 c0 c1 v) f) Q"
  by (auto simp: post_def ebind_eq_Inr dest: upd_block_rect)

lemma bind_upd_good:
  assumes "good (nat sys_size) N M"
    and "0 \<le> sys_size" "sys_size \<le> int N"
    and "0 \<le> r0" "r0 \<le> r1" "r1 \<le> sys_size"
    and "0 \<le> c0" "c0 \<le> c1" "c1 \<le> sys_size"
    and "\<And>M'. good (nat sys_size) N M' \<Longrightarrow> post (f M') Q"
  shows "post (ebind (upd_block opr M r0 r1 c0 c1 v) f) Q"
proof -
  {
    fix M' assume u: "upd_block opr M r0 r1 c0 c1 v = Inr M'"
    have "rect N N M'" using upd_block_rect [OF u] assms(1) by (simp add: good_def)
    moreover have "offdiag_sym (nat sys_size) M'"
      using upd_block_inner_sym [OF u, of N "nat sys_size"] assms(1-9)
      by (simp add: good_def)
    ultimately have "good (nat sys_size) N M'" by (simp add: good_def)
  }
  with assms(10) show ?thesis by (auto simp: post_def ebind_eq_Inr)
qed

lemma bind_coupling:
  assumes "good (nat sys_size) N M" and "rect (nat n) (nat sys_size) Bnh"
    and "0 \<le> sys_size" "0 \<le> i" "0 < n" "sys_size + i + n \<le> int N"
    and "\<And>M'. good (nat sys_size) N M' \<Longrightarrow> post (f M') Q"
  shows "post (ebind (add_coupling M sys_size i n s Bnh) f) Q"
proof -
  {
    fix M' assume u: "add_coupling M sys_size i n s Bnh = Inr M'"
    have "rect N N M'" using add_coupling_rect [OF u] assms(1) by (simp add: good_def)
    moreover have "offdiag_sym (nat sys_size) M'"
      using add_coupling_sym [OF u, of N] assms(1-6) by (simp add: good_def)
    ultimately have "good (nat sys_size) N M'" by (simp add: good_def)
  }
  with assms(7) show ?thesis by (auto simp: post_def ebind_eq_Inr)
qed

lemma post_bind_post: "post m R \<Longrightarrow> (\<And>x. R x \<Longrightarrow> post (f x) Q) \<Longrightarrow> post (ebind m f) Q"
  by (auto simp: post_def ebind_eq_Inr)

lemma bind_as_int:
  "(\<And>x. as_int v = Inr x \<Longrightarrow> post (f x) Q) \<Longrightarrow> post (ebind (as_int v) f) Q"
  by (rule post_bind)

lemma bind_FoR_dof:
  "(\<And>d. define_FoR_dof MB_beam b = Inr d \<Longrightarrow> post (f d) Q)
    \<Longrightarrow> post (ebind (define_FoR_dof MB_beam b) f) Q"
  by (rule post_bind)

lemma bind_node_dof:
  "(\<And>d. define_node_dof MB_beam b n = Inr d \<Longrightarrow> post (f d) Q)
    \<Longrightarrow> post (ebind (define_node_dof MB_beam b n) f) Q"
  by (rule post_bind)

lemma equal_lin_vel_node_FoR_post:
  assumes "good (nat sys_size) N (LM_C st)" and "good (nat sys_size) N (LM_K st)"
    and "0 \<le> sys_size" and "0 \<le> i" and "sys_size + i + 3 \<le> int N"
    and "0 \<le> FoR_dof" and "FoR_dof + 10 \<le> sys_size"
    and "0 \<le> node_dof" and "node_dof + 6 \<le> sys_size"
    and "free_frame_ok MB_beam node_b node_FoR_dof sys_size"
  shows "post (equal_lin_vel_node_FoR alg MB_tstep MB_beam FoR_b node_b node_n node_FoR_dof
      node_dof FoR_dof sys_size Lambda_dot scalingFactor penaltyFactor i st)
    (\<lambda>r. fst r = i + 3 \<and> good (nat sys_size) N (LM_C (snd r))
          \<and> good (nat sys_size) N (LM_K (snd r)))"
  unfolding equal_lin_vel_node_FoR_def
  apply (insert assms)
  apply ((erule (1) notE) | rule bind_assoc | rule bind_if | rule bind_Inr | rule bind_zeros2
    | (rule bind_upd_rect, assumption)
    | (rule bind_coupling, assumption, assumption, (simp add: free_frame_ok_def split: sum.splits; fail), (simp add: free_frame_ok_def split: sum.splits; fail), (simp add: free_frame_ok_def split: sum.splits; fail), (simp add: free_frame_ok_def split: sum.splits; fail))
    | (rule bind_upd_good, assumption, (simp add: free_frame_ok_def split: sum.splits; fail), (simp add: free_frame_ok_def split: sum.splits; fail), (simp add: free_frame_ok_def split: sum.splits; fail), (simp add: free_frame_ok_def split: sum.splits; fail), (simp add: free_frame_ok_def split: sum.splits; fail), (simp add: free_frame_ok_def split: sum.splits; fail), (simp add: free_frame_ok_def split: sum.splits; fail), (simp add: free_frame_ok_def split: sum.splits; fail))
    | rule bind_beam | rule post_bind_any
    | (rule post_Inr, (simp; fail)))+
  done

lemma bind_equal_lin_vel:
  assumes "good (nat sys_size) N (LM_C st)" and "good (nat sys_size) N (LM_K st)"
    and "0 \<le> sys_size" and "0 \<le> i" and "sys_size + i + 3 \<le> int N"
    and "0 \<le> FoR_dof" and "FoR_dof + 10 \<le> sys_size"
    and "0 \<le> node_dof" and "node_dof + 6 \<le> sys_size"
    and "free_frame_ok MB_beam node_b node_FoR_dof sys_size"
    and "\<And>r. fst r = i + 3 \<Longrightarrow> good (nat sys_size) N (LM_C (snd r)) \<Longrightarrow> good (nat sys_size) N (LM_K (snd r))
      \<Longrightarrow> post (f r) Q"
  shows "post (ebind (equal_lin_vel_node_FoR alg MB_tstep MB_beam FoR_b node_b node_n node_FoR_dof
      node_dof FoR_dof sys_size Lambda_dot scalingFactor penaltyFactor i st) f) Q"
  by (rule post_bind_post [OF equal_lin_vel_node_FoR_post [OF assms(1-10)]]) (simp add: assms(11))

lemma def_rot_axis_FoR_wrt_node_post:
  assumes "good (nat sys_size) N (LM_C st)" and "good (nat sys_size) N (LM_K st)"
    and "0 \<le> sys_size" and "0 \<le> i" and "sys_size + i + 2 \<le> int N"
    and "0 \<le> FoR_dof" and "FoR_dof + 10 \<le> sys_size"
    and "0 \<le> node_dof" and "node_dof + 6 \<le> sys_size"
    and "free_frame_ok MB_beam node_b node_FoR_dof sys_size"
  shows "post (def_rot_axis_FoR_wrt_node alg MB_tstep MB_beam FoR_b node_b node_n node_FoR_dof
      node_dof FoR_dof sys_size Lambda_dot rot_axisB scalingFactor penaltyFactor i st indep0)
    (\<lambda>r. fst r = i + 2 \<and> good (nat sys_size) N (LM_C (fst (snd r)))
          \<and> good (nat sys_size) N (LM_K (fst (snd r))))"
  unfolding def_rot_axis_FoR_wrt_node_def
  apply (insert assms)
  apply ((erule (1) notE) | rule bind_assoc | rule bind_if | rule bind_Inr | rule bind_zeros2
    | (rule bind_upd_rect, assumption)
    | (rule bind_coupling, assumption, assumption, (simp add: free_frame_ok_def split: sum.splits; fail), (simp add: free_frame_ok_def split: sum.splits; fail), (simp add: free_frame_ok_def split: sum.splits; fail), (simp add: free_frame_ok_def split: sum.splits; fail))
    | (rule bind_upd_good, assumption, (simp add: free_frame_ok_def split: sum.splits; fail), (simp add: free_frame_ok_def split: sum.splits; fail), (simp add: free_frame_ok_def split: sum.splits; fail), (simp add: free_frame_ok_def split: sum.splits; fail), (simp add: free_frame_ok_def split: sum.splits; fail), (simp add: free_frame_ok_def split: sum.splits; fail), (simp add: free_frame_ok_def split: sum.splits; fail), (simp add: free_frame_ok_def split: sum.splits; fail))
    | rule bind_beam | rule post_bind_any
    | (rule post_Inr, (simp; fail)))+
  done

lemma bind_def_rot_axis:
  assumes "good (nat sys_size) N (LM_C st)" and "good (nat sys_size) N (LM_K st)"
    and "0 \<le> sys_size" and "0 \<le> i" and "sys_size + i + 2 \<le> int N"
    and "0 \<le> FoR_dof" and "FoR_dof + 10 \<le> sys_size"
    and "0 \<le> node_dof" and "node_dof + 6 \<le> sys_size"
    and "free_frame_ok MB_beam node_b node_FoR_dof sys_size"
    and "\<And>r. fst r = i + 2 \<Longrightarrow> good (nat sys_size) N (LM_C (fst (snd r))) \<Longrightarrow> good (nat sys_size) N (LM_K (fst (snd r)))
      \<Longrightarrow> post (f r) Q"
  shows "post (ebind (def_rot_axis_FoR_wrt_node alg MB_tstep MB_beam FoR_b node_b node_n node_FoR_dof
      node_dof FoR_dof sys_size Lambda_dot rot_axisB scalingFactor penaltyFactor i st indep0) f) Q"
  by (rule post_bind_post [OF def_rot_axis_FoR_wrt_node_post [OF assms(1-10)]]) (simp add: assms(11))

lemma def_rot_vel_FoR_wrt_node_post:
  assumes "good (nat sys_size) N (LM_C st)" and "good (nat sys_size) N (LM_K st)"
    and "0 \<le> sys_size" and "0 \<le> i" and "sys_size + i + 1 \<le> int N"
    and "0 \<le> FoR_dof" and "FoR_dof + 10 \<le> sys_size"
    and "0 \<le> node_dof" and "node_dof + 6 \<le> sys_size"
    and "free_frame_ok MB_beam node_b node_FoR_dof sys_size"
  shows "post (def_rot_vel_FoR_wrt_node alg MB_tstep MB_beam FoR_b node_b node_n node_FoR_dof
      node_dof FoR_dof sys_size Lambda_dot rot_axisB rot_vel scalingFactor penaltyFactor i st)
    (\<lambda>r. fst r = i + 1 \<and> good (nat sys_size) N (LM_C (snd r))
          \<and> good (nat sys_size) N (LM_K (snd r)))"
  unfolding def_rot_vel_FoR_wrt_node_def
  apply (insert assms)
  apply ((erule (1) notE) | rule bind_assoc | rule bind_if | rule bind_Inr | rule bind_zeros2
    | (rule bind_upd_rect, assumption)
    | (rule bind_coupling, assumption, assumption, (simp add: free_frame_ok_def split: sum.splits; fail), (simp add: free_frame_ok_def split: sum.splits; fail), (simp add: free_frame_ok_def split: sum.splits; fail), (simp add: free_frame_ok_def split: sum.splits; fail))
    | (rule bind_upd_good, assumption, (simp add: free_frame_ok_def split: sum.splits; fail), (simp add: free_frame_ok_def split: sum.splits; fail), (simp add: free_frame_ok_def split: sum.splits; fail), (simp add: free_frame_ok_def split: sum.splits; fail), (simp add: free_frame_ok_def split: sum.splits; fail), (simp add: free_frame_ok_def split: sum.splits; fail), (simp add: free_frame_ok_def split: sum.splits; fail), (simp add: free_frame_ok_def split: sum.splits; fail))
    | rule bind_beam | rule post_bind_any
    | (rule post_Inr, (simp; fail)))+
  done

lemma bind_def_rot_vel:
  assumes "good (nat sys_size) N (LM_C st)" and "good (nat sys_size) N (LM_K st)"
    and "0 \<le> sys_size" and "0 \<le> i" and "sys_size + i + 1 \<le> int N"
    and "0 \<le> FoR_dof" and "FoR_dof + 10 \<le> sys_size"
    and "0 \<le> node_dof" and "node_dof + 6 \<le> sys_size"
    and "free_frame_ok MB_beam node_b node_FoR_dof sys_size"
    and "\<And>r. fst r = i + 1 \<Longrightarrow> good (nat sys_size) N (LM_C (snd r)) \<Longrightarrow> good (nat sys_size) N (LM_K (snd r))
      \<Longrightarrow> post (f r) Q"
  shows "post (ebind (def_rot_vel_FoR_wrt_node alg MB_tstep MB_beam FoR_b node_b node_n node_FoR_dof
      node_dof FoR_dof sys_size Lambda_dot rot_axisB rot_vel scalingFactor penaltyFactor i st) f) Q"
  by (rule post_bind_post [OF def_rot_vel_FoR_wrt_node_post [OF assms(1-10)]]) (simp add: assms(11))

lemma hinge_node_FoR_dynamicmat_post:
  assumes "good (nat sys_size) N (LM_C st)" and "good (nat sys_size) N (LM_K st)"
    and "0 \<le> sys_size" and "0 \<le> ieq" and "sys_size + ieq + 5 \<le> int N"
    and "frame_window MB_beam sys_size FoR_body"
    and "node_window MB_beam sys_size node_body node_number"
    and "body_free MB_beam node_body \<longrightarrow> frame_window MB_beam sys_size node_body"
  shows "post (hinge_node_FoR_dynamicmat alg node_number node_body FoR_body rot_axisB ieq indep
      MB_beam MB_tstep sys_size Lambda_dot scalingFactor penaltyFactor st)
    (\<lambda>r. good (nat sys_size) N (LM_C (fst r)) \<and> good (nat sys_size) N (LM_K (fst r)))"
  unfolding hinge_node_FoR_dynamicmat_def
  apply (insert assms)
  apply ((erule (1) notE) | rule bind_assoc | rule bind_if | rule bind_Inr | rule bind_zeros2
    | (rule bind_upd_rect, assumption)
    | (rule bind_coupling, assumption, assumption, (simp add: frame_window_def node_window_def body_free_def free_frame_ok_def split: sum.splits; fail), (simp add: frame_window_def node_window_def body_free_def free_frame_ok_def split: sum.splits; fail), (simp add: frame_window_def node_window_def body_free_def free_frame_ok_def split: sum.splits; fail), (simp add: frame_window_def node_window_def body_free_def free_frame_ok_def split: sum.splits; fail))
    | (rule bind_upd_good, assumption, (simp add: frame_window_def node_window_def body_free_def free_frame_ok_def split: sum.splits; fail), (simp add: frame_window_def node_window_def body_free_def free_frame_ok_def split: sum.splits; fail), (simp add: frame_window_def node_window_def body_free_def free_frame_ok_def split: sum.splits; fail), (simp add: frame_window_def node_window_def body_free_def free_frame_ok_def split: sum.splits; fail), (simp add: frame_window_def node_window_def body_free_def free_frame_ok_def split: sum.splits; fail), (simp add: frame_window_def node_window_def body_free_def free_frame_ok_def split: sum.splits; fail), (simp add: frame_window_def node_window_def body_free_def free_frame_ok_def split: sum.splits; fail), (simp add: frame_window_def node_window_def body_free_def free_frame_ok_def split: sum.splits; fail))
    | (rule bind_equal_lin_vel, assumption, assumption, (simp add: frame_window_def node_window_def body_free_def free_frame_ok_def split: sum.splits; fail), (simp add: frame_window_def node_window_def body_free_def free_frame_ok_def split: sum.splits; fail), (simp add: frame_window_def node_window_def body_free_def free_frame_ok_def split: sum.splits; fail), (simp add: frame_window_def node_window_def body_free_def free_frame_ok_def split: sum.splits; fail), (simp add: frame_window_def node_window_def body_free_def free_frame_ok_def split: sum.splits; fail), (simp add: frame_window_def node_window_def body_free_def free_frame_ok_def split: sum.splits; fail), (simp add: frame_window_def node_window_def body_free_def free_frame_ok_def split: sum.splits; fail), (simp add: frame_window_def node_window_def body_free_def free_frame_ok_def split: sum.splits; fail))
    | (rule bind_def_rot_axis, assumption, assumption, (simp add: frame_window_def node_window_def body_free_def free_frame_ok_def split: sum.splits; fail), (simp add: frame_window_def node_window_def body_free_def free_frame_ok_def split: sum.splits; fail), (simp add: frame_window_def node_window_def body_free_def free_frame_ok_def split: sum.splits; fail), (simp add: frame_window_def node_window_def body_free_def free_frame_ok_def split: sum.splits; fail), (simp add: frame_window_def node_window_def body_free_def free_frame_ok_def split: sum.splits; fail), (simp add: frame_window_def node_window_def body_free_def free_frame_ok_def split: sum.splits; fail), (simp add: frame_window_def node_window_def body_free_def free_frame_ok_def split: sum.splits; fail), (simp add: frame_window_def node_window_def body_free_def free_frame_ok_def split: sum.splits; fail))
    | (rule bind_def_rot_vel, assumption, assumption, (simp add: frame_window_def node_window_def body_free_def free_frame_ok_def split: sum.splits; fail), (simp add: frame_window_def node_window_def body_free_def free_frame_ok_def split: sum.splits; fail), (simp add: frame_window_def node_window_def body_free_def free_frame_ok_def split: sum.splits; fail), (simp add: frame_window_def node_window_def body_free_def free_frame_ok_def split: sum.splits; fail), (simp add: frame_window_def node_window_def body_free_def free_frame_ok_def split: sum.splits; fail), (simp add: frame_window_def node_window_def body_free_def free_frame_ok_def split: sum.splits; fail), (simp add: frame_window_def node_window_def body_free_def free_frame_ok_def split: sum.splits; fail), (simp add: frame_window_def node_window_def body_free_def free_frame_ok_def split: sum.splits; fail))
    | rule bind_as_int | rule bind_FoR_dof | rule bind_node_dof
    | rule bind_beam | rule post_bind_any
    | (rule post_Inr, (simp; fail)))+
  done

lemma hinge_node_FoR_constant_vel_dynamicmat_post:
  assumes "good (nat sys_size) N (LM_C st)" and "good (nat sys_size) N (LM_K st)"
    and "0 \<le> sys_size" and "0 \<le> ieq" and "sys_size + ieq + 6 \<le> int N"
    and "frame_window MB_beam sys_size FoR_body"
    and "node_window MB_beam sys_size node_body node_number"
    and "body_free MB_beam node_body \<longrightarrow> frame_window MB_beam sys_size node_body"
  shows "post (hinge_node_FoR_constant_vel_dynamicmat alg node_number node_body FoR_body rot_axisB rot_vel ieq
      indep
      MB_beam MB_tstep sys_size Lambda_dot scalingFactor penaltyFactor st)
    (\<lambda>r. good (nat sys_size) N (LM_C (fst r)) \<and> good (nat sys_size) N (LM_K (fst r)))"
  unfolding hinge_node_FoR_constant_vel_dynamicmat_def
  apply (insert assms)
  apply ((erule (1) notE) | rule bind_assoc | rule bind_if | rule bind_Inr | rule bind_zeros2
    | (rule bind_upd_rect, assumption)
    | (rule bind_coupling, assumption, assumption, (simp add: frame_window_def node_window_def body_free_def free_frame_ok_def split: sum.splits; fail), (simp add: frame_window_def node_window_def body_free_def free_frame_ok_def split: sum.splits; fail), (simp add: frame_window_def node_window_def body_free_def free_frame_ok_def split: sum.splits; fail), (simp add: frame_window_def node_window_def body_free_def free_frame_ok_def split: sum.splits; fail))
    | (rule bind_upd_good, assumption, (simp add: frame_window_def node_window_def body_free_def free_frame_ok_def split: sum.splits; fail), (simp add: frame_window_def node_window_def body_free_def free_frame_ok_def split: sum.splits; fail), (simp add: frame_window_def node_window_def body_free_def free_frame_ok_def split: sum.splits; fail), (simp add: frame_window_def node_window_def body_free_def free_frame_ok_def split: sum.splits; fail), (simp add: frame_window_def node_window_def body_free_def free_frame_ok_def split: sum.splits; fail), (simp add: frame_window_def node_window_def body_free_def free_frame_ok_def split: sum.splits; fail), (simp add: frame_window_def node_window_def body_free_def free_frame_ok_def split: sum.splits; fail), (simp add: frame_window_def node_window_def body_free_def free_frame_ok_def split: sum.splits; fail))
    | (rule bind_equal_lin_vel, assumption, assumption, (simp add: frame_window_def node_window_def body_free_def free_frame_ok_def split: sum.splits; fail), (simp add: frame_window_def node_window_def body_free_def free_frame_ok_def split: sum.splits; fail), (simp add: frame_window_def node_window_def body_free_def free_frame_ok_def split: sum.splits; fail), (simp add: frame_window_def node_window_def body_free_def free_frame_ok_def split: sum.splits; fail), (simp add: frame_window_def node_window_def body_free_def free_frame_ok_def split: sum.splits; fail), (simp add: frame_window_def node_window_def body_free_def free_frame_ok_def split: sum.splits; fail), (simp add: frame_window_def node_window_def body_free_def free_frame_ok_def split: sum.splits; fail), (simp add: frame_window_def node_window_def body_free_def free_frame_ok_def split: sum.splits; fail))
    | (rule bind_def_rot_axis, assumption, assumption, (simp add: frame_window_def node_window_def body_free_def free_frame_ok_def split: sum.splits; fail), (simp add: frame_window_def node_window_def body_free_def free_frame_ok_def split: sum.splits; fail), (simp add: frame_window_def node_window_def body_free_def free_frame_ok_def split: sum.splits; fail), (simp add: frame_window_def node_window_def body_free_def free_frame_ok_def split: sum.splits; fail), (simp add: frame_window_def node_window_def body_free_def free_frame_ok_def split: sum.splits; fail), (simp add: frame_window_def node_window_def body_free_def free_frame_ok_def split: sum.splits; fail), (simp add: frame_window_def node_window_def body_free_def free_frame_ok_def split: sum.splits; fail), (simp add: frame_window_def node_window_def body_free_def free_frame_ok_def split: sum.splits; fail))
    | (rule bind_def_rot_vel, assumption, assumption, (simp add: frame_window_def node_window_def body_free_def free_frame_ok_def split: sum.splits; fail), (simp add: frame_window_def node_window_def body_free_def free_frame_ok_def split: sum.splits; fail), (simp add: frame_window_def node_window_def body_free_def free_frame_ok_def split: sum.splits; fail), (simp add: frame_window_def node_window_def body_free_def free_frame_ok_def split: sum.splits; fail), (simp add: frame_window_def node_window_def body_free_def free_frame_ok_def split: sum.splits; fail), (simp add: frame_window_def node_window_def body_free_def free_frame_ok_def split: sum.splits; fail), (simp add: frame_window_def node_window_def body_free_def free_frame_ok_def split: sum.splits; fail), (simp add: frame_window_def node_window_def body_free_def free_frame_ok_def split: sum.splits; fail))
    | rule bind_as_int | rule bind_FoR_dof | rule bind_node_dof
    | rule bind_beam | rule post_bind_any
    | (rule post_Inr, (simp; fail)))+
  done

lemma spherical_node_FoR_dynamicmat_post:
  assumes "good (nat sys_size) N (LM_C st)" and "good (nat sys_size) N (LM_K st)"
    and "0 \<le> sys_size" and "0 \<le> ieq" and "sys_size + ieq + 3 \<le> int N"
    and "frame_window MB_beam sys_size FoR_body"
    and "node_window MB_beam sys_size node_body node_number"
    and "body_free MB_beam node_body \<longrightarrow> frame_window MB_beam sys_size node_body"
  shows "post (spherical_node_FoR_dynamicmat alg node_number node_body FoR_body ieq
      MB_beam MB_tstep sys_size Lambda_dot scalingFactor penaltyFactor st)
    (\<lambda>st'. good (nat sys_size) N (LM_C st') \<and> good (nat sys_size) N (LM_K st'))"
  unfolding spherical_node_FoR_dynamicmat_def
  apply (insert assms)
  apply ((erule (1) notE) | rule bind_assoc | rule bind_if | rule bind_Inr | rule bind_zeros2
    | (rule bind_upd_rect, assumption)
    | (rule bind_coupling, assumption, assumption, (simp add: frame_window_def node_window_def body_free_def free_frame_ok_def split: sum.splits; fail), (simp add: frame_window_def node_window_def body_free_def free_frame_ok_def split: sum.splits; fail), (simp add: frame_window_def node_window_def body_free_def free_frame_ok_def split: sum.splits; fail), (simp add: frame_window_def node_window_def body_free_def free_frame_ok_def split: sum.splits; fail))
    | (rule bind_upd_good, assumption, (simp add: frame_window_def node_window_def body_free_def free_frame_ok_def split: sum.splits; fail), (simp add: frame_window_def node_window_def body_free_def free_frame_ok_def split: sum.splits; fail), (simp add: frame_window_def node_window_def body_free_def free_frame_ok_def split: sum.splits; fail), (simp add: frame_window_def node_window_def body_free_def free_frame_ok_def split: sum.splits; fail), (simp add: frame_window_def node_window_def body_free_def free_frame_ok_def split: sum.splits; fail), (simp add: frame_window_def node_window_def body_free_def free_frame_ok_def split: sum.splits; fail), (simp add: frame_window_def node_window_def body_free_def free_frame_ok_def split: sum.splits; fail), (simp add: frame_window_def node_window_def body_free_def free_frame_ok_def split: sum.splits; fail))
    | (rule bind_equal_lin_vel, assumption, assumption, (simp add: frame_window_def node_window_def body_free_def free_frame_ok_def split: sum.splits; fail), (simp add: frame_window_def node_window_def body_free_def free_frame_ok_def split: sum.splits; fail), (simp add: frame_window_def node_window_def body_free_def free_frame_ok_def split: sum.splits; fail), (simp add: frame_window_def node_window_def body_free_def free_frame_ok_def split: sum.splits; fail), (simp add: frame_window_def node_window_def body_free_def free_frame_ok_def split: sum.splits; fail), (simp add: frame_window_def node_window_def body_free_def free_frame_ok_def split: sum.splits; fail), (simp add: frame_window_def node_window_def body_free_def free_frame_ok_def split: sum.splits; fail), (simp add: frame_window_def node_window_def body_free_def free_frame_ok_def split: sum.splits; fail))
    | (rule bind_def_rot_axis, assumption, assumption, (simp add: frame_window_def node_window_def body_free_def free_frame_ok_def split: sum.splits; fail), (simp add: frame_window_def node_window_def body_free_def free_frame_ok_def split: sum.splits; fail), (simp add: frame_window_def node_window_def body_free_def free_frame_ok_def split: sum.splits; fail), (simp add: frame_window_def node_window_def body_free_def free_frame_ok_def split: sum.splits; fail), (simp add: frame_window_def node_window_def body_free_def free_frame_ok_def split: sum.splits; fail), (simp add: frame_window_def node_window_def body_free_def free_frame_ok_def split: sum.splits; fail), (simp add: frame_window_def node_window_def body_free_def free_frame_ok_def split: sum.splits; fail), (simp add: frame_window_def node_window_def body_free_def free_frame_ok_def split: sum.splits; fail))
    | (rule bind_def_rot_vel, assumption, assumption, (simp add: frame_window_def node_window_def body_free_def free_frame_ok_def split: sum.splits; fail), (simp add: frame_window_def node_window_def body_free_def free_frame_ok_def split: sum.splits; fail), (simp add: frame_window_def node_window_def body_free_def free_frame_ok_def split: sum.splits; fail), (simp add: frame_window_def node_window_def body_free_def free_frame_ok_def split: sum.splits; fail), (simp add: frame_window_def node_window_def body_free_def free_frame_ok_def split: sum.splits; fail), (simp add: frame_window_def node_window_def body_free_def free_frame_ok_def split: sum.splits; fail), (simp add: frame_window_def node_window_def body_free_def free_frame_ok_def split: sum.splits; fail), (simp add: frame_window_def node_window_def body_free_def free_frame_ok_def split: sum.splits; fail))
    | rule bind_as_int | rule bind_FoR_dof | rule bind_node_dof
    | rule bind_beam | rule post_bind_any
    | (rule post_Inr, (simp; fail)))+
  done

lemma spherical_FoR_dynamicmat_post:
  assumes "good (nat sys_size) N (LM_C st)" and "good (nat sys_size) N (LM_K st)"
    and "0 \<le> sys_size" and "0 \<le> ieq" and "sys_size + ieq + 3 \<le> int N"
  shows "post (spherical_FoR_dynamicmat body_FoR ieq
      MB_beam MB_tstep sys_size Lambda_dot scalingFactor penaltyFactor st)
    (\<lambda>st'. good (nat sys_size) N (LM_C st') \<and> good (nat sys_size) N (LM_K st'))"
  unfolding spherical_FoR_dynamicmat_def
  apply (insert assms)
  apply ((erule (1) notE) | rule bind_assoc | rule bind_if | rule bind_Inr | rule bind_zeros2
    | (rule bind_upd_rect, assumption)
    | (rule bind_coupling, assumption, assumption, (simp add: frame_window_def node_window_def body_free_def free_frame_ok_def split: sum.splits; fail), (simp add: frame_window_def node_window_def body_free_def free_frame_ok_def split: sum.splits; fail), (simp add: frame_window_def node_window_def body_free_def free_frame_ok_def split: sum.splits; fail), (simp add: frame_window_def node_window_def body_free_def free_frame_ok_def split: sum.splits; fail))
    | (rule bind_upd_good, assumption, (simp add: frame_window_def node_window_def body_free_def free_frame_ok_def split: sum.splits; fail), (simp add: frame_window_def node_window_def body_free_def free_frame_ok_def split: sum.splits; fail), (simp add: frame_window_def node_window_def body_free_def free_frame_ok_def split: sum.splits; fail), (simp add: frame_window_def node_window_def body_free_def free_frame_ok_def split: sum.splits; fail), (simp add: frame_window_def node_window_def body_free_def free_frame_ok_def split: sum.splits; fail), (simp add: frame_window_def node_window_def body_free_def free_frame_ok_def split: sum.splits; fail), (simp add: frame_window_def node_window_def body_free_def free_frame_ok_def split: sum.splits; fail), (simp add: frame_window_def node_window_def body_free_def free_frame_ok_def split: sum.splits; fail))
    | (rule bind_equal_lin_vel, assumption, assumption, (simp add: frame_window_def node_window_def body_free_def free_frame_ok_def split: sum.splits; fail), (simp add: frame_window_def node_window_def body_free_def free_frame_ok_def split: sum.splits; fail), (simp add: frame_window_def node_window_def body_free_def free_frame_ok_def split: sum.splits; fail), (simp add: frame_window_def node_window_def body_free_def free_frame_ok_def split: sum.splits; fail), (simp add: frame_window_def node_window_def body_free_def free_frame_ok_def split: sum.splits; fail), (simp add: frame_window_def node_window_def body_free_def free_frame_ok_def split: sum.splits; fail), (simp add: frame_window_def node_window_def body_free_def free_frame_ok_def split: sum.splits; fail), (simp add: frame_window_def node_window_def body_free_def free_frame_ok_def split: sum.splits; fail))
    | (rule bind_def_rot_axis, assumption, assumption, (simp add: frame_window_def node_window_def body_free_def free_frame_ok_def split: sum.splits; fail), (simp add: frame_window_def node_window_def body_free_def free_frame_ok_def split: sum.splits; fail), (simp add: frame_window_def node_window_def body_free_def free_frame_ok_def split: sum.splits; fail), (simp add: frame_window_def node_window_def body_free_def free_frame_ok_def split: sum.splits; fail), (simp add: frame_window_def node_window_def body_free_def free_frame_ok_def split: sum.splits; fail), (simp add: frame_window_def node_window_def body_free_def free_frame_ok_def split: sum.splits; fail), (simp add: frame_window_def node_window_def body_free_def free_frame_ok_def split: sum.splits; fail), (simp add: frame_window_def node_window_def body_free_def free_frame_ok_def split: sum.splits; fail))
    | (rule bind_def_rot_vel, assumption, assumption, (simp add: frame_window_def node_window_def body_free_def free_frame_ok_def split: sum.splits; fail), (simp add: frame_window_def node_window_def body_free_def free_frame_ok_def split: sum.splits; fail), (simp add: frame_window_def node_window_def body_free_def free_frame_ok_def split: sum.splits; fail), (simp add: frame_window_def node_window_def body_free_def free_frame_ok_def split: sum.splits; fail), (simp add: frame_window_def node_window_def body_free_def free_frame_ok_def split: sum.splits; fail), (simp add: frame_window_def node_window_def body_free_def free_frame_ok_def split: sum.splits; fail), (simp add: frame_window_def node_window_def body_free_def free_frame_ok_def split: sum.splits; fail), (simp add: frame_window_def node_window_def body_free_def free_frame_ok_def split: sum.splits; fail))
    | rule bind_as_int | rule bind_FoR_dof | rule bind_node_dof
    | rule bind_beam | rule post_bind_any
    | (rule post_Inr, (simp; fail)))+
  done

lemma hinge_FoR_dynamicmat_post:
  assumes "good (nat sys_size) N (LM_C st)" and "good (nat sys_size) N (LM_K st)"
    and "0 \<le> sys_size" and "0 \<le> ieq" and "sys_size + ieq + 5 \<le> int N"
  shows "post (hinge_FoR_dynamicmat alg body_FoR rot_axis ieq
      MB_beam MB_tstep sys_size Lambda_dot scalingFactor penaltyFactor st)
    (\<lambda>st'. good (nat sys_size) N (LM_C st') \<and> good (nat sys_size) N (LM_K st'))"
  unfolding hinge_FoR_dynamicmat_def
  apply (insert assms)
  apply ((erule (1) notE) | rule bind_assoc | rule bind_if | rule bind_Inr | rule bind_zeros2
    | (rule bind_upd_rect, assumption)
    | (rule bind_coupling, assumption, assumption, (simp add: frame_window_def node_window_def body_free_def free_frame_ok_def split: sum.splits; fail), (simp add: frame_window_def node_window_def body_free_def free_frame_ok_def split: sum.splits; fail), (simp add: frame_window_def node_window_def body_free_def free_frame_ok_def split: sum.splits; fail), (simp add: frame_window_def node_window_def body_free_def free_frame_ok_def split: sum.splits; fail))
    | (rule bind_upd_good, assumption, (simp add: frame_window_def node_window_def body_free_def free_frame_ok_def split: sum.splits; fail), (simp add: frame_window_def node_window_def body_free_def free_frame_ok_def split: sum.splits; fail), (simp add: frame_window_def node_window_def body_free_def free_frame_ok_def split: sum.splits; fail), (simp add: frame_window_def node_window_def body_free_def free_frame_ok_def split: sum.splits; fail), (simp add: frame_window_def node_window_def body_free_def free_frame_ok_def split: sum.splits; fail), (simp add: frame_window_def node_window_def body_free_def free_frame_ok_def split: sum.splits; fail), (simp add: frame_window_def node_window_def body_free_def free_frame_ok_def split: sum.splits; fail), (simp add: frame_window_def node_window_def body_free_def free_frame_ok_def split: sum.splits; fail))
    | (rule bind_equal_lin_vel, assumption, assumption, (simp add: frame_window_def node_window_def body_free_def free_frame_ok_def split: sum.splits; fail), (simp add: frame_window_def node_window_def body_free_def free_frame_ok_def split: sum.splits; fail), (simp add: frame_window_def node_window_def body_free_def free_frame_ok_def split: sum.splits; fail), (simp add: frame_window_def node_window_def body_free_def free_frame_ok_def split: sum.splits; fail), (simp add: frame_window_def node_window_def body_free_def free_frame_ok_def split: sum.splits; fail), (simp add: frame_window_def node_window_def body_free_def free_frame_ok_def split: sum.splits; fail), (simp add: frame_window_def node_window_def body_free_def free_frame_ok_def split: sum.splits; fail), (simp add: frame_window_def node_window_def body_free_def free_frame_ok_def split: sum.splits; fail))
    | (rule bind_def_rot_axis, assumption, assumption, (simp add: frame_window_def node_window_def body_free_def free_frame_ok_def split: sum.splits; fail), (simp add: frame_window_def node_window_def body_free_def free_frame_ok_def split: sum.splits; fail), (simp add: frame_window_def node_window_def body_free_def free_frame_ok_def split: sum.splits; fail), (simp add: frame_window_def node_window_def body_free_def free_frame_ok_def split: sum.splits; fail), (simp add: frame_window_def node_window_def body_free_def free_frame_ok_def split: sum.splits; fail), (simp add: frame_window_def node_window_def body_free_def free_frame_ok_def split: sum.splits; fail), (simp add: frame_window_def node_window_def body_free_def free_frame_ok_def split: sum.splits; fail), (simp add: frame_window_def node_window_def body_free_def free_frame_ok_def split: sum.splits; fail))
    | (rule bind_def_rot_vel, assumption, assumption, (simp add: frame_window_def node_window_def body_free_def free_frame_ok_def split: sum.splits; fail), (simp add: frame_window_def node_window_def body_free_def free_frame_ok_def split: sum.splits; fail), (simp add: frame_window_def node_window_def body_free_def free_frame_ok_def split: sum.splits; fail), (simp add: frame_window_def node_window_def body_free_def free_frame_ok_def split: sum.splits; fail), (simp add: frame_window_def node_window_def body_free_def free_frame_ok_def split: sum.splits; fail), (simp add: frame_window_def node_window_def body_free_def free_frame_ok_def split: sum.splits; fail), (simp add: frame_window_def node_window_def body_free_def free_frame_ok_def split: sum.splits; fail), (simp add: frame_window_def node_window_def body_free_def free_frame_ok_def split: sum.splits; fail))
    | rule bind_as_int | rule bind_FoR_dof | rule bind_node_dof
    | rule bind_beam | rule post_bind_any
    | (rule post_Inr, (simp; fail)))+
  done

lemma hinge_FoR_wrtG_dynamicmat_post:
  assumes "good (nat sys_size) N (LM_C st)" and "good (nat sys_size) N (LM_K st)"
    and "0 \<le> sys_size" and "0 \<le> ieq" and "sys_size + ieq + 5 \<le> int N"
    and "frame_window MB_beam sys_size body_FoR"
  shows "post (hinge_FoR_wrtG_dynamicmat alg body_FoR rot_axis ieq
      MB_beam MB_tstep sys_size Lambda_dot scalingFactor penaltyFactor st)
    (\<lambda>st'. good (nat sys_size) N (LM_C st') \<and> good (nat sys_size) N (LM_K st'))"
  unfolding hinge_FoR_wrtG_dynamicmat_def
  apply (insert assms)
  apply ((erule (1) notE) | rule bind_assoc | rule bind_if | rule bind_Inr | rule bind_zeros2
    | (rule bind_upd_rect, assumption)
    | (rule bind_coupling, assumption, assumption, (simp add: frame_window_def node_window_def body_free_def free_frame_ok_def split: sum.splits; fail), (simp add: frame_window_def node_window_def body_free_def free_frame_ok_def split: sum.splits; fail), (simp add: frame_window_def node_window_def body_free_def free_frame_ok_def split: sum.splits; fail), (simp add: frame_window_def node_window_def body_free_def free_frame_ok_def split: sum.splits; fail))
    | (rule bind_upd_good, assumption, (simp add: frame_window_def node_window_def body_free_def free_frame_ok_def split: sum.splits; fail), (simp add: frame_window_def node_window_def body_free_def free_frame_ok_def split: sum.splits; fail), (simp add: frame_window_def node_window_def body_free_def free_frame_ok_def split: sum.splits; fail), (simp add: frame_window_def node_window_def body_free_def free_frame_ok_def split: sum.splits; fail), (simp add: frame_window_def node_window_def body_free_def free_frame_ok_def split: sum.splits; fail), (simp add: frame_window_def node_window_def body_free_def free_frame_ok_def split: sum.splits; fail), (simp add: frame_window_def node_window_def body_free_def free_frame_ok_def split: sum.splits; fail), (simp add: frame_window_def node_window_def body_free_def free_frame_ok_def split: sum.splits; fail))
    | (rule bind_equal_lin_vel, assumption, assumption, (simp add: frame_window_def node_window_def body_free_def free_frame_ok_def split: sum.splits; fail), (simp add: frame_window_def node_window_def body_free_def free_frame_ok_def split: sum.splits; fail), (simp add: frame_window_def node_window_def body_free_def free_frame_ok_def split: sum.splits; fail), (simp add: frame_window_def node_window_def body_free_def free_frame_ok_def split: sum.splits; fail), (simp add: frame_window_def node_window_def body_free_def free_frame_ok_def split: sum.splits; fail), (simp add: frame_window_def node_window_def body_free_def free_frame_ok_def split: sum.splits; fail), (simp add: frame_window_def node_window_def body_free_def free_frame_ok_def split: sum.splits; fail), (simp add: frame_window_def node_window_def body_free_def free_frame_ok_def split: sum.splits; fail))
    | (rule bind_def_rot_axis, assumption, assumption, (simp add: frame_window_def node_window_def body_free_def free_frame_ok_def split: sum.splits; fail), (simp add: frame_window_def node_window_def body_free_def free_frame_ok_def split: sum.splits; fail), (simp add: frame_window_def node_window_def body_free_def free_frame_ok_def split: sum.splits; fail), (simp add: frame_window_def node_window_def body_free_def free_frame_ok_def split: sum.splits; fail), (simp add: frame_window_def node_window_def body_free_def free_frame_ok_def split: sum.splits; fail), (simp add: frame_window_def node_window_def body_free_def free_frame_ok_def split: sum.splits; fail), (simp add: frame_window_def node_window_def body_free_def free_frame_ok_def split: sum.splits; fail), (simp add: frame_window_def node_window_def body_free_def free_frame_ok_def split: sum.splits; fail))
    | (rule bind_def_rot_vel, assumption, assumption, (simp add: frame_window_def node_window_def body_free_def free_frame_ok_def split: sum.splits; fail), (simp add: frame_window_def node_window_def body_free_def free_frame_ok_def split: sum.splits; fail), (simp add: frame_window_def node_window_def body_free_def free_frame_ok_def split: sum.splits; fail), (simp add: frame_window_def node_window_def body_free_def free_frame_ok_def split: sum.splits; fail), (simp add: frame_window_def node_window_def body_free_def free_frame_ok_def split: sum.splits; fail), (simp add: frame_window_def node_window_def body_free_def free_frame_ok_def split: sum.splits; fail), (simp add: frame_window_def node_window_def body_free_def free_frame_ok_def split: sum.splits; fail), (simp add: frame_window_def node_window_def body_free_def free_frame_ok_def split: sum.splits; fail))
    | rule bind_as_int | rule bind_FoR_dof | rule bind_node_dof
    | rule bind_beam | rule post_bind_any
    | (rule post_Inr, (simp; fail)))+
  done

lemma fully_constrained_node_FoR_dynamicmat_post:
  assumes "good (nat sys_size) N (LM_C st)" and "good (nat sys_size) N (LM_K st)"
    and "0 \<le> sys_size" and "0 \<le> ieq" and "sys_size + ieq + 6 \<le> int N"
    and "frame_window MB_beam sys_size FoR_body"
    and "node_window MB_beam sys_size node_body node_number"
  shows "post (fully_constrained_node_FoR_dynamicmat alg node_number node_body FoR_body ieq
      MB_beam MB_tstep sys_size Lambda_dot scalingFactor penaltyFactor st)
    (\<lambda>st'. good (nat sys_size) N (LM_C st') \<and> good (nat sys_size) N (LM_K st'))"
  unfolding fully_constrained_node_FoR_dynamicmat_def
  apply (insert assms)
  apply ((erule (1) notE) | rule bind_assoc | rule bind_if | rule bind_Inr | rule bind_zeros2
    | (rule bind_upd_rect, assumption)
    | (rule bind_coupling, assumption, assumption, (simp add: frame_window_def node_window_def body_free_def free_frame_ok_def split: sum.splits; fail), (simp add: frame_window_def node_window_def body_free_def free_frame_ok_def split: sum.splits; fail), (simp add: frame_window_def node_window_def body_free_def free_frame_ok_def split: sum.splits; fail), (simp add: frame_window_def node_window_def body_free_def free_frame_ok_def split: sum.splits; fail))
    | (rule bind_upd_good, assumption, (simp add: frame_window_def node_window_def body_free_def free_frame_ok_def split: sum.splits; fail), (simp add: frame_window_def node_window_def body_free_def free_frame_ok_def split: sum.splits; fail), (simp add: frame_window_def node_window_def body_free_def free_frame_ok_def split: sum.splits; fail), (simp add: frame_window_def node_window_def body_free_def free_frame_ok_def split: sum.splits; fail), (simp add: frame_window_def node_window_def body_free_def free_frame_ok_def split: sum.splits; fail), (simp add: frame_window_def node_window_def body_free_def free_frame_ok_def split: sum.splits; fail), (simp add: frame_window_def node_window_def body_free_def free_frame_ok_def split: sum.splits; fail), (simp add: frame_window_def node_window_def body_free_def free_frame_ok_def split: sum.splits; fail))
    | (rule bind_equal_lin_vel, assumption, assumption, (simp add: frame_window_def node_window_def body_free_def free_frame_ok_def split: sum.splits; fail), (simp add: frame_window_def node_window_def body_free_def free_frame_ok_def split: sum.splits; fail), (simp add: frame_window_def node_window_def body_free_def free_frame_ok_def split: sum.splits; fail), (simp add: frame_window_def node_window_def body_free_def free_frame_ok_def split: sum.splits; fail), (simp add: frame_window_def node_window_def body_free_def free_frame_ok_def split: sum.splits; fail), (simp add: frame_window_def node_window_def body_free_def free_frame_ok_def split: sum.splits; fail), (simp add: frame_window_def node_window_def body_free_def free_frame_ok_def split: sum.splits; fail), (simp add: frame_window_def node_window_def body_free_def free_frame_ok_def split: sum.splits; fail))
    | (rule bind_def_rot_axis, assumption, assumption, (simp add: frame_window_def node_window_def body_free_def free_frame_ok_def split: sum.splits; fail), (simp add: frame_window_def node_window_def body_free_def free_frame_ok_def split: sum.splits; fail), (simp add: frame_window_def node_window_def body_free_def free_frame_ok_def split: sum.splits; fail), (simp add: frame_window_def node_window_def body_free_def free_frame_ok_def split: sum.splits; fail), (simp add: frame_window_def node_window_def body_free_def free_frame_ok_def split: sum.splits; fail), (simp add: frame_window_def node_window_def body_free_def free_frame_ok_def split: sum.splits; fail), (simp add: frame_window_def node_window_def body_free_def free_frame_ok_def split: sum.splits; fail), (simp add: frame_window_def node_window_def body_free_def free_frame_ok_def split: sum.splits; fail))
    | (rule bind_def_rot_vel, assumption, assumption, (simp add: frame_window_def node_window_def body_free_def free_frame_ok_def split: sum.splits; fail), (simp add: frame_window_def node_window_def body_free_def free_frame_ok_def split: sum.splits; fail), (simp add: frame_window_def node_window_def body_free_def free_frame_ok_def split: sum.splits; fail), (simp add: frame_window_def node_window_def body_free_def free_frame_ok_def split: sum.splits; fail), (simp add: frame_window_def node_window_def body_free_def free_frame_ok_def split: sum.splits; fail), (simp add: frame_window_def node_window_def body_free_def free_frame_ok_def split: sum.splits; fail), (simp add: frame_window_def node_window_def body_free_def free_frame_ok_def split: sum.splits; fail), (simp add: frame_window_def node_window_def body_free_def free_frame_ok_def split: sum.splits; fail))
    | rule bind_as_int | rule bind_FoR_dof | rule bind_node_dof
    | rule bind_beam | rule post_bind_any
    | (rule post_Inr, (simp; fail)))+
  done

lemma constant_rot_vel_FoR_dynamicmat_post:
  assumes "good (nat sys_size) N (LM_C st)" and "good (nat sys_size) N (LM_K st)"
    and "0 \<le> sys_size" and "0 \<le> ieq" and "sys_size + ieq + 3 \<le> int N"
  shows "post (constant_rot_vel_FoR_dynamicmat rot_vel FoR_body ieq
      MB_beam MB_tstep sys_size Lambda_dot scalingFactor penaltyFactor st)
    (\<lambda>st'. good (nat sys_size) N (LM_C st') \<and> good (nat sys_size) N (LM_K st'))"
  unfolding constant_rot_vel_FoR_dynamicmat_def
  apply (insert assms)
  apply ((erule (1) notE) | rule bind_assoc | rule bind_if | rule bind_Inr | rule bind_zeros2
    | (rule bind_upd_rect, assumption)
    | (rule bind_coupling, assumption, assumption, (simp add: frame_window_def node_window_def body_free_def free_frame_ok_def split: sum.splits; fail), (simp add: frame_window_def node_window_def body_free_def free_frame_ok_def split: sum.splits; fail), (simp add: frame_window_def node_window_def body_free_def free_frame_ok_def split: sum.splits; fail), (simp add: frame_window_def node_window_def body_free_def free_frame_ok_def split: sum.splits; fail))
    | (rule bind_upd_good, assumption, (simp add: frame_window_def node_window_def body_free_def free_frame_ok_def split: sum.splits; fail), (simp add: frame_window_def node_window_def body_free_def free_frame_ok_def split: sum.splits; fail), (simp add: frame_window_def node_window_def body_free_def free_frame_ok_def split: sum.splits; fail), (simp add: frame_window_def node_window_def body_free_def free_frame_ok_def split: sum.splits; fail), (simp add: frame_window_def node_window_def body_free_def free_frame_ok_def split: sum.splits; fail), (simp add: frame_window_def node_window_def body_free_def free_frame_ok_def split: sum.splits; fail), (simp add: frame_window_def node_window_def body_free_def free_frame_ok_def split: sum.splits; fail), (simp add: frame_window_def node_window_def body_free_def free_frame_ok_def split: sum.splits; fail))
    | (rule bind_equal_lin_vel, assumption, assumption, (simp add: frame_window_def node_window_def body_free_def free_frame_ok_def split: sum.splits; fail), (simp add: frame_window_def node_window_def body_free_def free_frame_ok_def split: sum.splits; fail), (simp add: frame_window_def node_window_def body_free_def free_frame_ok_def split: sum.splits; fail), (simp add: frame_window_def node_window_def body_free_def free_frame_ok_def split: sum.splits; fail), (simp add: frame_window_def node_window_def body_free_def free_frame_ok_def split: sum.splits; fail), (simp add: frame_window_def node_window_def body_free_def free_frame_ok_def split: sum.splits; fail), (simp add: frame_window_def node_window_def body_free_def free_frame_ok_def split: sum.splits; fail), (simp add: frame_window_def node_window_def body_free_def free_frame_ok_def split: sum.splits; fail))
    | (rule bind_def_rot_axis, assumption, assumption, (simp add: frame_window_def node_window_def body_free_def free_frame_ok_def split: sum.splits; fail), (simp add: frame_window_def node_window_def body_free_def free_frame_ok_def split: sum.splits; fail), (simp add: frame_window_def node_window_def body_free_def free_frame_ok_def split: sum.splits; fail), (simp add: frame_window_def node_window_def body_free_def free_frame_ok_def split: sum.splits; fail), (simp add: frame_window_def node_window_def body_free_def free_frame_ok_def split: sum.splits; fail), (simp add: frame_window_def node_window_def body_free_def free_frame_ok_def split: sum.splits; fail), (simp add: frame_window_def node_window_def body_free_def free_frame_ok_def split: sum.splits; fail), (simp add: frame_window_def node_window_def body_free_def free_frame_ok_def split: sum.splits; fail))
    | (rule bind_def_rot_vel, assumption, assumption, (simp add: frame_window_def node_window_def body_free_def free_frame_ok_def split: sum.splits; fail), (simp add: frame_window_def node_window_def body_free_def free_frame_ok_def split: sum.splits; fail), (simp add: frame_window_def node_window_def body_free_def free_frame_ok_def split: sum.splits; fail), (simp add: frame_window_def node_window_def body_free_def free_frame_ok_def split: sum.splits; fail), (simp add: frame_window_def node_window_def body_free_def free_frame_ok_def split: sum.splits; fail), (simp add: frame_window_def node_window_def body_free_def free_frame_ok_def split: sum.splits; fail), (simp add: frame_window_def node_window_def body_free_def free_frame_ok_def split: sum.splits; fail), (simp add: frame_window_def node_window_def body_free_def free_frame_ok_def split: sum.splits; fail))
    | rule bind_as_int | rule bind_FoR_dof | rule bind_node_dof
    | rule bind_beam | rule post_bind_any
    | (rule post_Inr, (simp; fail)))+
  done

lemma constant_vel_FoR_dynamicmat_post:
  assumes "good (nat sys_size) N (LM_C st)" and "good (nat sys_size) N (LM_K st)"
    and "0 \<le> sys_size" and "0 \<le> ieq" and "sys_size + ieq + 6 \<le> int N"
  shows "post (constant_vel_FoR_dynamicmat vel FoR_body ieq
      MB_beam MB_tstep sys_size Lambda_dot scalingFactor penaltyFactor st)
    (\<lambda>st'. good (nat sys_size) N (LM_C st') \<and> good (nat sys_size) N (LM_K st'))"
  unfolding constant_vel_FoR_dynamicmat_def
  apply (insert assms)
  apply ((erule (1) notE) | rule bind_assoc | rule bind_if | rule bind_Inr | rule bind_zeros2
    | (rule bind_upd_rect, assumption)
    | (rule bind_coupling, assumption, assumption, (simp add: frame_window_def node_window_def body_free_def free_frame_ok_def split: sum.splits; fail), (simp add: frame_window_def node_window_def body_free_def free_frame_ok_def split: sum.splits; fail), (simp add: frame_window_def node_window_def body_free_def free_frame_ok_def split: sum.splits; fail), (simp add: frame_window_def node_window_def body_free_def free_frame_ok_def split: sum.splits; fail))
    | (rule bind_upd_good, assumption, (simp add: frame_window_def node_window_def body_free_def free_frame_ok_def split: sum.splits; fail), (simp add: frame_window_def node_window_def body_free_def free_frame_ok_def split: sum.splits; fail), (simp add: frame_window_def node_window_def body_free_def free_frame_ok_def split: sum.splits; fail), (simp add: frame_window_def node_window_def body_free_def free_frame_ok_def split: sum.splits; fail), (simp add: frame_window_def node_window_def body_free_def free_frame_ok_def split: sum.splits; fail), (simp add: frame_window_def node_window_def body_free_def free_frame_ok_def split: sum.splits; fail), (simp add: frame_window_def node_window_def body_free_def free_frame_ok_def split: sum.splits; fail), (simp add: frame_window_def node_window_def body_free_def free_frame_ok_def split: sum.splits; fail))
    | (rule bind_equal_lin_vel, assumption, assumption, (simp add: frame_window_def node_window_def body_free_def free_frame_ok_def split: sum.splits; fail), (simp add: frame_window_def node_window_def body_free_def free_frame_ok_def split: sum.splits; fail), (simp add: frame_window_def node_window_def body_free_def free_frame_ok_def split: sum.splits; fail), (simp add: frame_window_def node_window_def body_free_def free_frame_ok_def split: sum.splits; fail), (simp add: frame_window_def node_window_def body_free_def free_frame_ok_def split: sum.splits; fail), (simp add: frame_window_def node_window_def body_free_def free_frame_ok_def split: sum.splits; fail), (simp add: frame_window_def node_window_def body_free_def free_frame_ok_def split: sum.splits; fail), (simp add: frame_window_def node_window_def body_free_def free_frame_ok_def split: sum.splits; fail))
    | (rule bind_def_rot_axis, assumption, assumption, (simp add: frame_window_def node_window_def body_free_def free_frame_ok_def split: sum.splits; fail), (simp add: frame_window_def node_window_def body_free_def free_frame_ok_def split: sum.splits; fail), (simp add: frame_window_def node_window_def body_free_def free_frame_ok_def split: sum.splits; fail), (simp add: frame_window_def node_window_def body_free_def free_frame_ok_def split: sum.splits; fail), (simp add: frame_window_def node_window_def body_free_def free_frame_ok_def split: sum.splits; fail), (simp add: frame_window_def node_window_def body_free_def free_frame_ok_def split: sum.splits; fail), (simp add: frame_window_def node_window_def body_free_def free_frame_ok_def split: sum.splits; fail), (simp add: frame_window_def node_window_def body_free_def free_frame_ok_def split: sum.splits; fail))
    | (rule bind_def_rot_vel, assumption, assumption, (simp add: frame_window_def node_window_def body_free_def free_frame_ok_def split: sum.splits; fail), (simp add: frame_window_def node_window_def body_free_def free_frame_ok_def split: sum.splits; fail), (simp add: frame_window_def node_window_def body_free_def free_frame_ok_def split: sum.splits; fail), (simp add: frame_window_def node_window_def body_free_def free_frame_ok_def split: sum.splits; fail), (simp add: frame_window_def node_window_def body_free_def free_frame_ok_def split: sum.splits; fail), (simp add: frame_window_def node_window_def body_free_def free_frame_ok_def split: sum.splits; fail), (simp add: frame_window_def node_window_def body_free_def free_frame_ok_def split: sum.splits; fail), (simp add: frame_window_def node_window_def body_free_def free_frame_ok_def split: sum.splits; fail))
    | rule bind_as_int | rule bind_FoR_dof | rule bind_node_dof
    | rule bind_beam | rule post_bind_any
    | (rule post_Inr, (simp; fail)))+
  done

lemma lin_vel_node_wrtA_staticmat_post:
  assumes "good (nat sys_size) N (LM_C st)" and "good (nat sys_size) N (LM_K st)"
    and "0 \<le> sys_size" and "0 \<le> ieq" and "sys_size + ieq + 3 \<le> int N"
  shows "post (lin_vel_node_wrtA_staticmat vel body_number node_number ieq
      MB_beam MB_tstep sys_size Lambda scalingFactor penaltyFactor st)
    (\<lambda>st'. good (nat sys_size) N (LM_C st') \<and> good (nat sys_size) N (LM_K st'))"
  unfolding lin_vel_node_wrtA_staticmat_def
  apply (insert assms)
  apply ((erule (1) notE) | rule bind_assoc | rule bind_if | rule bind_Inr | rule bind_zeros2
    | (rule bind_upd_rect, assumption)
    | (rule bind_coupling, assumption, assumption, (simp add: frame_window_def node_window_def body_free_def free_frame_ok_def split: sum.splits; fail), (simp add: frame_window_def node_window_def body_free_def free_frame_ok_def split: sum.splits; fail), (simp add: frame_window_def node_window_def body_free_def free_frame_ok_def split: sum.splits; fail), (simp add: frame_window_def node_window_def body_free_def free_frame_ok_def split: sum.splits; fail))
    | (rule bind_upd_good, assumption, (simp add: frame_window_def node_window_def body_free_def free_frame_ok_def split: sum.splits; fail), (simp add: frame_window_def node_window_def body_free_def free_frame_ok_def split: sum.splits; fail), (simp add: frame_window_def node_window_def body_free_def free_frame_ok_def split: sum.splits; fail), (simp add: frame_window_def node_window_def body_free_def free_frame_ok_def split: sum.splits; fail), (simp add: frame_window_def node_window_def body_free_def free_frame_ok_def split: sum.splits; fail), (simp add: frame_window_def node_window_def body_free_def free_frame_ok_def split: sum.splits; fail), (simp add: frame_window_def node_window_def body_free_def free_frame_ok_def split: sum.splits; fail), (simp add: frame_window_def node_window_def body_free_def free_frame_ok_def split: sum.splits; fail))
    | (rule bind_equal_lin_vel, assumption, assumption, (simp add: frame_window_def node_window_def body_free_def free_frame_ok_def split: sum.splits; fail), (simp add: frame_window_def node_window_def body_free_def free_frame_ok_def split: sum.splits; fail), (simp add: frame_window_def node_window_def body_free_def free_frame_ok_def split: sum.splits; fail), (simp add: frame_window_def node_window_def body_free_def free_frame_ok_def split: sum.splits; fail), (simp add: frame_window_def node_window_def body_free_def free_frame_ok_def split: sum.splits; fail), (simp add: frame_window_def node_window_def body_free_def free_frame_ok_def split: sum.splits; fail), (simp add: frame_window_def node_window_def body_free_def free_frame_ok_def split: sum.splits; fail), (simp add: frame_window_def node_window_def body_free_def free_frame_ok_def split: sum.splits; fail))
    | (rule bind_def_rot_axis, assumption, assumption, (simp add: frame_window_def node_window_def body_free_def free_frame_ok_def split: sum.splits; fail), (simp add: frame_window_def node_window_def body_free_def free_frame_ok_def split: sum.splits; fail), (simp add: frame_window_def node_window_def body_free_def free_frame_ok_def split: sum.splits; fail), (simp add: frame_window_def node_window_def body_free_def free_frame_ok_def split: sum.splits; fail), (simp add: frame_window_def node_window_def body_free_def free_frame_ok_def split: sum.splits; fail), (simp add: frame_window_def node_window_def body_free_def free_frame_ok_def split: sum.splits; fail), (simp add: frame_window_def node_window_def body_free_def free_frame_ok_def split: sum.splits; fail), (simp add: frame_window_def node_window_def body_free_def free_frame_ok_def split: sum.splits; fail))
    | (rule bind_def_rot_vel, assumption, assumption, (simp add: frame_window_def node_window_def body_free_def free_frame_ok_def split: sum.splits; fail), (simp add: frame_window_def node_window_def body_free_def free_frame_ok_def split: sum.splits; fail), (simp add: frame_window_def node_window_def body_free_def free_frame_ok_def split: sum.splits; fail), (simp add: frame_window_def node_window_def body_free_def free_frame_ok_def split: sum.splits; fail), (simp add: frame_window_def node_window_def body_free_def free_frame_ok_def split: sum.splits; fail), (simp add: frame_window_def node_window_def body_free_def free_frame_ok_def split: sum.splits; fail), (simp add: frame_window_def node_window_def body_free_def free_frame_ok_def split: sum.splits; fail), (simp add: frame_window_def node_window_def body_free_def free_frame_ok_def split: sum.splits; fail))
    | rule bind_as_int | rule bind_FoR_dof | rule bind_node_dof
    | rule bind_beam | rule post_bind_any
    | (rule post_Inr, (simp; fail)))+
  done

lemma lin_vel_node_wrtA_dynamicmat_post:
  assumes "good (nat sys_size) N (LM_C st)" and "good (nat sys_size) N (LM_K st)"
    and "0 \<le> sys_size" and "0 \<le> ieq" and "sys_size + ieq + 3 \<le> int N"
  shows "post (lin_vel_node_wrtA_dynamicmat vel body_number node_number ieq ts
      MB_beam MB_tstep sys_size Lambda_dot scalingFactor penaltyFactor st)
    (\<lambda>st'. good (nat sys_size) N (LM_C st') \<and> good (nat sys_size) N (LM_K st'))"
  unfolding lin_vel_node_wrtA_dynamicmat_def
  apply (insert assms)
  apply ((erule (1) notE) | rule bind_assoc | rule bind_if | rule bind_Inr | rule bind_zeros2
    | (rule bind_upd_rect, assumption)
    | (rule bind_coupling, assumption, assumption, (simp add: frame_window_def node_window_def body_free_def free_frame_ok_def split: sum.splits; fail), (simp add: frame_window_def node_window_def body_free_def free_frame_ok_def split: sum.splits; fail), (simp add: frame_window_def node_window_def body_free_def free_frame_ok_def split: sum.splits; fail), (simp add: frame_window_def node_window_def body_free_def free_frame_ok_def split: sum.splits; fail))
    | (rule bind_upd_good, assumption, (simp add: frame_window_def node_window_def body_free_def free_frame_ok_def split: sum.splits; fail), (simp add: frame_window_def node_window_def body_free_def free_frame_ok_def split: sum.splits; fail), (simp add: frame_window_def node_window_def body_free_def free_frame_ok_def split: sum.splits; fail), (simp add: frame_window_def node_window_def body_free_def free_frame_ok_def split: sum.splits; fail), (simp add: frame_window_def node_window_def body_free_def free_frame_ok_def split: sum.splits; fail), (simp add: frame_window_def node_window_def body_free_def free_frame_ok_def split: sum.splits; fail), (simp add: frame_window_def node_window_def body_free_def free_frame_ok_def split: sum.splits; fail), (simp add: frame_window_def node_window_def body_free_def free_frame_ok_def split: sum.splits; fail))
    | (rule bind_equal_lin_vel, assumption, assumption, (simp add: frame_window_def node_window_def body_free_def free_frame_ok_def split: sum.splits; fail), (simp add: frame_window_def node_window_def body_free_def free_frame_ok_def split: sum.splits; fail), (simp add: frame_window_def node_window_def body_free_def free_frame_ok_def split: sum.splits; fail), (simp add: frame_window_def node_window_def body_free_def free_frame_ok_def split: sum.splits; fail), (simp add: frame_window_def node_window_def body_free_def free_frame_ok_def split: sum.splits; fail), (simp add: frame_window_def node_window_def body_free_def free_frame_ok_def split: sum.splits; fail), (simp add: frame_window_def node_window_def body_free_def free_frame_ok_def split: sum.splits; fail), (simp add: frame_window_def node_window_def body_free_def free_frame_ok_def split: sum.splits; fail))
    | (rule bind_def_rot_axis, assumption, assumption, (simp add: frame_window_def node_window_def body_free_def free_frame_ok_def split: sum.splits; fail), (simp add: frame_window_def node_window_def body_free_def free_frame_ok_def split: sum.splits; fail), (simp add: frame_window_def node_window_def body_free_def free_frame_ok_def split: sum.splits; fail), (simp add: frame_window_def node_window_def body_free_def free_frame_ok_def split: sum.splits; fail), (simp add: frame_window_def node_window_def body_free_def free_frame_ok_def split: sum.splits; fail), (simp add: frame_window_def node_window_def body_free_def free_frame_ok_def split: sum.splits; fail), (simp add: frame_window_def node_window_def body_free_def free_frame_ok_def split: sum.splits; fail), (simp add: frame_window_def node_window_def body_free_def free_frame_ok_def split: sum.splits; fail))
    | (rule bind_def_rot_vel, assumption, assumption, (simp add: frame_window_def node_window_def body_free_def free_frame_ok_def split: sum.splits; fail), (simp add: frame_window_def node_window_def body_free_def free_frame_ok_def split: sum.splits; fail), (simp add: frame_window_def node_window_def body_free_def free_frame_ok_def split: sum.splits; fail), (simp add: frame_window_def node_window_def body_free_def free_frame_ok_def split: sum.splits; fail), (simp add: frame_window_def node_window_def body_free_def free_frame_ok_def split: sum.splits; fail), (simp add: frame_window_def node_window_def body_free_def free_frame_ok_def split: sum.splits; fail), (simp add: frame_window_def node_window_def body_free_def free_frame_ok_def split: sum.splits; fail), (simp add: frame_window_def node_window_def body_free_def free_frame_ok_def split: sum.splits; fail))
    | rule bind_as_int | rule bind_FoR_dof | rule bind_node_dof
    | rule bind_beam | rule post_bind_any
    | (rule post_Inr, (simp; fail)))+
  done

lemma lin_vel_node_wrtG_staticmat_post:
  assumes "good (nat sys_size) N (LM_C st)" and "good (nat sys_size) N (LM_K st)"
    and "0 \<le> sys_size" and "0 \<le> ieq" and "sys_size + ieq + 3 \<le> int N"
  shows "post (lin_vel_node_wrtG_staticmat alg vel body_number node_number ieq
      MB_beam MB_tstep sys_size Lambda scalingFactor penaltyFactor st)
    (\<lambda>st'. good (nat sys_size) N (LM_C st') \<and> good (nat sys_size) N (LM_K st'))"
  unfolding lin_vel_node_wrtG_staticmat_def
  apply (insert assms)
  apply ((erule (1) notE) | rule bind_assoc | rule bind_if | rule bind_Inr | rule bind_zeros2
    | (rule bind_upd_rect, assumption)
    | (rule bind_coupling, assumption, assumption, (simp add: frame_window_def node_window_def body_free_def free_frame_ok_def split: sum.splits; fail), (simp add: frame_window_def node_window_def body_free_def free_frame_ok_def split: sum.splits; fail), (simp add: frame_window_def node_window_def body_free_def free_frame_ok_def split: sum.splits; fail), (simp add: frame_window_def node_window_def body_free_def free_frame_ok_def split: sum.splits; fail))
    | (rule bind_upd_good, assumption, (simp add: frame_window_def node_window_def body_free_def free_frame_ok_def split: sum.splits; fail), (simp add: frame_window_def node_window_def body_free_def free_frame_ok_def split: sum.splits; fail), (simp add: frame_window_def node_window_def body_free_def free_frame_ok_def split: sum.splits; fail), (simp add: frame_window_def node_window_def body_free_def free_frame_ok_def split: sum.splits; fail), (simp add: frame_window_def node_window_def body_free_def free_frame_ok_def split: sum.splits; fail), (simp add: frame_window_def node_window_def body_free_def free_frame_ok_def split: sum.splits; fail), (simp add: frame_window_def node_window_def body_free_def free_frame_ok_def split: sum.splits; fail), (simp add: frame_window_def node_window_def body_free_def free_frame_ok_def split: sum.splits; fail))
    | (rule bind_equal_lin_vel, assumption, assumption, (simp add: frame_window_def node_window_def body_free_def free_frame_ok_def split: sum.splits; fail), (simp add: frame_window_def node_window_def body_free_def free_frame_ok_def split: sum.splits; fail), (simp add: frame_window_def node_window_def body_free_def free_frame_ok_def split: sum.splits; fail), (simp add: frame_window_def node_window_def body_free_def free_frame_ok_def split: sum.splits; fail), (simp add: frame_window_def node_window_def body_free_def free_frame_ok_def split: sum.splits; fail), (simp add: frame_window_def node_window_def body_free_def free_frame_ok_def split: sum.splits; fail), (simp add: frame_window_def node_window_def body_free_def free_frame_ok_def split: sum.splits; fail), (simp add: frame_window_def node_window_def body_free_def free_frame_ok_def split: sum.splits; fail))
    | (rule bind_def_rot_axis, assumption, assumption, (simp add: frame_window_def node_window_def body_free_def free_frame_ok_def split: sum.splits; fail), (simp add: frame_window_def node_window_def body_free_def free_frame_ok_def split: sum.splits; fail), (simp add: frame_window_def node_window_def body_free_def free_frame_ok_def split: sum.splits; fail), (simp add: frame_window_def node_window_def body_free_def free_frame_ok_def split: sum.splits; fail), (simp add: frame_window_def node_window_def body_free_def free_frame_ok_def split: sum.splits; fail), (simp add: frame_window_def node_window_def body_free_def free_frame_ok_def split: sum.splits; fail), (simp add: frame_window_def node_window_def body_free_def free_frame_ok_def split: sum.splits; fail), (simp add: frame_window_def node_window_def body_free_def free_frame_ok_def split: sum.splits; fail))
    | (rule bind_def_rot_vel, assumption, assumption, (simp add: frame_window_def node_window_def body_free_def free_frame_ok_def split: sum.splits; fail), (simp add: frame_window_def node_window_def body_free_def free_frame_ok_def split: sum.splits; fail), (simp add: frame_window_def node_window_def body_free_def free_frame_ok_def split: sum.splits; fail), (simp add: frame_window_def node_window_def body_free_def free_frame_ok_def split: sum.splits; fail), (simp add: frame_window_def node_window_def body_free_def free_frame_ok_def split: sum.splits; fail), (simp add: frame_window_def node_window_def body_free_def free_frame_ok_def split: sum.splits; fail), (simp add: frame_window_def node_window_def body_free_def free_frame_ok_def split: sum.splits; fail), (simp add: frame_window_def node_window_def body_free_def free_frame_ok_def split: sum.splits; fail))
    | rule bind_as_int | rule bind_FoR_dof | rule bind_node_dof
    | rule bind_beam | rule post_bind_any
    | (rule post_Inr, (simp; fail)))+
  done

lemma lin_vel_node_wrtG_dynamicmat_post:
  assumes "good (nat sys_size) N (LM_C st)" and "good (nat sys_size) N (LM_K st)"
    and "0 \<le> sys_size" and "0 \<le> ieq" and "sys_size + ieq + 3 \<le> int N"
    and "body_free MB_beam body_number \<longrightarrow>
       frame_window MB_beam sys_size body_number \<and> node_window MB_beam sys_size body_number node_number"
  shows "post (lin_vel_node_wrtG_dynamicmat alg vel body_number node_number ieq ts
      MB_beam MB_tstep sys_size Lambda_dot scalingFactor penaltyFactor st)
    (\<lambda>st'. good (nat sys_size) N (LM_C st') \<and> good (nat sys_size) N (LM_K st'))"
  unfolding lin_vel_node_wrtG_dynamicmat_def
  apply (insert assms)
  apply ((erule (1) notE) | rule bind_assoc | rule bind_if | rule bind_Inr | rule bind_zeros2
    | (rule bind_upd_rect, assumption)
    | (rule bind_coupling, assumption, assumption, (simp add: frame_window_def node_window_def body_free_def free_frame_ok_def split: sum.splits; fail), (simp add: frame_window_def node_window_def body_free_def free_frame_ok_def split: sum.splits; fail), (simp add: frame_window_def node_window_def body_free_def free_frame_ok_def split: sum.splits; fail), (simp add: frame_window_def node_window_def body_free_def free_frame_ok_def split: sum.splits; fail))
    | (rule bind_upd_good, assumption, (simp add: frame_window_def node_window_def body_free_def free_frame_ok_def split: sum.splits; fail), (simp add: frame_window_def node_window_def body_free_def free_frame_ok_def split: sum.splits; fail), (simp add: frame_window_def node_window_def body_free_def free_frame_ok_def split: sum.splits; fail), (simp add: frame_window_def node_window_def body_free_def free_frame_ok_def split: sum.splits; fail), (simp add: frame_window_def node_window_def body_free_def free_frame_ok_def split: sum.splits; fail), (simp add: frame_window_def node_window_def body_free_def free_frame_ok_def split: sum.splits; fail), (simp add: frame_window_def node_window_def body_free_def free_frame_ok_def split: sum.splits; fail), (simp add: frame_window_def node_window_def body_free_def free_frame_ok_def split: sum.splits; fail))
    | (rule bind_equal_lin_vel, assumption, assumption, (simp add: frame_window_def node_window_def body_free_def free_frame_ok_def split: sum.splits; fail), (simp add: frame_window_def node_window_def body_free_def free_frame_ok_def split: sum.splits; fail), (simp add: frame_window_def node_window_def body_free_def free_frame_ok_def split: sum.splits; fail), (simp add: frame_window_def node_window_def body_free_def free_frame_ok_def split: sum.splits; fail), (simp add: frame_window_def node_window_def body_free_def free_frame_ok_def split: sum.splits; fail), (simp add: frame_window_def node_window_def body_free_def free_frame_ok_def split: sum.splits; fail), (simp add: frame_window_def node_window_def body_free_def free_frame_ok_def split: sum.splits; fail), (simp add: frame_window_def node_window_def body_free_def free_frame_ok_def split: sum.splits; fail))
    | (rule bind_def_rot_axis, assumption, assumption, (simp add: frame_window_def node_window_def body_free_def free_frame_ok_def split: sum.splits; fail), (simp add: frame_window_def node_window_def body_free_def free_frame_ok_def split: sum.splits; fail), (simp add: frame_window_def node_window_def body_free_def free_frame_ok_def split: sum.splits; fail), (simp add: frame_window_def node_window_def body_free_def free_frame_ok_def split: sum.splits; fail), (simp add: frame_window_def node_window_def body_free_def free_frame_ok_def split: sum.splits; fail), (simp add: frame_window_def node_window_def body_free_def free_frame_ok_def split: sum.splits; fail), (simp add: frame_window_def node_window_def body_free_def free_frame_ok_def split: sum.splits; fail), (simp add: frame_window_def node_window_def body_free_def free_frame_ok_def split: sum.splits; fail))
    | (rule bind_def_rot_vel, assumption, assumption, (simp add: frame_window_def node_window_def body_free_def free_frame_ok_def split: sum.splits; fail), (simp add: frame_window_def node_window_def body_free_def free_frame_ok_def split: sum.splits; fail), (simp add: frame_window_def node_window_def body_free_def free_frame_ok_def split: sum.splits; fail), (simp add: frame_window_def node_window_def body_free_def free_frame_ok_def split: sum.splits; fail), (simp add: frame_window_def node_window_def body_free_def free_frame_ok_def split: sum.splits; fail), (simp add: frame_window_def node_window_def body_free_def free_frame_ok_def split: sum.splits; fail), (simp add: frame_window_def node_window_def body_free_def free_frame_ok_def split: sum.splits; fail), (simp add: frame_window_def node_window_def body_free_def free_frame_ok_def split: sum.splits; fail))
    | rule bind_as_int | rule bind_FoR_dof | rule bind_node_dof
    | rule bind_beam | rule post_bind_any
    | (rule post_Inr, (simp; fail)))+
  done

lemma dynamicmat_post:
  assumes "good (nat sys_size) N (LM_C st)" and "good (nat sys_size) N (LM_K st)"
    and "0 \<le> sys_size" and "0 \<le> ieq_of c" and "sys_size + ieq_of c + get_n_eq c \<le> int N"
    and "windows_in_range MB_beam sys_size c"
  shows "post (dynamicmat alg c MB_beam MB_tstep ts sys_size Lambda Lambda_dot scalingFactor
      penaltyFactor st)
    (\<lambda>r. good (nat sys_size) N (LM_C (fst r)) \<and> good (nat sys_size) N (LM_K (fst r)))"
proof (cases c)
  case (Hinge_node_FoR nn nb fb ax i indep)
  show ?thesis
    unfolding Hinge_node_FoR dynamicmat.simps
    by (rule post_bind_post [OF hinge_node_FoR_dynamicmat_post [of sys_size N st]])
      (use assms Hinge_node_FoR in \<open>simp_all add: get_n_eq_def post_def\<close>)
next
  case (Hinge_node_FoR_constant_vel nn nb fb ax rv i indep)
  show ?thesis
    unfolding Hinge_node_FoR_constant_vel dynamicmat.simps
    by (rule post_bind_post [OF hinge_node_FoR_constant_vel_dynamicmat_post [of sys_size N st]])
      (use assms Hinge_node_FoR_constant_vel in \<open>simp_all add: get_n_eq_def post_def\<close>)
next
  case (Spherical_node_FoR nn nb fb i)
  show ?thesis
    unfolding Spherical_node_FoR dynamicmat.simps
    by (rule post_bind_post [OF spherical_node_FoR_dynamicmat_post [of sys_size N st]])
      (use assms Spherical_node_FoR in \<open>simp_all add: get_n_eq_def post_def\<close>)
next
  case (Free i)
  show ?thesis
    unfolding Free dynamicmat.simps using assms by (simp add: post_def)
next
  case (Spherical_FoR fb i)
  show ?thesis
    unfolding Spherical_FoR dynamicmat.simps
    by (rule post_bind_post [OF spherical_FoR_dynamicmat_post [of sys_size N st]])
      (use assms Spherical_FoR in \<open>simp_all add: get_n_eq_def post_def\<close>)
next
  case (Hinge_FoR fb ax i)
  show ?thesis
    unfolding Hinge_FoR dynamicmat.simps
    by (rule post_bind_post [OF hinge_FoR_dynamicmat_post [of sys_size N st]])
      (use assms Hinge_FoR in \<open>simp_all add: get_n_eq_def post_def\<close>)
next
  case (Hinge_FoR_wrtG fb ax i)
  show ?thesis
    unfolding Hinge_FoR_wrtG dynamicmat.simps
    by (rule post_bind_post [OF hinge_FoR_wrtG_dynamicmat_post [of sys_size N st]])
      (use assms Hinge_FoR_wrtG in \<open>simp_all add: get_n_eq_def post_def\<close>)
next
  case (Fully_constrained_node_FoR nn nb fb i)
  show ?thesis
    unfolding Fully_constrained_node_FoR dynamicmat.simps
    by (rule post_bind_post [OF fully_constrained_node_FoR_dynamicmat_post [of sys_size N st]])
      (use assms Fully_constrained_node_FoR in \<open>simp_all add: get_n_eq_def post_def\<close>)
next
  case (Constant_rot_vel_FoR rv fb i)
  show ?thesis
    unfolding Constant_rot_vel_FoR dynamicmat.simps
    by (rule post_bind_post [OF constant_rot_vel_FoR_dynamicmat_post [of sys_size N st]])
      (use assms Constant_rot_vel_FoR in \<open>simp_all add: get_n_eq_def post_def\<close>)
next
  case (Constant_vel_FoR v fb i)
  show ?thesis
    unfolding Constant_vel_FoR dynamicmat.simps
    by (rule post_bind_post [OF constant_vel_FoR_dynamicmat_post [of sys_size N st]])
      (use assms Constant_vel_FoR in \<open>simp_all add: get_n_eq_def post_def\<close>)
next
  case (Lin_vel_node_wrtA v bn nn i)
  show ?thesis
    unfolding Lin_vel_node_wrtA dynamicmat.simps
    by (rule post_bind_post [OF lin_vel_node_wrtA_dynamicmat_post [of sys_size N st]])
      (use assms Lin_vel_node_wrtA in \<open>simp_all add: get_n_eq_def post_def\<close>)
next
  case (Lin_vel_node_wrtG v bn nn i)
  show ?thesis
    unfolding Lin_vel_node_wrtG dynamicmat.simps
    by (rule post_bind_post [OF lin_vel_node_wrtG_dynamicmat_post [of sys_size N st]])
      (use assms Lin_vel_node_wrtG in \<open>simp_all add: get_n_eq_def post_def\<close>)
qed

lemma staticmat_post:
  assumes "good (nat sys_size) N (LM_C st)" and "good (nat sys_size) N (LM_K st)"
    and "0 \<le> sys_size" and "0 \<le> ieq_of c" and "sys_size + ieq_of c + get_n_eq c \<le> int N"
  shows "post (staticmat alg c MB_beam MB_tstep ts sys_size Lambda Lambda_dot scalingFactor
      penaltyFactor st)
    (\<lambda>r. good (nat sys_size) N (LM_C (fst r)) \<and> good (nat sys_size) N (LM_K (fst r)))"
proof (cases c)
  case (Lin_vel_node_wrtA v bn nn i)
  show ?thesis
    unfolding Lin_vel_node_wrtA staticmat.simps
    by (rule post_bind_post [OF lin_vel_node_wrtA_staticmat_post [of sys_size N st]])
      (use assms Lin_vel_node_wrtA in \<open>simp_all add: get_n_eq_def post_def\<close>)
next
  case (Lin_vel_node_wrtG v bn nn i)
  show ?thesis
    unfolding Lin_vel_node_wrtG staticmat.simps
    by (rule post_bind_post [OF lin_vel_node_wrtG_staticmat_post [of sys_size N st]])
      (use assms Lin_vel_node_wrtG in \<open>simp_all add: get_n_eq_def post_def\<close>)
qed (use assms in \<open>simp_all add: post_def\<close>)

lemma initial_matrices_good:
  assumes "initial_matrices sys_size num_LM_eq = Inr st"
  shows "good (nat sys_size) (nat (sys_size + num_LM_eq)) (LM_C st)
       \<and> good (nat sys_size) (nat (sys_size + num_LM_eq)) (LM_K st)"
proof -
  let ?N = "nat (sys_size + num_LM_eq)"
  let ?Z = "mk_mat ?N ?N (\<lambda>i j. 0 :: real)"
  from assms have C: "LM_C st = ?Z" and K: "LM_K st = ?Z"
    by (auto simp: initial_matrices_def zeros2_def ebind_eq_Inr split: if_splits)
  have "good (nat sys_size) ?N ?Z"
  proof (cases "nat sys_size \<le> ?N")
    case True
    then show ?thesis
      by (auto simp: good_def offdiag_sym_def nth_nth_mk_mat)
  next
    case False
    then show ?thesis
      by (auto simp: good_def offdiag_sym_def)
  qed
  with C K show ?thesis by simp
qed

end
